(* ===== verification/Overlay_Prelude.thy ===== *)
theory Overlay_Prelude
  imports Complex_Main
begin

text \<open>
  Shared vocabulary of the development: the number types of the model, the unit
  interval in which every opacity lives, linear interpolation, and the generic
  machinery for running a step function over a list of events while every event
  is enabled when it occurs. Nothing here is specific to the overlay; the
  component theories import it and rely on the hints declared here.
\<close>

section \<open>Collections of facts\<close>

named_theorems overlay_defs "defining equations of the model's operations"
named_theorems unit_intros "closure properties of the unit interval"
named_theorems frame_simps "fields an operation leaves untouched"

section \<open>Numbers\<close>

text \<open>
  A JavaScript \<^verbatim>\<open>number\<close> that carries an opacity or an animation progress is a
  \<^typ>\<open>real\<close> (the rounding of IEEE doubles is not modelled); a timestamp or a
  duration is a natural number of milliseconds; the bottom sheet's snap index is
  an \<^typ>\<open>int\<close>.
\<close>

type_synonym number = real
type_synonym millis = nat

section \<open>The unit interval\<close>

definition in_unit :: "number \<Rightarrow> bool" where
  "in_unit x \<longleftrightarrow> 0 \<le> x \<and> x \<le> 1"

definition unit_map :: "(number \<Rightarrow> number) \<Rightarrow> bool" where
  "unit_map f \<longleftrightarrow> (\<forall>t. in_unit t \<longrightarrow> in_unit (f t))"

definition lerp :: "number \<Rightarrow> number \<Rightarrow> number \<Rightarrow> number" where
  "lerp a b p = a + (b - a) * p"

lemma in_unit_0 [simp, unit_intros]: "in_unit 0"
  by (simp add: in_unit_def)

lemma in_unit_1 [simp, unit_intros]: "in_unit 1"
  by (simp add: in_unit_def)

lemma in_unit_numeral [simp]: "\<not> in_unit (numeral (Num.Bit0 n))"
  by (simp add: in_unit_def)

lemma in_unit_complement [unit_intros]: "in_unit x \<Longrightarrow> in_unit (1 - x)"
  by (simp add: in_unit_def)

lemma in_unit_mult [unit_intros]: "in_unit x \<Longrightarrow> in_unit y \<Longrightarrow> in_unit (x * y)"
  by (simp add: in_unit_def mult_le_one)

lemma in_unit_ratio [unit_intros]:
  "e \<le> d \<Longrightarrow> in_unit (real e / real d)"
  by (cases "d = 0") (simp_all add: in_unit_def)

lemma unit_mapD: "unit_map f \<Longrightarrow> in_unit t \<Longrightarrow> in_unit (f t)"
  by (simp add: unit_map_def)

lemma unit_mapI: "(\<And>t. in_unit t \<Longrightarrow> in_unit (f t)) \<Longrightarrow> unit_map f"
  by (simp add: unit_map_def)

lemma unit_map_id [simp, unit_intros]: "unit_map (\<lambda>t. t)"
  by (simp add: unit_map_def)

lemma unit_map_square [unit_intros]: "unit_map (\<lambda>t. t * t)"
  by (rule unit_mapI) (rule in_unit_mult)

lemma lerp_0 [simp]: "lerp a b 0 = a"
  by (simp add: lerp_def)

lemma lerp_1 [simp]: "lerp a b 1 = b"
  by (simp add: lerp_def)

lemma lerp_same [simp]: "lerp a a p = a"
  by (simp add: lerp_def)

text \<open>A convex combination of two points of the unit interval stays inside it.\<close>

lemma in_unit_lerp [unit_intros]:
  assumes "in_unit a" and "in_unit b" and "in_unit p"
  shows "in_unit (lerp a b p)"
proof -
  have eq: "lerp a b p = (1 - p) * a + p * b"
    by (simp add: lerp_def algebra_simps)
  from assms have "0 \<le> (1 - p) * a" and "0 \<le> p * b"
    by (simp_all add: in_unit_def)
  moreover from assms have "(1 - p) * a \<le> 1 - p" and "p * b \<le> p"
    by (simp_all add: in_unit_def mult_left_le)
  ultimately show ?thesis
    unfolding eq in_unit_def by simp
qed

lemma lerp_mono:
  assumes "a \<le> b" and "p \<le> q"
  shows "lerp a b p \<le> lerp a b q"
  using assms by (simp add: lerp_def mult_left_mono)

section \<open>Running a step function over events\<close>

text \<open>
  A deterministic machine is a step function \<open>f\<close>; its run over a list of events
  is \<^term>\<open>foldl f\<close>. An event may only occur where it is enabled; \<open>admissible\<close>
  says that each event of a list is enabled in the state it meets.
\<close>

fun admissible :: "('s \<Rightarrow> 'e \<Rightarrow> bool) \<Rightarrow> ('s \<Rightarrow> 'e \<Rightarrow> 's) \<Rightarrow> 's \<Rightarrow> 'e list \<Rightarrow> bool" where
  "admissible en f s [] = True"
| "admissible en f s (e # es) = (en s e \<and> admissible en f (f s e) es)"

lemma admissible_append [simp]:
  "admissible en f s (es @ es') \<longleftrightarrow> admissible en f s es \<and> admissible en f (foldl f s es) es'"
  by (induction es arbitrary: s) auto

lemma admissible_always [simp]: "admissible (\<lambda>_ _. True) f s es"
  by (induction es arbitrary: s) auto

text \<open>An invariant kept by every enabled step holds at the end of every admissible run.\<close>

lemma foldl_invariant:
  assumes "P s" and "admissible en f s es"
    and "\<And>s e. P s \<Longrightarrow> en s e \<Longrightarrow> P (f s e)"
  shows "P (foldl f s es)"
  using assms(1,2)
proof (induction es arbitrary: s)
  case Nil
  then show ?case by simp
next
  case (Cons e es)
  from Cons.prems have "P (f s e)" and "admissible en f (f s e) es"
    by (auto intro: assms(3))
  then show ?case by (simp add: Cons.IH)
qed

text \<open>A function of the state that no step changes is the same after any run.\<close>

lemma foldl_frame:
  assumes "\<And>s e. g (f s e) = g s"
  shows "g (foldl f s es) = g s"
  by (induction es arbitrary: s) (simp_all add: assms)

section \<open>Results that may be an exception\<close>

text \<open>
  A computation that may throw returns a sum: \<open>Inl\<close> carries the exception,
  \<open>Inr\<close> the value. \<open>and_then\<close> sequences two of them; the second does not
  run when the first has thrown.
\<close>

definition and_then :: "'e + 'a \<Rightarrow> ('a \<Rightarrow> 'e + 'b) \<Rightarrow> 'e + 'b" where
  "and_then m f = (case m of Inl e \<Rightarrow> Inl e | Inr x \<Rightarrow> f x)"

lemma and_then_simps [simp]:
  "and_then (Inl e) f = Inl e" "and_then (Inr x) f = f x"
  by (simp_all add: and_then_def)

lemma and_then_Inr [simp]: "and_then m Inr = m"
  by (cases m) simp_all

lemma and_then_assoc: "and_then (and_then m f) g = and_then m (\<lambda>x. and_then (f x) g)"
  by (cases m) simp_all

lemma and_then_eq_Inr_iff: "and_then m f = Inr y \<longleftrightarrow> (\<exists>x. m = Inr x \<and> f x = Inr y)"
  by (cases m) simp_all

lemma and_then_eq_Inl_iff:
  "and_then m f = Inl e \<longleftrightarrow> m = Inl e \<or> (\<exists>x. m = Inr x \<and> f x = Inl e)"
  by (cases m) simp_all

end
