(* ===== verification/Reanimated.thy ===== *)
theory Reanimated
  imports Overlay_Prelude
begin

text \<open>
  The animation engine as the overlay uses it: a shared value is a cell that
  holds a number and, while a timing animation drives it, the animation's
  parameters. The overlay assigns to the cell either a plain number or the
  result of \<^verbatim>\<open>withTiming\<close>; the engine advances the cell once per frame and
  hands back the completion callback of an animation that has run its duration.
  The engine is not part of the repository; its behaviour is taken from the
  contract the overlay relies on (an assignment of a number abandons the
  animation in flight, an animation starts from the value the cell holds, runs
  for its duration along its easing curve and then notifies once).

  The callback type is a type variable: the engine never looks inside a
  callback, it only returns it.
\<close>

section \<open>Easing curves\<close>

text \<open>
  Curves are kept symbolic, as the source writes them
  (\<^verbatim>\<open>Easing.out(Easing.ease)\<close>). The shape of the basic curve
  \<^verbatim>\<open>Easing.ease\<close>, a cubic Bezier, is a parameter \<open>base\<close> of the
  interpretation: the theorems need only that it maps the unit interval into
  itself.
\<close>

datatype easing = Linear | Ease | Out easing

fun easing_fn :: "(number \<Rightarrow> number) \<Rightarrow> easing \<Rightarrow> number \<Rightarrow> number" where
  "easing_fn base Linear t = t"
| "easing_fn base Ease t = base t"
| "easing_fn base (Out e) t = 1 - easing_fn base e (1 - t)"

section \<open>Animations and shared values\<close>

record timing_config =
  duration :: millis
  easing :: easing

record 'cb animation =
  toValue :: number
  config :: timing_config
  callback :: 'cb
  startValue :: number
  startTime :: millis

record 'cb shared_value =
  current :: number
  running :: "'cb animation option"

text \<open>What may stand on the right of \<^verbatim>\<open>sv.value = ...\<close>.\<close>

datatype 'cb assignable = Number number | WithTiming number timing_config 'cb

definition useSharedValue :: "number \<Rightarrow> 'cb shared_value" where
  "useSharedValue v = \<lparr>current = v, running = None\<rparr>"

fun assign :: "millis \<Rightarrow> 'cb assignable \<Rightarrow> 'cb shared_value \<Rightarrow> 'cb shared_value" where
  "assign now (Number v) sv = \<lparr>current = v, running = None\<rparr>"
| "assign now (WithTiming target cfg cb) sv =
     sv\<lparr>running := Some \<lparr>toValue = target, config = cfg, callback = cb,
                          startValue = current sv, startTime = now\<rparr>\<rparr>"

definition elapsed :: "'cb animation \<Rightarrow> millis \<Rightarrow> millis" where
  "elapsed a now = now - startTime a"

definition finished :: "'cb animation \<Rightarrow> millis \<Rightarrow> bool" where
  "finished a now \<longleftrightarrow> duration (config a) \<le> elapsed a now"

definition progress :: "(number \<Rightarrow> number) \<Rightarrow> 'cb animation \<Rightarrow> millis \<Rightarrow> number" where
  "progress base a now =
     easing_fn base (easing (config a)) (real (elapsed a now) / real (duration (config a)))"

text \<open>
  One frame at time \<open>now\<close>: the new cell and the callbacks that fired. A finished
  animation leaves its target in the cell, is removed and notifies; an unfinished
  one moves the cell along the curve.
\<close>

definition frame :: "(number \<Rightarrow> number) \<Rightarrow> millis \<Rightarrow> 'cb shared_value \<Rightarrow> 'cb shared_value \<times> 'cb list" where
  "frame base now sv =
     (case running sv of
        None \<Rightarrow> (sv, [])
      | Some a \<Rightarrow>
          if finished a now then (\<lparr>current = toValue a, running = None\<rparr>, [callback a])
          else (sv\<lparr>current := lerp (startValue a) (toValue a) (progress base a now)\<rparr>, []))"

section \<open>Well-formedness\<close>

text \<open>
  A cell is \<open>within the unit interval\<close> when its value and both ends of its
  animation are; it is \<open>timely\<close> when its animation did not start in the future.
\<close>

definition sv_in_unit :: "'cb shared_value \<Rightarrow> bool" where
  "sv_in_unit sv \<longleftrightarrow>
     in_unit (current sv) \<and>
     (case running sv of None \<Rightarrow> True | Some a \<Rightarrow> in_unit (startValue a) \<and> in_unit (toValue a))"

definition sv_timely :: "millis \<Rightarrow> 'cb shared_value \<Rightarrow> bool" where
  "sv_timely now sv \<longleftrightarrow> (case running sv of None \<Rightarrow> True | Some a \<Rightarrow> startTime a \<le> now)"

definition idle :: "'cb shared_value \<Rightarrow> bool" where
  "idle sv \<longleftrightarrow> running sv = None"

lemmas engine_defs [overlay_defs] =
  useSharedValue_def elapsed_def finished_def progress_def frame_def

section \<open>Easing\<close>

lemma easing_fn_unit_map [unit_intros]:
  "unit_map base \<Longrightarrow> unit_map (easing_fn base e)"
proof (induction e)
  case (Out e)
  then show ?case
    by (auto intro!: unit_mapI in_unit_complement dest: unit_mapD)
qed (simp_all add: unit_map_def)

lemma easing_fn_in_unit:
  "unit_map base \<Longrightarrow> in_unit t \<Longrightarrow> in_unit (easing_fn base e t)"
  by (rule unit_mapD [OF easing_fn_unit_map])

lemma easing_fn_ends:
  assumes "base 0 = 0" and "base 1 = 1"
  shows "easing_fn base e 0 = 0" and "easing_fn base e 1 = 1"
  using assms by (induction e) simp_all

section \<open>Assignment\<close>

lemma useSharedValue_simps [simp]:
  "current (useSharedValue v) = v" "running (useSharedValue v) = None"
  by (simp_all add: useSharedValue_def)

lemma idle_useSharedValue [simp]: "idle (useSharedValue v)"
  by (simp add: idle_def)

lemma idle_assign_Number [simp]: "idle (assign now (Number v) sv)"
  by (simp add: idle_def)

lemma not_idle_assign_WithTiming [simp]: "\<not> idle (assign now (WithTiming target cfg cb) sv)"
  by (simp add: idle_def)

lemma current_assign:
  "current (assign now rhs sv) = (case rhs of Number v \<Rightarrow> v | WithTiming _ _ _ \<Rightarrow> current sv)"
  by (cases rhs) simp_all

lemma sv_in_unit_useSharedValue [simp]: "sv_in_unit (useSharedValue v) \<longleftrightarrow> in_unit v"
  by (simp add: sv_in_unit_def)

lemma sv_in_unit_assign_Number [simp]: "sv_in_unit (assign now (Number v) sv) \<longleftrightarrow> in_unit v"
  by (simp add: sv_in_unit_def)

lemma sv_in_unit_assign_WithTiming:
  "sv_in_unit sv \<Longrightarrow> in_unit target \<Longrightarrow> sv_in_unit (assign now (WithTiming target cfg cb) sv)"
  by (simp add: sv_in_unit_def)

lemma sv_in_unit_current: "sv_in_unit sv \<Longrightarrow> in_unit (current sv)"
  by (simp add: sv_in_unit_def)

lemma sv_timely_useSharedValue [simp]: "sv_timely now (useSharedValue v)"
  by (simp add: sv_timely_def)

lemma sv_timely_assign [simp]: "sv_timely now (assign now rhs sv)"
  by (cases rhs) (simp_all add: sv_timely_def)

lemma sv_timely_mono: "sv_timely now sv \<Longrightarrow> now \<le> now' \<Longrightarrow> sv_timely now' sv"
  by (auto simp: sv_timely_def split: option.splits)

section \<open>Frames\<close>

lemma frame_idle [simp]: "idle sv \<Longrightarrow> frame base now sv = (sv, [])"
  by (simp add: frame_def idle_def)

lemma frame_finished:
  "running sv = Some a \<Longrightarrow> finished a now \<Longrightarrow>
   frame base now sv = (\<lparr>current = toValue a, running = None\<rparr>, [callback a])"
  by (simp add: frame_def)

lemma frame_unfinished:
  "running sv = Some a \<Longrightarrow> \<not> finished a now \<Longrightarrow>
   frame base now sv = (sv\<lparr>current := lerp (startValue a) (toValue a) (progress base a now)\<rparr>, [])"
  by (simp add: frame_def)

lemma frame_calls_cases:
  "snd (frame base now sv) =
     (case running sv of None \<Rightarrow> [] | Some a \<Rightarrow> if finished a now then [callback a] else [])"
  by (simp add: frame_def split: option.splits)

lemma running_frame:
  "running (fst (frame base now sv)) =
     (case running sv of None \<Rightarrow> None | Some a \<Rightarrow> if finished a now then None else Some a)"
  by (simp add: frame_def split: option.splits)

lemma frame_calls_le_1: "length (snd (frame base now sv)) \<le> 1"
  by (simp add: frame_calls_cases split: option.splits)

lemma frame_idle_iff: "idle (fst (frame base now sv)) \<longleftrightarrow> idle sv \<or> snd (frame base now sv) \<noteq> []"
  by (auto simp: frame_def idle_def split: option.splits)

text \<open>A callback fires at most once: the frame after a completion finds the cell idle.\<close>

lemma frame_calls_once:
  "snd (frame base now sv) \<noteq> [] \<Longrightarrow> snd (frame base now' (fst (frame base now sv))) = []"
  by (auto simp: frame_def split: option.splits if_splits)

lemma progress_in_unit:
  assumes "unit_map base" and "\<not> finished a now"
  shows "in_unit (progress base a now)"
proof -
  from assms(2) have "elapsed a now \<le> duration (config a)"
    by (simp add: finished_def)
  then show ?thesis
    unfolding progress_def by (intro easing_fn_in_unit assms(1) in_unit_ratio)
qed

lemma sv_in_unit_frame:
  assumes "unit_map base" and "sv_in_unit sv"
  shows "sv_in_unit (fst (frame base now sv))"
proof (cases "running sv")
  case None
  with assms(2) show ?thesis by (simp add: idle_def)
next
  case (Some a)
  with assms(2) have ends: "in_unit (startValue a)" "in_unit (toValue a)"
    by (simp_all add: sv_in_unit_def)
  show ?thesis
  proof (cases "finished a now")
    case True
    with Some ends show ?thesis by (simp add: frame_finished sv_in_unit_def)
  next
    case False
    with assms(1) have "in_unit (progress base a now)" by (rule progress_in_unit)
    with ends have "in_unit (lerp (startValue a) (toValue a) (progress base a now))"
      by (intro in_unit_lerp)
    with Some False ends show ?thesis by (simp add: frame_unfinished sv_in_unit_def)
  qed
qed

lemma sv_timely_frame: "sv_timely now sv \<Longrightarrow> sv_timely now (fst (frame base now' sv))"
  by (auto simp: frame_def sv_timely_def split: option.splits)

text \<open>
  An animation assigned at \<open>t0\<close> has delivered its target and its callback at the
  first frame that is at least its duration later, whatever curve it follows.
\<close>

lemma frame_after_assign:
  assumes "t0 + duration cfg \<le> now"
  shows "frame base now (assign t0 (WithTiming target cfg cb) sv) =
         (\<lparr>current = target, running = None\<rparr>, [cb])"
  using assms by (simp add: frame_def finished_def elapsed_def)

lemma frame_during_assign:
  assumes "t0 \<le> now" and "now < t0 + duration cfg"
  shows "frame base now (assign t0 (WithTiming target cfg cb) sv) =
         ((assign t0 (WithTiming target cfg cb) sv)
            \<lparr>current := lerp (current sv) target
               (easing_fn base (easing cfg) (real (now - t0) / real (duration cfg)))\<rparr>, [])"
  using assms by (simp add: frame_def finished_def elapsed_def progress_def)

section \<open>Sequences of frames\<close>

text \<open>
  \<open>play\<close> runs the frames that follow each other at the given distances,
  starting from the time \<open>now\<close>, and collects the callbacks in the order in
  which they fired. Since a frame computes the value from the animation's start
  and not from the previous frame, the outcome depends only on the time of the
  last frame.
\<close>

fun play :: "(number \<Rightarrow> number) \<Rightarrow> millis \<Rightarrow> millis list \<Rightarrow> 'cb shared_value \<Rightarrow>
    'cb shared_value \<times> 'cb list" where
  "play base now [] sv = (sv, [])"
| "play base now (dt # dts) sv =
     (case frame base (now + dt) sv of
        (sv', cs) \<Rightarrow> (case play base (now + dt) dts sv' of (sv'', cs') \<Rightarrow> (sv'', cs @ cs')))"

lemma play_idle [simp]: "idle sv \<Longrightarrow> play base now dts sv = (sv, [])"
  by (induction dts arbitrary: now) simp_all

lemma finished_iff: "startTime a \<le> now \<Longrightarrow> finished a now \<longleftrightarrow> startTime a + duration (config a) \<le> now"
  by (auto simp: finished_def elapsed_def)

lemma play_progress:
  assumes "running sv = Some a" and "startTime a \<le> now" and "dts \<noteq> []"
    and "now + sum_list dts < startTime a + duration (config a)"
  shows "play base now dts sv =
         (sv\<lparr>current := lerp (startValue a) (toValue a) (progress base a (now + sum_list dts))\<rparr>, [])"
  using assms
proof (induction dts arbitrary: now sv)
  case Nil
  then show ?case by simp
next
  case (Cons dt dts)
  let ?sv = "sv\<lparr>current := lerp (startValue a) (toValue a) (progress base a (now + dt))\<rparr>"
  from Cons.prems have unf: "\<not> finished a (now + dt)"
    by (simp add: finished_iff)
  with Cons.prems(1) have f: "frame base (now + dt) sv = (?sv, [])"
    by (rule frame_unfinished)
  show ?case
  proof (cases "dts = []")
    case True
    with f show ?thesis by simp
  next
    case False
    with Cons.prems have "play base (now + dt) dts ?sv =
        (?sv\<lparr>current := lerp (startValue a) (toValue a)
            (progress base a (now + dt + sum_list dts))\<rparr>, [])"
      by (intro Cons.IH) simp_all
    with f show ?thesis by (simp add: add.assoc)
  qed
qed

lemma play_completes:
  assumes "running sv = Some a" and "startTime a \<le> now" and "dts \<noteq> []"
    and "startTime a + duration (config a) \<le> now + sum_list dts"
  shows "play base now dts sv = (\<lparr>current = toValue a, running = None\<rparr>, [callback a])"
  using assms
proof (induction dts arbitrary: now sv)
  case Nil
  then show ?case by simp
next
  case (Cons dt dts)
  show ?case
  proof (cases "finished a (now + dt)")
    case True
    with Cons.prems(1) have "frame base (now + dt) sv =
        (\<lparr>current = toValue a, running = None\<rparr>, [callback a])"
      by (rule frame_finished)
    then show ?thesis by (simp add: idle_def)
  next
    case False
    let ?sv = "sv\<lparr>current := lerp (startValue a) (toValue a) (progress base a (now + dt))\<rparr>"
    from Cons.prems(1) False have f: "frame base (now + dt) sv = (?sv, [])"
      by (rule frame_unfinished)
    from False Cons.prems have "dts \<noteq> []"
      by (auto simp: finished_iff)
    with Cons.prems have "play base (now + dt) dts ?sv =
        (\<lparr>current = toValue a, running = None\<rparr>, [callback a])"
      by (intro Cons.IH) (simp_all add: add.assoc)
    with f show ?thesis by simp
  qed
qed

lemma play_Cons:
  "play base now (dt # dts) sv =
     (fst (play base (now + dt) dts (fst (frame base (now + dt) sv))),
      snd (frame base (now + dt) sv) @ snd (play base (now + dt) dts (fst (frame base (now + dt) sv))))"
  by (simp split: prod.splits)

lemma play_calls_le_1: "length (snd (play base now dts sv)) \<le> 1"
proof (induction dts arbitrary: now sv)
  case Nil
  show ?case by simp
next
  case (Cons dt dts)
  show ?case
  proof (cases "snd (frame base (now + dt) sv) = []")
    case True
    with Cons [of "now + dt" "fst (frame base (now + dt) sv)"] show ?thesis
      by (simp add: play_Cons del: play.simps)
  next
    case False
    then have "idle (fst (frame base (now + dt) sv))"
      by (simp add: frame_idle_iff)
    with frame_calls_le_1 [of base "now + dt" sv] show ?thesis
      by (simp add: play_Cons del: play.simps)
  qed
qed

text \<open>
  The outcome of a sequence of frames is that of its last frame alone: the
  engine computes each value from the start of the animation.
\<close>

lemma play_coalesce:
  assumes "sv_timely now sv" and "dts \<noteq> []"
  shows "play base now dts sv = frame base (now + sum_list dts) sv"
proof (cases "running sv")
  case None
  then show ?thesis by (simp add: idle_def)
next
  case (Some a)
  with assms(1) have t: "startTime a \<le> now"
    by (simp add: sv_timely_def)
  show ?thesis
  proof (cases "startTime a + duration (config a) \<le> now + sum_list dts")
    case True
    with t have "finished a (now + sum_list dts)"
      by (simp add: finished_iff)
    with Some have "frame base (now + sum_list dts) sv =
        (\<lparr>current = toValue a, running = None\<rparr>, [callback a])"
      by (rule frame_finished)
    with play_completes [OF Some t assms(2) True] show ?thesis by simp
  next
    case False
    with t have "\<not> finished a (now + sum_list dts)"
      by (simp add: finished_iff)
    with Some have "frame base (now + sum_list dts) sv =
        (sv\<lparr>current := lerp (startValue a) (toValue a)
            (progress base a (now + sum_list dts))\<rparr>, [])"
      by (rule frame_unfinished)
    with play_progress [OF Some t assms(2)] False show ?thesis by simp
  qed
qed

text \<open>When the callback of an animation assigned at \<open>t0\<close> fires, whatever the cell held.\<close>

lemma play_calls_after_assign:
  "snd (play base t0 dts (assign t0 (WithTiming target cfg cb) sv)) =
     (if dts \<noteq> [] \<and> duration cfg \<le> sum_list dts then [cb] else [])"
proof (cases "dts = []")
  case True
  then show ?thesis by simp
next
  case False
  have "sv_timely t0 (assign t0 (WithTiming target cfg cb) sv)"
    by (simp add: sv_timely_def)
  from play_coalesce [OF this False] show ?thesis
    using False by (simp add: frame_def finished_def elapsed_def)
qed

section \<open>Monotone curves\<close>

text \<open>
  If the basic curve is monotone, so is every curve built from it, and an
  animation towards a target above its start never moves the cell down: the
  value a frame leaves grows with the time of the frame.
\<close>

definition upwards :: "'cb shared_value \<Rightarrow> bool" where
  "upwards sv \<longleftrightarrow> (case running sv of None \<Rightarrow> True | Some a \<Rightarrow> startValue a \<le> toValue a)"

lemma easing_fn_mono: "mono base \<Longrightarrow> mono (easing_fn base e)"
  by (induction e) (auto simp: mono_def)

lemma progress_mono:
  assumes "mono base" and "now \<le> now'"
  shows "progress base a now \<le> progress base a now'"
proof -
  from assms(2) have "real (elapsed a now) / real (duration (config a)) \<le>
      real (elapsed a now') / real (duration (config a))"
    by (simp add: elapsed_def divide_right_mono)
  with easing_fn_mono [OF assms(1)] show ?thesis
    unfolding progress_def by (rule monoD)
qed

lemma finished_mono: "finished a now \<Longrightarrow> now \<le> now' \<Longrightarrow> finished a now'"
  by (simp add: finished_def elapsed_def)

lemma frame_rises:
  assumes "mono base" and "unit_map base" and "upwards sv" and "now \<le> now'"
  shows "current (fst (frame base now sv)) \<le> current (fst (frame base now' sv))"
proof (cases "running sv")
  case None
  then show ?thesis by (simp add: idle_def)
next
  case (Some a)
  with assms(3) have up: "startValue a \<le> toValue a"
    by (simp add: upwards_def)
  show ?thesis
  proof (cases "finished a now'")
    case False
    with assms(4) have "\<not> finished a now"
      by (auto dest: finished_mono)
    with Some False up show ?thesis
      by (simp add: frame_unfinished lerp_mono progress_mono [OF assms(1,4)])
  next
    case True
    show ?thesis
    proof (cases "finished a now")
      case True
      with Some \<open>finished a now'\<close> show ?thesis by (simp add: frame_finished)
    next
      case False
      with assms(2) have "progress base a now \<le> 1"
        by (auto dest: progress_in_unit simp: in_unit_def)
      with up have "lerp (startValue a) (toValue a) (progress base a now) \<le>
          lerp (startValue a) (toValue a) 1"
        by (rule lerp_mono)
      with Some False True show ?thesis
        by (simp add: frame_finished frame_unfinished)
    qed
  qed
qed

lemma upwards_frame: "upwards sv \<Longrightarrow> upwards (fst (frame base now sv))"
  by (auto simp: upwards_def running_frame split: option.splits)

end
