(* ===== verification/Gesture_Handler.thy ===== *)
theory Gesture_Handler
  imports Overlay_Prelude
begin

text \<open>
  The gesture toolkit as the overlay sees it: the states a recogniser reports,
  the event object a state-change handler receives, and a tap recogniser with a
  movement tolerance per axis. The toolkit is not part of the repository; the
  recogniser follows the contract the overlay states for it (a touch that moves
  further than the tolerance in either axis fails and never ends as a tap).
\<close>

section \<open>States and events\<close>

datatype gesture_state = UNDETERMINED | FAILED | BEGAN | CANCELLED | ACTIVE | END

record native_event =
  state :: gesture_state

record state_change_event =
  nativeEvent :: native_event

definition state_change :: "gesture_state \<Rightarrow> state_change_event" where
  "state_change st = \<lparr>nativeEvent = \<lparr>state = st\<rparr>\<rparr>"

lemma state_of_state_change [simp]: "state (nativeEvent (state_change st)) = st"
  by (simp add: state_change_def)

section \<open>A tap recogniser with a movement tolerance\<close>

datatype touch = Down number number | Move number number | Up | Cancel

record tap_recogniser =
  tap_state :: gesture_state
  origin :: "number \<times> number"

definition resting :: tap_recogniser where
  "resting = \<lparr>tap_state = UNDETERMINED, origin = (0, 0)\<rparr>"

definition exceeds :: "number \<Rightarrow> number \<Rightarrow> number \<times> number \<Rightarrow> number \<Rightarrow> number \<Rightarrow> bool" where
  "exceeds mx my org x y \<longleftrightarrow> mx < \<bar>x - fst org\<bar> \<or> my < \<bar>y - snd org\<bar>"

text \<open>
  One touch sample: the recogniser's next state and the state changes it reports
  to its handler, in order. A lifted finger ends a tap through \<open>ACTIVE\<close>.
\<close>

fun tap_step :: "number \<Rightarrow> number \<Rightarrow> tap_recogniser \<Rightarrow> touch \<Rightarrow> tap_recogniser \<times> gesture_state list" where
  "tap_step mx my r (Down x y) =
     (if tap_state r = BEGAN then (r, [])
      else (\<lparr>tap_state = BEGAN, origin = (x, y)\<rparr>, [BEGAN]))"
| "tap_step mx my r (Move x y) =
     (if tap_state r = BEGAN \<and> exceeds mx my (origin r) x y
      then (r\<lparr>tap_state := FAILED\<rparr>, [FAILED]) else (r, []))"
| "tap_step mx my r Up =
     (if tap_state r = BEGAN then (r\<lparr>tap_state := END\<rparr>, [ACTIVE, END])
      else (r\<lparr>tap_state := UNDETERMINED\<rparr>, []))"
| "tap_step mx my r Cancel =
     (if tap_state r = BEGAN then (r\<lparr>tap_state := CANCELLED\<rparr>, [CANCELLED])
      else (r\<lparr>tap_state := UNDETERMINED\<rparr>, []))"

fun recognise :: "number \<Rightarrow> number \<Rightarrow> tap_recogniser \<Rightarrow> touch list \<Rightarrow> gesture_state list" where
  "recognise mx my r [] = []"
| "recognise mx my r (t # ts) =
     (case tap_step mx my r t of (r', out) \<Rightarrow> out @ recognise mx my r' ts)"

definition in_tolerance :: "number \<Rightarrow> number \<Rightarrow> number \<times> number \<Rightarrow> touch \<Rightarrow> bool" where
  "in_tolerance mx my org t \<longleftrightarrow> (case t of Move x y \<Rightarrow> \<not> exceeds mx my org x y | _ \<Rightarrow> False)"

fun is_move :: "touch \<Rightarrow> bool" where
  "is_move (Move x y) = True"
| "is_move _ = False"

section \<open>Facts about the recogniser\<close>

lemma recognise_append:
  "recognise mx my r (ts @ us) =
   recognise mx my r ts @ recognise mx my (foldl (\<lambda>r t. fst (tap_step mx my r t)) r ts) us"
  by (induction ts arbitrary: r) (simp_all split: prod.splits)

text \<open>Moves inside the tolerance leave a begun tap as it is and report nothing.\<close>

lemma recognise_moves_within:
  assumes "tap_state r = BEGAN" and "\<forall>t \<in> set ts. in_tolerance mx my (origin r) t"
  shows "recognise mx my r (ts @ us) = recognise mx my r us"
  using assms
proof (induction ts)
  case Nil
  show ?case by simp
next
  case (Cons t ts)
  then obtain x y where "t = Move x y" "\<not> exceeds mx my (origin r) x y"
    by (auto simp: in_tolerance_def split: touch.splits)
  with Cons show ?case by simp
qed

text \<open>Once a tap has failed, nothing up to the lifting of the finger is reported.\<close>

lemma recognise_failed_silent:
  assumes "tap_state r = FAILED" and "\<forall>t \<in> set ts. is_move t"
  shows "recognise mx my r (ts @ [Up]) = []"
  using assms
proof (induction ts)
  case Nil
  then show ?case by simp
next
  case (Cons t ts)
  then obtain x y where "t = Move x y" by (cases t) auto
  with Cons show ?case by simp
qed

text \<open>A touch that stays inside the tolerance and is lifted is a tap.\<close>

lemma recognise_tap:
  assumes "\<forall>t \<in> set ms. in_tolerance mx my (x, y) t"
  shows "recognise mx my resting (Down x y # ms @ [Up]) = [BEGAN, ACTIVE, END]"
proof -
  let ?r = "\<lparr>tap_state = BEGAN, origin = (x, y)\<rparr>"
  from assms have "recognise mx my ?r (ms @ [Up]) = recognise mx my ?r [Up]"
    by (intro recognise_moves_within) simp_all
  then show ?thesis by (simp add: resting_def)
qed

text \<open>A touch that leaves the tolerance in either axis fails and is never a tap.\<close>

lemma recognise_drag:
  assumes "\<forall>t \<in> set ms. in_tolerance mx my (x, y) t" and "exceeds mx my (x, y) x' y'"
    and "\<forall>t \<in> set rest. is_move t"
  shows "recognise mx my resting (Down x y # ms @ Move x' y' # rest @ [Up]) = [BEGAN, FAILED]"
proof -
  let ?r = "\<lparr>tap_state = BEGAN, origin = (x, y)\<rparr>"
  from assms(1) have "recognise mx my ?r (ms @ Move x' y' # rest @ [Up]) =
      recognise mx my ?r (Move x' y' # rest @ [Up])"
    by (intro recognise_moves_within) simp_all
  also from assms(2) have "\<dots> = FAILED # recognise mx my (?r\<lparr>tap_state := FAILED\<rparr>) (rest @ [Up])"
    by simp
  also from assms(3) have "recognise mx my (?r\<lparr>tap_state := FAILED\<rparr>) (rest @ [Up]) = []"
    by (intro recognise_failed_silent) simp_all
  finally show ?thesis by (simp add: resting_def)
qed

text \<open>
  Whatever the touches are, the recogniser reports \<open>END\<close> at most once per
  lifted finger.
\<close>

lemma count_END_tap_step:
  "count_list (snd (tap_step mx my r t)) END = (if t = Up \<and> tap_state r = BEGAN then 1 else 0)"
  by (cases t) simp_all

lemma count_END_recognise: "count_list (recognise mx my r ts) END \<le> count_list ts Up"
proof (induction ts arbitrary: r)
  case Nil
  show ?case by simp
next
  case (Cons t ts)
  from Cons [of "fst (tap_step mx my r t)"] count_END_tap_step [of mx my r t]
  show ?case
    by (cases "tap_step mx my r t") (simp split: if_splits)
qed

end
