(* ===== verification/Style_Sheet.thy ===== *)
theory Style_Sheet
  imports Overlay_Prelude
begin

text \<open>
  View styles: a style object is a list of property bindings, a view takes an
  array of style objects, and the style in force is the array flattened so that
  a later binding of a property overrides an earlier one. The style system is
  not part of the repository; only the override order, on which the overlay's
  style array depends, is modelled.
\<close>

datatype style_value = Num number | Str string

type_synonym style = "(string \<times> style_value) list"

definition absoluteFillObject :: style where
  "absoluteFillObject =
     [(''position'', Str ''absolute''), (''left'', Num 0), (''right'', Num 0),
      (''top'', Num 0), (''bottom'', Num 0)]"

definition flatten :: "style list \<Rightarrow> string \<Rightarrow> style_value option" where
  "flatten ss = map_of (rev (concat ss))"

lemma flatten_Nil [simp]: "flatten [] k = None"
  by (simp add: flatten_def)

lemma flatten_snoc:
  "flatten (ss @ [s]) k = (case map_of (rev s) k of None \<Rightarrow> flatten ss k | Some v \<Rightarrow> Some v)"
  unfolding flatten_def by (simp add: map_add_def)

lemma flatten_single_binding [simp]: "flatten (ss @ [[(k, v)]]) k = Some v"
  by (simp add: flatten_snoc)

lemma flatten_other_binding [simp]: "k' \<noteq> k \<Longrightarrow> flatten (ss @ [[(k', v)]]) k = flatten ss k"
  by (simp add: flatten_snoc)

text \<open>
  The override order of a style array of the overlay's shape: an object, a
  single binding, an object, a single binding. The last binding wins, then the
  second object, then the first binding, then the first object.
\<close>

lemma flatten_object_binding_object_binding:
  "flatten [a, [(kb, vb)], b, [(kc, vc)]] k =
     (if k = kc then Some vc
      else case map_of (rev b) k of
             Some v \<Rightarrow> Some v
           | None \<Rightarrow> if k = kb then Some vb else map_of (rev a) k)"
  by (simp add: flatten_def map_add_def split: option.splits)

lemma map_of_rev_absoluteFillObject [simp]:
  "map_of (rev absoluteFillObject) = map_of absoluteFillObject"
  by (rule ext) (simp add: absoluteFillObject_def)

end
