(* ===== verification/Overlay.thy ===== *)
theory Overlay
  imports Reanimated Gesture_Handler Style_Sheet
begin

text \<open>
  The overlay component, \<^verbatim>\<open>ImageGalleryOverlay\<close> of
  \<^verbatim>\<open>ImageGalleryOverlay.tsx\<close>: its props, the values it takes from the
  theme, its hook state, the effect that runs when the bottom sheet's index
  changes, the animated style, the tap handler and the rendered element. Every
  definition follows the source statement by statement; the setters of the two
  state variables and the assignment to the shared value are applied in the
  order in which the effect calls them.
\<close>

section \<open>Props, theme, state\<close>

text \<open>
  \<open>closeGridView\<close> is a callback of the caller: it acts on the caller's state,
  of which the overlay knows nothing, so it is a function on a type variable.
  \<open>animatedBottomSheetIndex\<close> holds the number the bottom sheet's shared value
  contains when it is read.
\<close>

record 'w props =
  animatedBottomSheetIndex :: number
  closeGridView :: "'w \<Rightarrow> 'w"
  currentBottomSheetIndex :: int

record theme =
  overlayColor :: string
  overlay :: style

text \<open>The one call the overlay posts from the animation thread to the JS thread.\<close>

datatype js_call = SetFadedIn bool

record overlay_state =
  visible :: bool
  fadedIn :: bool
  opacity :: "js_call shared_value"

definition initial_state :: overlay_state where
  "initial_state = \<lparr>visible = False, fadedIn = False, opacity = useSharedValue 0\<rparr>"

definition setVisible :: "bool \<Rightarrow> overlay_state \<Rightarrow> overlay_state" where
  "setVisible b s = s\<lparr>visible := b\<rparr>"

definition setFadedIn :: "bool \<Rightarrow> overlay_state \<Rightarrow> overlay_state" where
  "setFadedIn b s = s\<lparr>fadedIn := b\<rparr>"

definition set_opacity :: "millis \<Rightarrow> js_call assignable \<Rightarrow> overlay_state \<Rightarrow> overlay_state" where
  "set_opacity now rhs s = s\<lparr>opacity := assign now rhs (opacity s)\<rparr>"

fun runOnJS :: "js_call \<Rightarrow> overlay_state \<Rightarrow> overlay_state" where
  "runOnJS (SetFadedIn b) s = setFadedIn b s"

section \<open>The effect on the sheet index\<close>

definition fade_config :: timing_config where
  "fade_config = \<lparr>duration = 200, easing = Out Ease\<rparr>"

definition fade_callback :: js_call where
  "fade_callback = SetFadedIn True"

definition effect_open :: "millis \<Rightarrow> overlay_state \<Rightarrow> overlay_state" where
  "effect_open now s =
     set_opacity now (WithTiming 1 fade_config fade_callback) (setVisible True s)"

definition effect_close :: "millis \<Rightarrow> overlay_state \<Rightarrow> overlay_state" where
  "effect_close now s =
     setFadedIn False (set_opacity now (Number 0) (setVisible False s))"

definition index_effect :: "millis \<Rightarrow> 'w props \<Rightarrow> overlay_state \<Rightarrow> overlay_state" where
  "index_effect now p s =
     (if currentBottomSheetIndex p > 0 then effect_open now s else effect_close now s)"

text \<open>
  The effect's dependency list is \<^verbatim>\<open>[currentBottomSheetIndex]\<close>: a
  mounted component remembers the index of its last run, and the effect runs again only
  when the index differs from it (always on the first commit).
\<close>

record fiber =
  hooks :: overlay_state
  deps :: "int option"

definition unmounted :: fiber where
  "unmounted = \<lparr>hooks = initial_state, deps = None\<rparr>"

definition useEffect :: "millis \<Rightarrow> 'w props \<Rightarrow> fiber \<Rightarrow> fiber" where
  "useEffect now p i =
     (if deps i = Some (currentBottomSheetIndex p) then i
      else \<lparr>hooks = index_effect now p (hooks i), deps = Some (currentBottomSheetIndex p)\<rparr>)"

section \<open>Style, tap handler, render\<close>

definition shown_opacity :: "'w props \<Rightarrow> overlay_state \<Rightarrow> number" where
  "shown_opacity p s = (if fadedIn s then animatedBottomSheetIndex p else current (opacity s))"

definition showOverlayStyle :: "'w props \<Rightarrow> overlay_state \<Rightarrow> style" where
  "showOverlayStyle p s = [(''opacity'', Num (shown_opacity p s))]"

definition tapEvent :: "'w props \<Rightarrow> state_change_event \<Rightarrow> 'w \<Rightarrow> 'w" where
  "tapEvent p event = (if state (nativeEvent event) = END then closeGridView p else id)"

text \<open>
  The rendered element: the tap gesture handler with its props and, as its only
  child, an animated view whose only prop is its style array.
\<close>

record 'w tap_gesture_handler =
  maxDeltaX :: number
  maxDeltaY :: number
  onHandlerStateChange :: "state_change_event \<Rightarrow> 'w \<Rightarrow> 'w"
  testID :: string
  view_style :: "style list"

definition overlay_styles :: "theme \<Rightarrow> 'w props \<Rightarrow> overlay_state \<Rightarrow> style list" where
  "overlay_styles th p s =
     [absoluteFillObject, [(''backgroundColor'', Str (overlayColor th))], overlay th,
      showOverlayStyle p s]"

definition render :: "theme \<Rightarrow> 'w props \<Rightarrow> overlay_state \<Rightarrow> 'w tap_gesture_handler option" where
  "render th p s =
     (if \<not> visible s then None
      else Some \<lparr>maxDeltaX = 16, maxDeltaY = 16, onHandlerStateChange = tapEvent p,
                 testID = ''image-gallery-overlay'', view_style = overlay_styles th p s\<rparr>)"

definition displayName :: string where
  "displayName = ''ImageGrid{imageGallery{grid{overlay}}}''"

text \<open>
  One call of the component function on a mounted fiber at time \<open>now\<close>. The
  element it returns is rendered from the state the fiber holds when the
  function runs; the effect it registers runs after that, if its dependency
  changed, and leaves the second component of the result.
\<close>

definition ImageGalleryOverlay ::
  "millis \<Rightarrow> theme \<Rightarrow> 'w props \<Rightarrow> fiber \<Rightarrow> 'w tap_gesture_handler option \<times> fiber" where
  "ImageGalleryOverlay now th p i = (render th p (hooks i), useEffect now p i)"

lemmas setter_defs = setVisible_def setFadedIn_def set_opacity_def
lemmas effect_defs = index_effect_def effect_open_def effect_close_def setter_defs
lemmas view_defs = render_def overlay_styles_def showOverlayStyle_def shown_opacity_def tapEvent_def
lemmas component_defs [overlay_defs] =
  initial_state_def unmounted_def fade_config_def fade_callback_def effect_defs useEffect_def
  view_defs ImageGalleryOverlay_def

section \<open>What each operation writes\<close>

lemma setVisible_simps [simp, frame_simps]:
  "visible (setVisible b s) = b" "fadedIn (setVisible b s) = fadedIn s"
  "opacity (setVisible b s) = opacity s"
  by (simp_all add: setVisible_def)

lemma setFadedIn_simps [simp, frame_simps]:
  "visible (setFadedIn b s) = visible s" "fadedIn (setFadedIn b s) = b"
  "opacity (setFadedIn b s) = opacity s"
  by (simp_all add: setFadedIn_def)

lemma set_opacity_simps [simp, frame_simps]:
  "visible (set_opacity now rhs s) = visible s" "fadedIn (set_opacity now rhs s) = fadedIn s"
  "opacity (set_opacity now rhs s) = assign now rhs (opacity s)"
  by (simp_all add: set_opacity_def)

lemma runOnJS_simps [simp, frame_simps]:
  "visible (runOnJS c s) = visible s" "opacity (runOnJS c s) = opacity s"
  "fadedIn (runOnJS (SetFadedIn b) s) = b"
  by (cases c; simp)+

lemma initial_state_simps [simp]:
  "visible initial_state = False" "fadedIn initial_state = False"
  "opacity initial_state = useSharedValue 0"
  by (simp_all add: initial_state_def)

lemma effect_open_simps [simp]:
  "visible (effect_open now s) = True"
  "fadedIn (effect_open now s) = fadedIn s"
  "current (opacity (effect_open now s)) = current (opacity s)"
  "running (opacity (effect_open now s)) =
     Some \<lparr>toValue = 1, config = fade_config, callback = fade_callback,
           startValue = current (opacity s), startTime = now\<rparr>"
  by (simp_all add: effect_open_def)

lemma opacity_effect_open:
  "opacity (effect_open now s) = assign now (WithTiming 1 fade_config fade_callback) (opacity s)"
  by (simp add: effect_open_def)

lemma frame_effect_open_done:
  "t0 + 200 \<le> now \<Longrightarrow>
   frame base now (opacity (effect_open t0 s)) = (useSharedValue 1, [fade_callback])"
  by (simp add: opacity_effect_open frame_after_assign fade_config_def useSharedValue_def
      del: assign.simps)

lemma effect_close_eq:
  "effect_close now s = \<lparr>visible = False, fadedIn = False, opacity = useSharedValue 0\<rparr>"
  by (simp add: effect_close_def setter_defs useSharedValue_def)

lemma effect_close_initial [simp]: "effect_close now s = initial_state"
  by (simp add: effect_close_eq initial_state_def)

lemma visible_index_effect [simp]:
  "visible (index_effect now p s) \<longleftrightarrow> 0 < currentBottomSheetIndex p"
  by (simp add: index_effect_def)

lemma sv_timely_index_effect [simp]: "sv_timely now (opacity (index_effect now p s))"
  by (simp add: index_effect_def opacity_effect_open del: assign.simps)

lemma deps_useEffect [simp]: "deps (useEffect now p i) = Some (currentBottomSheetIndex p)"
  by (simp add: useEffect_def)

lemma useEffect_same: "deps i = Some (currentBottomSheetIndex p) \<Longrightarrow> useEffect now p i = i"
  by (simp add: useEffect_def)

lemma useEffect_changed:
  "deps i \<noteq> Some (currentBottomSheetIndex p) \<Longrightarrow>
   hooks (useEffect now p i) = index_effect now p (hooks i)"
  by (simp add: useEffect_def)

lemma useEffect_idem [simp]: "useEffect now' p (useEffect now p i) = useEffect now p i"
  by (simp add: useEffect_def)

lemma ImageGalleryOverlay_simps [simp]:
  "fst (ImageGalleryOverlay now th p i) = render th p (hooks i)"
  "snd (ImageGalleryOverlay now th p i) = useEffect now p i"
  by (simp_all add: ImageGalleryOverlay_def)

lemma render_eq_None [simp]: "render th p s = None \<longleftrightarrow> \<not> visible s"
  by (simp add: render_def)

lemma tapEvent_state_change [simp]:
  "tapEvent p (state_change st) w = (if st = END then closeGridView p w else w)"
  by (simp add: tapEvent_def)

section \<open>Well-formed states\<close>

text \<open>
  The only animation the overlay ever starts is the fade towards 1 with the
  fade's configuration and callback, and it runs only while the overlay is
  visible; the owned opacity stays inside the unit interval.
\<close>

definition fade_animation :: "js_call animation \<Rightarrow> bool" where
  "fade_animation a \<longleftrightarrow> toValue a = 1 \<and> config a = fade_config \<and> callback a = fade_callback"

definition fade_only :: "overlay_state \<Rightarrow> bool" where
  "fade_only s \<longleftrightarrow>
     (case running (opacity s) of None \<Rightarrow> True | Some a \<Rightarrow> fade_animation a \<and> visible s)"

definition reset_when_hidden :: "overlay_state \<Rightarrow> bool" where
  "reset_when_hidden s \<longleftrightarrow> visible s \<or> opacity s = useSharedValue 0"

definition state_ok :: "overlay_state \<Rightarrow> bool" where
  "state_ok s \<longleftrightarrow> sv_in_unit (opacity s) \<and> fade_only s"

lemma fade_only_idle: "idle (opacity s) \<Longrightarrow> fade_only s"
  by (simp add: fade_only_def idle_def)

lemma fade_only_hidden: "fade_only s \<Longrightarrow> \<not> visible s \<Longrightarrow> idle (opacity s)"
  by (auto simp: fade_only_def idle_def split: option.splits)

lemma fade_only_initial [simp]: "fade_only initial_state"
  by (simp add: fade_only_def)

lemma fade_only_effect_open [simp]: "fade_only (effect_open now s)"
  by (simp add: fade_only_def fade_animation_def)

lemma fade_only_index_effect [simp]: "fade_only (index_effect now p s)"
  by (simp add: index_effect_def)

lemma fade_only_runOnJS [simp]: "fade_only (runOnJS c s) \<longleftrightarrow> fade_only s"
  by (simp add: fade_only_def cong: option.case_cong)

lemma fade_only_useEffect: "fade_only (hooks i) \<Longrightarrow> fade_only (hooks (useEffect now p i))"
  by (simp add: useEffect_def)

lemma reset_when_hidden_initial [simp]: "reset_when_hidden initial_state"
  by (simp add: reset_when_hidden_def)

lemma reset_when_hidden_index_effect [simp]: "reset_when_hidden (index_effect now p s)"
  by (simp add: reset_when_hidden_def index_effect_def)

lemma reset_when_hidden_runOnJS [simp]: "reset_when_hidden (runOnJS c s) \<longleftrightarrow> reset_when_hidden s"
  by (simp add: reset_when_hidden_def)

lemma reset_when_hidden_frame:
  "reset_when_hidden s \<Longrightarrow> reset_when_hidden (s\<lparr>opacity := fst (frame base now (opacity s))\<rparr>)"
  by (auto simp: reset_when_hidden_def)

lemma in_unit_effect_open:
  "sv_in_unit (opacity s) \<Longrightarrow> sv_in_unit (opacity (effect_open now s))"
  by (simp add: sv_in_unit_def)

lemma in_unit_index_effect:
  "sv_in_unit (opacity s) \<Longrightarrow> sv_in_unit (opacity (index_effect now p s))"
  by (simp add: index_effect_def in_unit_effect_open)

lemma in_unit_useEffect:
  "sv_in_unit (opacity (hooks i)) \<Longrightarrow> sv_in_unit (opacity (hooks (useEffect now p i)))"
  by (simp add: useEffect_def in_unit_index_effect)

lemma state_ok_initial [simp]: "state_ok initial_state"
  by (simp add: state_ok_def)

lemma state_ok_index_effect: "state_ok s \<Longrightarrow> state_ok (index_effect now p s)"
  by (simp add: state_ok_def in_unit_index_effect)

lemma state_ok_useEffect: "state_ok (hooks i) \<Longrightarrow> state_ok (hooks (useEffect now p i))"
  by (simp add: state_ok_def in_unit_useEffect fade_only_useEffect)

section \<open>Sample values\<close>

text \<open>
  Concrete props and a concrete theme, on which the theorems are exercised. The
  caller's state is a counter and \<open>closeGridView\<close> increments it, so the counter
  is the number of times the callback has run.
\<close>

definition sample_props :: "int \<Rightarrow> nat props" where
  "sample_props i =
     \<lparr>animatedBottomSheetIndex = 0, closeGridView = Suc, currentBottomSheetIndex = i\<rparr>"

definition sample_theme :: theme where
  "sample_theme = \<lparr>overlayColor = ''#000000CC'', overlay = [(''opacity'', Num 1)]\<rparr>"

lemma sample_props_simps [simp]:
  "animatedBottomSheetIndex (sample_props i) = 0" "closeGridView (sample_props i) = Suc"
  "currentBottomSheetIndex (sample_props i) = i"
  by (simp_all add: sample_props_def)

section \<open>Properties of the component\<close>

text \<open>
  C2. When the sheet index is zero or negative, the effect leaves the overlay
  hidden, with the fade-complete flag cleared and the owned opacity set to 0
  with no animation in flight, whatever the state was before: a fade in progress
  is abandoned and its progress is lost.
\<close>

theorem index_effect_close:
  assumes "currentBottomSheetIndex p \<le> 0"
  shows "index_effect now p s =
         \<lparr>visible = False, fadedIn = False, opacity = \<lparr>current = 0, running = None\<rparr>\<rparr>"
  using assms by (simp add: index_effect_def effect_close_def setter_defs)

theorem index_effect_close_witness:
  "currentBottomSheetIndex (sample_props 0) \<le> 0 \<and>
   index_effect 7 (sample_props 0) (setFadedIn True (effect_open 3 initial_state)) =
     \<lparr>visible = False, fadedIn = False, opacity = \<lparr>current = 0, running = None\<rparr>\<rparr>"
  using index_effect_close [of "sample_props 0" 7 "setFadedIn True (effect_open 3 initial_state)"]
  by simp

text \<open>
  C3. When the sheet index is positive, the effect makes the overlay visible and
  starts a timing animation of the owned opacity from the value it holds towards
  1, over 200 ms, on the ease-out curve, whose completion posts
  \<open>setFadedIn(true)\<close>; it neither moves the opacity itself nor touches the
  fade-complete flag.
\<close>

theorem index_effect_open:
  assumes "0 < currentBottomSheetIndex p"
  shows "index_effect now p s =
         \<lparr>visible = True, fadedIn = fadedIn s,
          opacity = \<lparr>current = current (opacity s),
                     running = Some \<lparr>toValue = 1,
                                     config = \<lparr>duration = 200, easing = Out Ease\<rparr>,
                                     callback = SetFadedIn True,
                                     startValue = current (opacity s),
                                     startTime = now\<rparr>\<rparr>\<rparr>"
  using assms
  by (simp add: index_effect_def effect_open_def setter_defs fade_config_def fade_callback_def)

theorem index_effect_open_witness:
  "0 < currentBottomSheetIndex (sample_props 2) \<and>
   index_effect 5 (sample_props 2) initial_state =
     \<lparr>visible = True, fadedIn = False,
      opacity = \<lparr>current = 0,
                 running = Some \<lparr>toValue = 1,
                                 config = \<lparr>duration = 200, easing = Out Ease\<rparr>,
                                 callback = SetFadedIn True,
                                 startValue = 0, startTime = 5\<rparr>\<rparr>\<rparr>"
  using index_effect_open [of "sample_props 2" 5 initial_state]
  by simp

text \<open>
  C18. The theme cannot override the animated opacity. Whenever the overlay is
  rendered, the opacity in force on its view is the one of the animated style
  (the drag position after the fade, the owned opacity before), whatever the
  theme's style override binds: the animated style comes last in the view's
  style array.
\<close>

theorem opacity_not_overridable:
  assumes "render th p s = Some el"
  shows "flatten (view_style el) ''opacity'' = Some (Num (shown_opacity p s))"
  using assms
  by (auto simp: render_def overlay_styles_def showOverlayStyle_def
      flatten_object_binding_object_binding split: if_splits)

theorem opacity_not_overridable_witness:
  "render sample_theme (sample_props 1) (effect_open 0 initial_state) \<noteq> None \<and>
   map_of (overlay sample_theme) ''opacity'' = Some (Num 1) \<and>
   flatten (view_style (the (render sample_theme (sample_props 1) (effect_open 0 initial_state))))
     ''opacity'' = Some (Num 0)"
proof -
  have r: "render sample_theme (sample_props 1) (effect_open 0 initial_state) =
      Some (the (render sample_theme (sample_props 1) (effect_open 0 initial_state)))"
    by (simp add: render_def)
  have "shown_opacity (sample_props 1) (effect_open 0 initial_state) = 0"
    by (simp add: shown_opacity_def)
  with opacity_not_overridable [OF r] show ?thesis
    by (simp add: sample_theme_def)
qed

text \<open>
  C19. The theme's style override wins over the theme's overlay colour and over
  the absolute fill. Whenever the overlay is rendered, every style property
  other than the opacity is taken from the theme's override if the override
  binds it; otherwise the background colour is the theme's overlay colour and
  the position is the absolute fill of the parent.
\<close>

theorem theme_override_wins:
  assumes "render th p s = Some el" and "k \<noteq> ''opacity''"
  shows "flatten (view_style el) k =
         (case map_of (rev (overlay th)) k of
            Some v \<Rightarrow> Some v
          | None \<Rightarrow> if k = ''backgroundColor'' then Some (Str (overlayColor th))
                    else map_of absoluteFillObject k)"
  using assms
  by (auto simp: render_def overlay_styles_def showOverlayStyle_def
      flatten_object_binding_object_binding split: if_splits option.splits)

theorem theme_override_wins_witness:
  "render (sample_theme\<lparr>overlay := [(''backgroundColor'', Str ''red'')]\<rparr>) (sample_props 1)
      (effect_open 0 initial_state) \<noteq> None \<and> ''backgroundColor'' \<noteq> ''opacity'' \<and>
   flatten (view_style (the (render (sample_theme\<lparr>overlay := [(''backgroundColor'', Str ''red'')]\<rparr>)
      (sample_props 1) (effect_open 0 initial_state)))) ''backgroundColor'' = Some (Str ''red'') \<and>
   flatten (view_style (the (render sample_theme (sample_props 1) (effect_open 0 initial_state))))
      ''backgroundColor'' = Some (Str ''#000000CC'')"
proof -
  let ?th = "sample_theme\<lparr>overlay := [(''backgroundColor'', Str ''red'')]\<rparr>"
  have r: "render ?th (sample_props 1) (effect_open 0 initial_state) =
      Some (the (render ?th (sample_props 1) (effect_open 0 initial_state)))"
    by (simp add: render_def)
  have r': "render sample_theme (sample_props 1) (effect_open 0 initial_state) =
      Some (the (render sample_theme (sample_props 1) (effect_open 0 initial_state)))"
    by (simp add: render_def)
  have k: "''backgroundColor'' \<noteq> ''opacity''" by simp
  from theme_override_wins [OF r k] theme_override_wins [OF r' k] show ?thesis
    by (simp add: sample_theme_def)
qed

end
