(* ===== verification/Overlay_Runtime.thy ===== *)
theory Overlay_Runtime
  imports Overlay
begin

text \<open>
  The mounted overlay in its environment. A world holds what the collaborators
  own (props, theme, the caller's state), the mounted component, the clock of
  the animation thread and the queue of calls that the animation thread has
  posted to the JS thread and that the JS thread has not run yet. The
  environment acts through five events: the parent renders with a new sheet
  index (one commit: the component function, its effect, and a second call of
  the function if the effect changed the state), the bottom sheet moves its shared value, the animation thread runs a
  frame, the JS thread runs one posted call, the gesture recogniser reports a
  state change. Each event is one operation; \<open>step\<close> dispatches on the event,
  \<open>transition\<close> is the same machine as a relation with the guards of the events
  that cannot always occur.
\<close>

section \<open>Worlds and events\<close>

record 'w world =
  the_props :: "'w props"
  the_theme :: theme
  mounted :: fiber
  clock :: millis
  js_queue :: "js_call list"
  caller :: 'w

datatype event = SetIndex int | Drag number | Frame millis | Deliver | Gesture gesture_state

abbreviation state_of :: "'w world \<Rightarrow> overlay_state" where
  "state_of w \<equiv> hooks (mounted w)"

abbreviation index_of :: "'w world \<Rightarrow> int" where
  "index_of w \<equiv> currentBottomSheetIndex (the_props w)"

definition element :: "'w world \<Rightarrow> 'w tap_gesture_handler option" where
  "element w = render (the_theme w) (the_props w) (state_of w)"

definition displayed :: "'w world \<Rightarrow> number" where
  "displayed w = shown_opacity (the_props w) (state_of w)"

section \<open>Operations\<close>

text \<open>
  One commit. React calls the component function; the effect runs; as long as
  the effect changed one of the two state variables, React calls the function
  again. (A shared value is not React state: assigning to it causes no
  render.) \<open>settle\<close> is this loop: it returns the elements the passes returned,
  in order, and the fiber the last pass left, and it returns \<open>None\<close> if the
  passes never come to an end.
\<close>

definition rerender_needed :: "overlay_state \<Rightarrow> overlay_state \<Rightarrow> bool" where
  "rerender_needed s s' \<longleftrightarrow> visible s' \<noteq> visible s \<or> fadedIn s' \<noteq> fadedIn s"

partial_function (option) settle ::
  "millis \<Rightarrow> theme \<Rightarrow> 'w props \<Rightarrow> fiber \<Rightarrow> ('w tap_gesture_handler option list \<times> fiber) option"
where
  "settle now th p i =
     (let r = ImageGalleryOverlay now th p i in
      if rerender_needed (hooks i) (hooks (snd r))
      then Option.bind (settle now th p (snd r)) (\<lambda>(els, i'). Some (fst r # els, i'))
      else Some ([fst r], snd r))"

definition commit_passes :: "'w world \<Rightarrow> ('w tap_gesture_handler option list \<times> fiber) option" where
  "commit_passes w = settle (clock w) (the_theme w) (the_props w) (mounted w)"

definition commit :: "'w world \<Rightarrow> 'w world" where
  "commit w = (case commit_passes w of None \<Rightarrow> w | Some (els, i) \<Rightarrow> w\<lparr>mounted := i\<rparr>)"

definition passes :: "int \<Rightarrow> 'w world \<Rightarrow> 'w tap_gesture_handler option list" where
  "passes i w =
     (case commit_passes (w\<lparr>the_props := (the_props w)\<lparr>currentBottomSheetIndex := i\<rparr>\<rparr>) of
        None \<Rightarrow> []
      | Some (els, i') \<Rightarrow> els)"

definition mount :: "theme \<Rightarrow> 'w props \<Rightarrow> 'w \<Rightarrow> millis \<Rightarrow> 'w world" where
  "mount th p c t0 =
     commit \<lparr>the_props = p, the_theme = th, mounted = unmounted, clock = t0,
             js_queue = [], caller = c\<rparr>"

definition set_index :: "int \<Rightarrow> 'w world \<Rightarrow> 'w world" where
  "set_index i w = commit (w\<lparr>the_props := (the_props w)\<lparr>currentBottomSheetIndex := i\<rparr>\<rparr>)"

definition drag :: "number \<Rightarrow> 'w world \<Rightarrow> 'w world" where
  "drag v w = w\<lparr>the_props := (the_props w)\<lparr>animatedBottomSheetIndex := v\<rparr>\<rparr>"

definition tick :: "(number \<Rightarrow> number) \<Rightarrow> millis \<Rightarrow> 'w world \<Rightarrow> 'w world" where
  "tick base dt w =
     (let now = clock w + dt;
          r = frame base now (opacity (state_of w))
      in w\<lparr>mounted := (mounted w)\<lparr>hooks := (state_of w)\<lparr>opacity := fst r\<rparr>\<rparr>,
           clock := now,
           js_queue := js_queue w @ snd r\<rparr>)"

definition deliver :: "'w world \<Rightarrow> 'w world" where
  "deliver w =
     (case js_queue w of
        [] \<Rightarrow> w
      | c # q \<Rightarrow> w\<lparr>mounted := (mounted w)\<lparr>hooks := runOnJS c (state_of w)\<rparr>, js_queue := q\<rparr>)"

definition gesture :: "gesture_state \<Rightarrow> 'w world \<Rightarrow> 'w world" where
  "gesture st w =
     (case element w of
        None \<Rightarrow> w
      | Some el \<Rightarrow> w\<lparr>caller := onHandlerStateChange el (state_change st) (caller w)\<rparr>)"

fun step :: "(number \<Rightarrow> number) \<Rightarrow> 'w world \<Rightarrow> event \<Rightarrow> 'w world" where
  "step base w (SetIndex i) = set_index i w"
| "step base w (Drag v) = drag v w"
| "step base w (Frame dt) = tick base dt w"
| "step base w Deliver = deliver w"
| "step base w (Gesture st) = gesture st w"

fun enabled :: "'w world \<Rightarrow> event \<Rightarrow> bool" where
  "enabled w Deliver \<longleftrightarrow> js_queue w \<noteq> []"
| "enabled w (Gesture st) \<longleftrightarrow> visible (state_of w)"
| "enabled w _ \<longleftrightarrow> True"

definition run :: "(number \<Rightarrow> number) \<Rightarrow> 'w world \<Rightarrow> event list \<Rightarrow> 'w world" where
  "run base = foldl (step base)"

section \<open>The machine as a relation\<close>

inductive transition :: "(number \<Rightarrow> number) \<Rightarrow> 'w world \<Rightarrow> event \<Rightarrow> 'w world \<Rightarrow> bool"
  for base :: "number \<Rightarrow> number"
where
  t_index: "transition base w (SetIndex i) (set_index i w)"
| t_drag: "transition base w (Drag v) (drag v w)"
| t_frame: "transition base w (Frame dt) (tick base dt w)"
| t_deliver: "js_queue w \<noteq> [] \<Longrightarrow> transition base w Deliver (deliver w)"
| t_gesture: "visible (state_of w) \<Longrightarrow> transition base w (Gesture st) (gesture st w)"

inductive reachable :: "(number \<Rightarrow> number) \<Rightarrow> 'w world \<Rightarrow> bool"
  for base :: "number \<Rightarrow> number"
where
  r_mount: "reachable base (mount th p c t0)"
| r_step: "reachable base w \<Longrightarrow> transition base w e w' \<Longrightarrow> reachable base w'"

inductive_cases transition_SetIndexE [elim!]: "transition base w (SetIndex i) w'"
inductive_cases transition_DragE [elim!]: "transition base w (Drag v) w'"
inductive_cases transition_FrameE [elim!]: "transition base w (Frame dt) w'"
inductive_cases transition_DeliverE [elim!]: "transition base w Deliver w'"
inductive_cases transition_GestureE [elim!]: "transition base w (Gesture st) w'"

lemmas runtime_defs =
  element_def displayed_def rerender_needed_def commit_passes_def commit_def passes_def
  mount_def set_index_def drag_def tick_def deliver_def gesture_def run_def

declare transition.intros [intro]

section \<open>Relation and function agree\<close>

lemma transition_iff: "transition base w e w' \<longleftrightarrow> enabled w e \<and> w' = step base w e"
  by (cases e) auto

lemma run_Nil [simp]: "run base w [] = w"
  by (simp add: run_def)

lemma run_Cons [simp]: "run base w (e # es) = run base (step base w e) es"
  by (simp add: run_def)

lemma run_append: "run base w (es @ es') = run base (run base w es) es'"
  by (simp add: run_def)

lemma admissible_run_append:
  "admissible en (step base) w (es @ es') \<longleftrightarrow>
     admissible en (step base) w es \<and> admissible en (step base) (run base w es) es'"
  by (simp add: run_def)

lemma admissible_frames [simp]: "admissible enabled (step base) w (map Frame dts)"
  by (induction dts arbitrary: w) simp_all

lemma reachable_step: "reachable base w \<Longrightarrow> enabled w e \<Longrightarrow> reachable base (step base w e)"
  by (auto intro: r_step simp: transition_iff)

lemma reachable_run:
  "reachable base w \<Longrightarrow> admissible enabled (step base) w es \<Longrightarrow> reachable base (run base w es)"
  unfolding run_def
  by (rule foldl_invariant [where P = "reachable base" and en = enabled])
    (auto intro: reachable_step)

section \<open>What each operation writes\<close>

text \<open>
  The loop ends after the second pass at the latest: the effect has recorded
  the index it ran for, so the second call of the function finds nothing to do.
\<close>

lemma settle_eq:
  "settle now th p i =
     Some (render th p (hooks i) #
           (if rerender_needed (hooks i) (hooks (useEffect now p i))
            then [render th p (hooks (useEffect now p i))] else []),
           useEffect now p i)"
proof -
  have "settle now th p (useEffect now p i) =
      Some ([render th p (hooks (useEffect now p i))], useEffect now p i)"
    by (subst settle.simps) (simp add: rerender_needed_def)
  then show ?thesis
    by (subst settle.simps) simp
qed

lemma commit_passes_eq:
  "commit_passes w =
     Some (render (the_theme w) (the_props w) (state_of w) #
           (if rerender_needed (state_of w) (hooks (useEffect (clock w) (the_props w) (mounted w)))
            then [render (the_theme w) (the_props w)
                    (hooks (useEffect (clock w) (the_props w) (mounted w)))]
            else []),
           useEffect (clock w) (the_props w) (mounted w))"
  by (simp add: commit_passes_def settle_eq)

lemma commit_eq: "commit w = w\<lparr>mounted := useEffect (clock w) (the_props w) (mounted w)\<rparr>"
  by (simp add: commit_def commit_passes_eq)

text \<open>The equations a concrete run is evaluated with: the loop in its closed form.\<close>

lemmas runtime_eval [overlay_defs] =
  element_def displayed_def rerender_needed_def commit_passes_eq commit_eq
  mount_def set_index_def drag_def tick_def deliver_def gesture_def run_def

lemma set_index_eq:
  "set_index i w =
     w\<lparr>the_props := (the_props w)\<lparr>currentBottomSheetIndex := i\<rparr>,
       mounted := useEffect (clock w) ((the_props w)\<lparr>currentBottomSheetIndex := i\<rparr>) (mounted w)\<rparr>"
  by (simp add: set_index_def commit_eq)

lemma commit_simps [simp, frame_simps]:
  "the_props (commit w) = the_props w" "the_theme (commit w) = the_theme w"
  "clock (commit w) = clock w" "js_queue (commit w) = js_queue w" "caller (commit w) = caller w"
  "mounted (commit w) = useEffect (clock w) (the_props w) (mounted w)"
  by (simp_all add: commit_eq)

lemma mount_simps [simp]:
  "the_props (mount th p c t0) = p" "the_theme (mount th p c t0) = th"
  "clock (mount th p c t0) = t0" "js_queue (mount th p c t0) = []" "caller (mount th p c t0) = c"
  "mounted (mount th p c t0) = useEffect t0 p unmounted"
  by (simp_all add: mount_def)

lemma set_index_simps [simp, frame_simps]:
  "the_props (set_index i w) = (the_props w)\<lparr>currentBottomSheetIndex := i\<rparr>"
  "the_theme (set_index i w) = the_theme w" "clock (set_index i w) = clock w"
  "js_queue (set_index i w) = js_queue w" "caller (set_index i w) = caller w"
  "mounted (set_index i w) =
     useEffect (clock w) ((the_props w)\<lparr>currentBottomSheetIndex := i\<rparr>) (mounted w)"
  by (simp_all add: set_index_def)

lemma drag_simps [simp, frame_simps]:
  "the_props (drag v w) = (the_props w)\<lparr>animatedBottomSheetIndex := v\<rparr>"
  "the_theme (drag v w) = the_theme w" "clock (drag v w) = clock w"
  "js_queue (drag v w) = js_queue w" "caller (drag v w) = caller w"
  "mounted (drag v w) = mounted w"
  by (simp_all add: drag_def)

lemma tick_simps [simp, frame_simps]:
  "the_props (tick base dt w) = the_props w" "the_theme (tick base dt w) = the_theme w"
  "clock (tick base dt w) = clock w + dt" "caller (tick base dt w) = caller w"
  "deps (mounted (tick base dt w)) = deps (mounted w)"
  "visible (state_of (tick base dt w)) = visible (state_of w)"
  "fadedIn (state_of (tick base dt w)) = fadedIn (state_of w)"
  "opacity (state_of (tick base dt w)) = fst (frame base (clock w + dt) (opacity (state_of w)))"
  "js_queue (tick base dt w) = js_queue w @ snd (frame base (clock w + dt) (opacity (state_of w)))"
  by (simp_all add: tick_def Let_def)

lemma deliver_frame [simp, frame_simps]:
  "the_props (deliver w) = the_props w" "the_theme (deliver w) = the_theme w"
  "clock (deliver w) = clock w" "caller (deliver w) = caller w"
  "deps (mounted (deliver w)) = deps (mounted w)"
  "visible (state_of (deliver w)) = visible (state_of w)"
  "opacity (state_of (deliver w)) = opacity (state_of w)"
  "js_queue (deliver w) = tl (js_queue w)"
  by (simp_all add: deliver_def split: list.splits)

lemma deliver_Cons:
  "js_queue w = c # q \<Longrightarrow> state_of (deliver w) = runOnJS c (state_of w)"
  by (simp add: deliver_def)

lemma gesture_frame [simp, frame_simps]:
  "the_props (gesture st w) = the_props w" "the_theme (gesture st w) = the_theme w"
  "clock (gesture st w) = clock w" "js_queue (gesture st w) = js_queue w"
  "mounted (gesture st w) = mounted w"
  by (simp_all add: gesture_def split: option.splits)

lemma gesture_hidden: "\<not> visible (state_of w) \<Longrightarrow> gesture st w = w"
  by (simp add: gesture_def element_def render_def)

lemma gesture_visible:
  "visible (state_of w) \<Longrightarrow>
   gesture st w = w\<lparr>caller := tapEvent (the_props w) (state_change st) (caller w)\<rparr>"
  by (simp add: gesture_def element_def render_def)

lemma tick_idle:
  "idle (opacity (state_of w)) \<Longrightarrow> tick base dt w = w\<lparr>clock := clock w + dt\<rparr>"
  by (simp add: tick_def)

text \<open>A run of frames is one play of the owned opacity; nothing else moves but the clock.\<close>

lemma run_frames:
  "run base w (map Frame dts) =
     w\<lparr>mounted := (mounted w)\<lparr>hooks := (state_of w)
          \<lparr>opacity := fst (play base (clock w) dts (opacity (state_of w)))\<rparr>\<rparr>,
       clock := clock w + sum_list dts,
       js_queue := js_queue w @ snd (play base (clock w) dts (opacity (state_of w)))\<rparr>"
proof (induction dts arbitrary: w)
  case Nil
  show ?case by simp
next
  case (Cons dt dts)
  show ?case
    by (simp add: Cons play_Cons add.assoc del: play.simps)
qed

end
