(* ===== verification/Overlay_Invariants.thy ===== *)
theory Overlay_Invariants
  imports Overlay_Runtime
begin

text \<open>
  Invariants of the mounted overlay: what every operation keeps, and therefore
  what holds in every world the environment can reach. \<open>coherent\<close> collects
  the facts that hold whatever the easing curve is; \<open>bounded\<close> is the bound on
  the owned opacity, which needs the curve to stay inside the unit interval.
\<close>

section \<open>The invariants\<close>

definition synced :: "'w world \<Rightarrow> bool" where
  "synced w \<longleftrightarrow>
     deps (mounted w) = Some (index_of w) \<and> (visible (state_of w) \<longleftrightarrow> 0 < index_of w)"

definition queue_ok :: "js_call list \<Rightarrow> bool" where
  "queue_ok q \<longleftrightarrow> list_all (\<lambda>c. c = fade_callback) q"

definition coherent :: "'w world \<Rightarrow> bool" where
  "coherent w \<longleftrightarrow>
     synced w \<and> fade_only (state_of w) \<and> sv_timely (clock w) (opacity (state_of w)) \<and>
     queue_ok (js_queue w) \<and> reset_when_hidden (state_of w)"

definition bounded :: "'w world \<Rightarrow> bool" where
  "bounded w \<longleftrightarrow> sv_in_unit (opacity (state_of w))"

lemma coherentD:
  assumes "coherent w"
  shows "deps (mounted w) = Some (index_of w)" and "visible (state_of w) \<longleftrightarrow> 0 < index_of w"
    and "fade_only (state_of w)" and "sv_timely (clock w) (opacity (state_of w))"
    and "queue_ok (js_queue w)" and "reset_when_hidden (state_of w)"
  using assms by (simp_all add: coherent_def synced_def)

lemma queue_ok_simps [simp]:
  "queue_ok []" "queue_ok (c # q) \<longleftrightarrow> c = fade_callback \<and> queue_ok q"
  "queue_ok (q @ q') \<longleftrightarrow> queue_ok q \<and> queue_ok q'"
  by (simp_all add: queue_ok_def)

lemma queue_ok_tl: "queue_ok q \<Longrightarrow> queue_ok (tl q)"
  by (cases q) simp_all

section \<open>Each operation keeps them\<close>

lemma coherent_commit_aux:
  assumes "fade_only (state_of w)" and "sv_timely (clock w) (opacity (state_of w))"
    and "queue_ok (js_queue w)" and "reset_when_hidden (state_of w)"
    and "deps (mounted w) = Some (index_of w) \<Longrightarrow> (visible (state_of w) \<longleftrightarrow> 0 < index_of w)"
  shows "coherent (commit w)"
proof (cases "deps (mounted w) = Some (index_of w)")
  case True
  with assms show ?thesis
    by (simp add: coherent_def synced_def useEffect_same)
next
  case False
  with assms(3) show ?thesis
    by (simp add: coherent_def synced_def useEffect_def)
qed

lemma coherent_mount: "coherent (mount th p c t0)"
  unfolding mount_def
  by (rule coherent_commit_aux) (simp_all add: unmounted_def sv_timely_def)

lemma coherent_set_index:
  assumes "coherent w"
  shows "coherent (set_index i w)"
  unfolding set_index_def
proof (rule coherent_commit_aux)
  let ?w = "w\<lparr>the_props := (the_props w)\<lparr>currentBottomSheetIndex := i\<rparr>\<rparr>"
  assume "deps (mounted ?w) = Some (index_of ?w)"
  with coherentD(1,2) [OF assms] show "visible (state_of ?w) \<longleftrightarrow> 0 < index_of ?w"
    by simp
qed (use coherentD [OF assms] in simp_all)

lemma coherent_drag: "coherent w \<Longrightarrow> coherent (drag v w)"
  by (simp add: coherent_def synced_def)

lemma reset_when_hidden_cong:
  "visible s' = visible s \<Longrightarrow> opacity s' = opacity s \<Longrightarrow>
   reset_when_hidden s' \<longleftrightarrow> reset_when_hidden s"
  by (simp add: reset_when_hidden_def)

lemma fade_only_frame:
  "fade_only s \<Longrightarrow> fade_only (s\<lparr>opacity := fst (frame base now (opacity s))\<rparr>)"
  by (auto simp: fade_only_def running_frame split: option.splits)

lemma queue_ok_frame: "fade_only s \<Longrightarrow> queue_ok (snd (frame base now (opacity s)))"
  by (auto simp: fade_only_def frame_calls_cases fade_animation_def split: option.splits)

lemma state_of_tick:
  "state_of (tick base dt w) =
     (state_of w)\<lparr>opacity := fst (frame base (clock w + dt) (opacity (state_of w)))\<rparr>"
  by (simp add: tick_def Let_def)

lemma coherent_tick:
  assumes "coherent w"
  shows "coherent (tick base dt w)"
proof -
  note c = coherentD [OF assms]
  from c(4) have "sv_timely (clock w + dt) (opacity (state_of w))"
    by (rule sv_timely_mono) simp
  then have "sv_timely (clock w + dt) (fst (frame base (clock w + dt) (opacity (state_of w))))"
    by (rule sv_timely_frame)
  moreover from c(3) have "fade_only (state_of (tick base dt w))"
    unfolding state_of_tick by (rule fade_only_frame)
  moreover from c(3) have "queue_ok (snd (frame base (clock w + dt) (opacity (state_of w))))"
    by (rule queue_ok_frame)
  moreover from c(6) have "reset_when_hidden (state_of (tick base dt w))"
    unfolding state_of_tick by (rule reset_when_hidden_frame)
  ultimately show ?thesis
    using c(1,2,5) by (simp add: coherent_def synced_def)
qed

lemma coherent_deliver:
  assumes "coherent w"
  shows "coherent (deliver w)"
proof (cases "js_queue w")
  case Nil
  with assms show ?thesis by (simp add: deliver_def)
next
  case (Cons c q)
  with assms show ?thesis
    by (simp add: coherent_def synced_def deliver_Cons)
qed

lemma coherent_gesture: "coherent w \<Longrightarrow> coherent (gesture st w)"
  by (simp add: coherent_def synced_def)

lemma coherent_step: "coherent w \<Longrightarrow> coherent (step base w e)"
  by (cases e)
    (simp_all add: coherent_set_index coherent_drag coherent_tick coherent_deliver coherent_gesture)

lemma bounded_mount: "bounded (mount th p c t0)"
  by (simp add: bounded_def unmounted_def in_unit_useEffect)

lemma bounded_step:
  assumes "unit_map base" and "bounded w"
  shows "bounded (step base w e)"
proof (cases e)
  case (SetIndex i)
  with assms(2) show ?thesis by (simp add: bounded_def in_unit_useEffect)
next
  case (Frame dt)
  with assms show ?thesis by (simp add: bounded_def sv_in_unit_frame)
next
  case Deliver
  with assms(2) show ?thesis by (simp add: bounded_def)
qed (use assms(2) in \<open>simp_all add: bounded_def\<close>)

section \<open>Reachable worlds\<close>

lemma reachable_coherent: "reachable base w \<Longrightarrow> coherent w"
  by (induction rule: reachable.induct) (auto simp: transition_iff coherent_mount coherent_step)

lemma reachable_bounded:
  assumes "unit_map base" and "reachable base w"
  shows "bounded w"
  using assms(2)
  by (induction rule: reachable.induct)
    (auto simp: transition_iff bounded_mount bounded_step [OF assms(1)])

lemma run_coherent: "coherent w \<Longrightarrow> coherent (run base w es)"
  unfolding run_def
  by (rule foldl_invariant [where P = coherent and en = "\<lambda>_ _. True"]) (simp_all add: coherent_step)

lemma run_bounded: "unit_map base \<Longrightarrow> bounded w \<Longrightarrow> bounded (run base w es)"
  unfolding run_def
  by (rule foldl_invariant [where P = bounded and en = "\<lambda>_ _. True"]) (simp_all add: bounded_step)

lemma reachable_synced:
  assumes "reachable base w"
  shows "deps (mounted w) = Some (index_of w)" and "visible (state_of w) \<longleftrightarrow> 0 < index_of w"
  using coherentD(1,2) [OF reachable_coherent [OF assms]] by simp_all

lemma reachable_hidden_reset:
  assumes "reachable base w" and "index_of w \<le> 0"
  shows "opacity (state_of w) = useSharedValue 0"
  using coherentD(2,6) [OF reachable_coherent [OF assms(1)]] assms(2)
  by (simp add: reset_when_hidden_def)

lemma reachable_hidden_idle:
  "reachable base w \<Longrightarrow> index_of w \<le> 0 \<Longrightarrow> idle (opacity (state_of w))"
  by (simp add: reachable_hidden_reset)

section \<open>Sample worlds\<close>

definition sample_world :: "int \<Rightarrow> nat world" where
  "sample_world i = mount sample_theme (sample_props i) 0 0"

text \<open>The definitions a sample world is evaluated with.\<close>

lemmas sample_eval =
  index_effect_def frame_def finished_def elapsed_def progress_def fade_config_def
  fade_callback_def lerp_def

lemma reachable_sample_world [simp]: "reachable base (sample_world i)"
  by (simp add: sample_world_def r_mount)

lemma sample_world_simps [simp]:
  "the_props (sample_world i) = sample_props i" "the_theme (sample_world i) = sample_theme"
  "clock (sample_world i) = 0" "js_queue (sample_world i) = []" "caller (sample_world i) = 0"
  "deps (mounted (sample_world i)) = Some i"
  "state_of (sample_world i) = index_effect 0 (sample_props i) initial_state"
  by (simp_all add: sample_world_def unmounted_def useEffect_def)

section \<open>Properties of the mounted overlay\<close>

text \<open>
  C1. In every world the environment can reach, the overlay renders nothing
  exactly when the sheet index is zero or negative: the surface, its tap
  recogniser and its style exist if and only if the index is positive.
\<close>

theorem rendered_iff_open:
  assumes "reachable base w"
  shows "element w = None \<longleftrightarrow> index_of w \<le> 0"
proof -
  from assms have "visible (state_of w) \<longleftrightarrow> 0 < index_of w"
    by (rule reachable_synced)
  then show ?thesis
    by (auto simp: element_def render_def)
qed

theorem rendered_iff_open_witness:
  "reachable (\<lambda>t. t) (sample_world 1) \<and> element (sample_world 1) \<noteq> None \<and>
   reachable (\<lambda>t. t) (step (\<lambda>t. t) (sample_world 1) (SetIndex 0)) \<and>
   element (step (\<lambda>t. t) (sample_world 1) (SetIndex 0)) = None"
  using rendered_iff_open [of "\<lambda>t. t" "sample_world 1"]
    rendered_iff_open [of "\<lambda>t. t" "step (\<lambda>t. t) (sample_world 1) (SetIndex 0)"]
    reachable_step [of "\<lambda>t. t" "sample_world 1" "SetIndex 0"]
  by simp

text \<open>
  C4. A state change reported by the tap recogniser invokes \<open>closeGridView\<close>
  exactly once when the overlay is visible and the reported state is \<open>END\<close>;
  in every other case (the overlay hidden, or the state one of undetermined,
  failed, began, cancelled, active) the caller's state is left as it was.
\<close>

theorem tap_closes_on_END:
  "caller (step base w (Gesture st)) =
     (if visible (state_of w) \<and> st = END then closeGridView (the_props w) (caller w)
      else caller w)"
  by (cases "visible (state_of w)") (simp_all add: gesture_hidden gesture_visible tapEvent_def)

text \<open>
  C5. In every reachable world, if the easing curve maps the unit interval into
  itself and the bottom sheet's drag position lies in the unit interval, the
  opacity the overlay displays lies in the unit interval, during the fade and
  after it.
\<close>

theorem displayed_in_unit:
  assumes "unit_map base" and "reachable base w"
    and "in_unit (animatedBottomSheetIndex (the_props w))"
  shows "in_unit (displayed w)"
proof -
  from assms(1,2) have "bounded w" by (rule reachable_bounded)
  then have "in_unit (current (opacity (state_of w)))"
    by (simp add: bounded_def sv_in_unit_current)
  with assms(3) show ?thesis
    by (simp add: displayed_def shown_opacity_def)
qed

theorem displayed_in_unit_witness:
  "unit_map (\<lambda>t. t * t) \<and> reachable (\<lambda>t. t * t) (step (\<lambda>t. t * t) (sample_world 1) (Frame 100)) \<and>
   in_unit (animatedBottomSheetIndex (the_props (step (\<lambda>t. t * t) (sample_world 1) (Frame 100)))) \<and>
   displayed (step (\<lambda>t. t * t) (sample_world 1) (Frame 100)) = 3 / 4 \<and>
   in_unit (displayed (step (\<lambda>t. t * t) (sample_world 1) (Frame 100)))"
proof -
  let ?w = "step (\<lambda>t. t * t) (sample_world 1) (Frame 100)"
  have r: "reachable (\<lambda>t. t * t) ?w"
    by (rule reachable_step) simp_all
  have d: "in_unit (animatedBottomSheetIndex (the_props ?w))"
    by simp
  have v: "displayed ?w = 3 / 4"
    by (simp add: displayed_def shown_opacity_def sample_eval field_simps)
  from displayed_in_unit [OF unit_map_square r d] r d v show ?thesis
    by (simp add: unit_map_square)
qed

text \<open>
  C6. Rendering again with the sheet index the overlay already has changes
  nothing: the effect does not run, so a fade in flight is not restarted, no
  call is posted and the caller's state is untouched.
\<close>

theorem set_index_same:
  assumes "reachable base w"
  shows "step base w (SetIndex (index_of w)) = w"
proof -
  from assms have "deps (mounted w) = Some (index_of w)"
    by (rule reachable_synced)
  then show ?thesis
    by (simp add: set_index_eq useEffect_def)
qed

theorem set_index_same_witness:
  "reachable (\<lambda>t. t) (step (\<lambda>t. t) (sample_world 1) (Frame 100)) \<and>
   step (\<lambda>t. t) (step (\<lambda>t. t) (sample_world 1) (Frame 100)) (SetIndex 1) =
     step (\<lambda>t. t) (sample_world 1) (Frame 100)"
proof -
  have r: "reachable (\<lambda>t. t) (step (\<lambda>t. t) (sample_world 1) (Frame 100))"
    by (rule reachable_step) simp_all
  from set_index_same [OF r] r show ?thesis by simp
qed

end
