(* ===== verification/Overlay_Timeline.thy ===== *)
theory Overlay_Timeline
  imports Overlay_Invariants
begin

text \<open>
  The overlay over time: what a positive index, followed by frames of the
  animation thread and by the delivery of the posted call, makes of a hidden
  overlay; what the overlay displays while the fade runs; and that a hidden
  overlay is silent, so that a fade abandoned by a close never completes.
\<close>

section \<open>The fade on the engine\<close>

text \<open>
  \<open>fading t0 v\<close> is the owned opacity while the fade that started at \<open>t0\<close>
  from 0 is in flight and the cell shows \<open>v\<close>. Playing frames on it has one
  of three outcomes, decided by the time the frames span.
\<close>

definition fading :: "millis \<Rightarrow> number \<Rightarrow> js_call shared_value" where
  "fading t0 v =
     \<lparr>current = v,
      running = Some \<lparr>toValue = 1, config = fade_config, callback = fade_callback,
                      startValue = 0, startTime = t0\<rparr>\<rparr>"

lemma fading_simps [simp]: "current (fading t0 v) = v" "\<not> idle (fading t0 v)"
  by (simp_all add: fading_def idle_def)

lemma play_fade:
  "play base t0 dts (fading t0 0) =
     (if dts = [] then (fading t0 0, [])
      else if 200 \<le> sum_list dts then (useSharedValue 1, [fade_callback])
      else (fading t0 (1 - base (1 - real (sum_list dts) / 200)), []))"
proof -
  let ?a = "\<lparr>toValue = 1, config = fade_config, callback = fade_callback,
             startValue = 0, startTime = t0\<rparr> :: js_call animation"
  have run: "running (fading t0 0) = Some ?a"
    by (simp add: fading_def)
  consider "dts = []" | "dts \<noteq> []" "200 \<le> sum_list dts" | "dts \<noteq> []" "sum_list dts < 200"
    by linarith
  then show ?thesis
  proof cases
    case 1
    then show ?thesis by simp
  next
    case 2
    then have "play base t0 dts (fading t0 0) =
        (\<lparr>current = toValue ?a, running = None\<rparr>, [callback ?a])"
      by (intro play_completes run) (simp_all add: fade_config_def)
    with 2 show ?thesis by (simp add: useSharedValue_def)
  next
    case 3
    then have "play base t0 dts (fading t0 0) =
        ((fading t0 0)\<lparr>current := lerp (startValue ?a) (toValue ?a)
            (progress base ?a (t0 + sum_list dts))\<rparr>, [])"
      by (intro play_progress run) (simp_all add: fade_config_def)
    with 3 show ?thesis
      by (simp add: fading_def lerp_def progress_def elapsed_def fade_config_def)
  qed
qed

section \<open>Opening and closing a reachable world\<close>

text \<open>The world right after a hidden overlay has been opened, written out.\<close>

lemma opened_world:
  assumes "reachable base w" and "index_of w \<le> 0" and "0 < i"
  shows "set_index i w =
         w\<lparr>the_props := (the_props w)\<lparr>currentBottomSheetIndex := i\<rparr>,
           mounted := \<lparr>hooks = \<lparr>visible = True, fadedIn = fadedIn (state_of w),
                                 opacity = fading (clock w) 0\<rparr>,
                        deps = Some i\<rparr>\<rparr>"
proof -
  from assms have "deps (mounted w) \<noteq> Some i"
    by (simp add: reachable_synced)
  moreover from assms have "opacity (state_of w) = useSharedValue 0"
    by (simp add: reachable_hidden_reset)
  ultimately show ?thesis
    using assms(3)
    by (simp add: set_index_eq useEffect_def index_effect_def effect_open_def setter_defs
        useSharedValue_def fading_def)
qed

text \<open>The world after the fade has run its course and its completion was delivered.\<close>

lemma faded_world:
  assumes "reachable base w" and "index_of w \<le> 0" and "js_queue w = []"
    and "0 < i" and "200 \<le> sum_list dts"
  shows "run base w (SetIndex i # map Frame dts @ [Deliver]) =
         w\<lparr>the_props := (the_props w)\<lparr>currentBottomSheetIndex := i\<rparr>,
           mounted := \<lparr>hooks = \<lparr>visible = True, fadedIn = True, opacity = useSharedValue 1\<rparr>,
                        deps = Some i\<rparr>,
           clock := clock w + sum_list dts,
           js_queue := []\<rparr>"
proof -
  from assms(5) have "dts \<noteq> []" by auto
  with assms(3,5) show ?thesis
    by (simp add: opened_world [OF assms(1,2,4)] run_append run_frames play_fade deliver_def
        fade_callback_def setter_defs del: play.simps)
qed

lemma set_index_closes:
  assumes "reachable base w" and "j \<le> 0"
  shows "opacity (state_of (set_index j w)) = useSharedValue 0"
    and "\<not> visible (state_of (set_index j w))"
proof -
  have r: "reachable base (set_index j w)"
    using reachable_step [OF assms(1), of "SetIndex j"] by simp
  from reachable_hidden_reset [OF r] assms(2)
  show "opacity (state_of (set_index j w)) = useSharedValue 0" by simp
  from reachable_synced(2) [OF r] assms(2)
  show "\<not> visible (state_of (set_index j w))" by simp
qed

lemma run_frames_idle:
  "idle (opacity (state_of w)) \<Longrightarrow>
   run base w (map Frame dts) = w\<lparr>clock := clock w + sum_list dts\<rparr>"
  by (simp add: run_frames)

section \<open>Properties of the fade\<close>

text \<open>
  C7. Starting from a reachable world in which the overlay is hidden and no
  posted call is pending: once the index becomes positive, frames that together
  span at least 200 ms have passed and the JS thread has run the posted call,
  the overlay is visible, the fade-complete flag is set, the owned opacity
  rests at 1, nothing is pending, and from then on the displayed opacity is
  whatever drag position the bottom sheet writes.
\<close>

theorem fade_in_completes:
  assumes "reachable base w" and "index_of w \<le> 0" and "js_queue w = []"
    and "0 < i" and "200 \<le> sum_list dts"
  shows "visible (state_of (run base w (SetIndex i # map Frame dts @ [Deliver]))) \<and>
         fadedIn (state_of (run base w (SetIndex i # map Frame dts @ [Deliver]))) \<and>
         opacity (state_of (run base w (SetIndex i # map Frame dts @ [Deliver]))) = useSharedValue 1 \<and>
         js_queue (run base w (SetIndex i # map Frame dts @ [Deliver])) = [] \<and>
         displayed (run base w (SetIndex i # map Frame dts @ [Deliver, Drag v])) = v"
proof -
  have "run base w (SetIndex i # map Frame dts @ [Deliver, Drag v]) =
        drag v (run base w (SetIndex i # map Frame dts @ [Deliver]))"
    using run_append [of base w "SetIndex i # map Frame dts @ [Deliver]" "[Drag v]"] by simp
  then show ?thesis
    unfolding faded_world [OF assms]
    by (simp add: displayed_def shown_opacity_def)
qed

theorem fade_in_completes_witness:
  "reachable (\<lambda>t. t * t) (sample_world 0) \<and> index_of (sample_world 0) \<le> 0 \<and>
   js_queue (sample_world 0) = [] \<and> (0::int) < 1 \<and> (200::nat) \<le> sum_list [120, 120] \<and>
   fadedIn (state_of (run (\<lambda>t. t * t) (sample_world 0)
      (SetIndex 1 # map Frame [120, 120] @ [Deliver]))) \<and>
   displayed (run (\<lambda>t. t * t) (sample_world 0)
      (SetIndex 1 # map Frame [120, 120] @ [Deliver, Drag (7 / 10)])) = 7 / 10"
  using fade_in_completes [of "\<lambda>t. t * t" "sample_world 0" 1 "[120, 120]" "7 / 10"]
  by simp

text \<open>
  C8. While the fade runs, the overlay displays the eased progress of the
  animation: opened from a reachable hidden world whose fade-complete flag is
  clear, after frames that together span \<open>t < 200\<close> ms the displayed opacity
  is \<open>1 - ease (1 - t / 200)\<close>, where \<open>ease\<close> is the basic easing curve; it
  starts from 0 and does not depend on how the time is cut into frames.
\<close>

theorem fade_in_progress:
  assumes "reachable base w" and "index_of w \<le> 0" and "\<not> fadedIn (state_of w)"
    and "0 < i" and "dts \<noteq> []" and "sum_list dts < 200"
  shows "displayed (run base w (SetIndex i # map Frame dts)) =
         1 - base (1 - real (sum_list dts) / 200)"
  using assms(3,5,6)
  by (simp add: opened_world [OF assms(1,2,4)] run_frames play_fade displayed_def
      shown_opacity_def del: play.simps)

theorem fade_in_progress_witness:
  "reachable (\<lambda>t. t * t) (sample_world 0) \<and> index_of (sample_world 0) \<le> 0 \<and>
   \<not> fadedIn (state_of (sample_world 0)) \<and> (0::int) < 3 \<and> [60, 40::nat] \<noteq> [] \<and>
   sum_list [60, 40::nat] < 200 \<and>
   displayed (run (\<lambda>t. t * t) (sample_world 0) (SetIndex 3 # map Frame [60, 40])) = 3 / 4"
  using fade_in_progress [of "\<lambda>t. t * t" "sample_world 0" 3 "[60, 40]"]
  by (simp add: index_effect_def)

text \<open>
  C9. Closing cancels a fade for good: from any reachable world, once the
  index is zero or negative the overlay is hidden with its opacity at 0, and
  however many frames follow, no call is posted to the JS thread and nothing
  but the clock changes. The completion of an animation abandoned by a close
  is never delivered.
\<close>

theorem close_cancels_fade:
  assumes "reachable base w" and "j \<le> 0"
  shows "run base w (SetIndex j # map Frame dts) =
         (set_index j w)\<lparr>clock := clock w + sum_list dts\<rparr> \<and>
         \<not> visible (state_of (set_index j w)) \<and>
         opacity (state_of (set_index j w)) = \<lparr>current = 0, running = None\<rparr> \<and>
         js_queue (set_index j w) = js_queue w"
proof -
  note c = set_index_closes [OF assms]
  from c(1) have "idle (opacity (state_of (set_index j w)))"
    by (simp only: idle_useSharedValue)
  then have "run base (set_index j w) (map Frame dts) =
      (set_index j w)\<lparr>clock := clock (set_index j w) + sum_list dts\<rparr>"
    by (rule run_frames_idle)
  moreover from c(1) have "opacity (state_of (set_index j w)) = \<lparr>current = 0, running = None\<rparr>"
    by (simp only: useSharedValue_def)
  ultimately show ?thesis
    using c(2) by (simp del: set_index_simps(6))
qed

theorem close_cancels_fade_witness:
  "reachable (\<lambda>t. t) (step (\<lambda>t. t) (sample_world 1) (Frame 150)) \<and> (0::int) \<le> 0 \<and>
   js_queue (run (\<lambda>t. t) (step (\<lambda>t. t) (sample_world 1) (Frame 150))
      (SetIndex 0 # map Frame [100, 100])) = [] \<and>
   \<not> visible (state_of (run (\<lambda>t. t) (step (\<lambda>t. t) (sample_world 1) (Frame 150))
      (SetIndex 0 # map Frame [100, 100])))"
proof -
  have r: "reachable (\<lambda>t. t) (step (\<lambda>t. t) (sample_world 1) (Frame 150))"
    by (rule reachable_step) simp_all
  have j: "(0::int) \<le> 0" by simp
  note c = close_cancels_fade [OF r j, of "[100, 100]"]
  have q: "js_queue (step (\<lambda>t. t) (sample_world 1) (Frame 150)) = []"
    by (simp add: sample_eval)
  from c r q show ?thesis
    by (simp del: step.simps run_Cons)
qed

text \<open>
  C20. The completion is posted exactly when the fade has run its 200 ms, and
  once. After a reachable hidden overlay is opened, the calls pending on the JS
  thread after any sequence of frames are those that were pending before,
  followed by the single call \<open>setFadedIn(true)\<close> if the frames together span
  at least 200 ms, and by nothing otherwise.
\<close>

theorem completion_exactly_at_duration:
  assumes "reachable base w" and "index_of w \<le> 0" and "0 < i"
  shows "js_queue (run base w (SetIndex i # map Frame dts)) =
         js_queue w @ (if 200 \<le> sum_list dts then [SetFadedIn True] else [])"
  by (auto simp add: opened_world [OF assms] run_frames play_fade fade_callback_def
      simp del: play.simps)

theorem completion_exactly_at_duration_witness:
  "reachable (\<lambda>t. t) (sample_world 0) \<and> index_of (sample_world 0) \<le> 0 \<and> (0::int) < 1 \<and>
   js_queue (run (\<lambda>t. t) (sample_world 0) (SetIndex 1 # map Frame [100, 99])) = [] \<and>
   js_queue (run (\<lambda>t. t) (sample_world 0) (SetIndex 1 # map Frame [100, 99, 1, 300])) =
     [SetFadedIn True]"
  using completion_exactly_at_duration [of "\<lambda>t. t" "sample_world 0" 1 "[100, 99]"]
    completion_exactly_at_duration [of "\<lambda>t. t" "sample_world 0" 1 "[100, 99, 1, 300]"]
  by simp

text \<open>
  C23. A double toggle inside the fade's window leaves no trace. If a hidden
  overlay is opened, closed again before its fade has run 200 ms, and opened
  once more, the world is the one a single opening at the later time produces:
  the second fade starts from 0 at the time of the second opening, the
  fade-complete flag is clear and nothing was posted to the JS thread.
\<close>

theorem double_toggle_within_window:
  assumes "reachable base w" and "index_of w \<le> 0" and "0 < i"
    and "sum_list dts < 200" and "j \<le> 0" and "0 < i'"
  shows "run base w (SetIndex i # map Frame dts @ [SetIndex j, SetIndex i']) =
         w\<lparr>the_props := (the_props w)\<lparr>currentBottomSheetIndex := i'\<rparr>,
           mounted := \<lparr>hooks = \<lparr>visible = True, fadedIn = False,
                                 opacity = fading (clock w + sum_list dts) 0\<rparr>,
                        deps = Some i'\<rparr>,
           clock := clock w + sum_list dts\<rparr>"
proof -
  let ?w1 = "run base w (SetIndex i # map Frame dts)"
  have w1: "?w1 =
      w\<lparr>the_props := (the_props w)\<lparr>currentBottomSheetIndex := i\<rparr>,
        mounted := \<lparr>hooks = \<lparr>visible = True, fadedIn = fadedIn (state_of w),
                              opacity = fst (play base (clock w) dts (fading (clock w) 0))\<rparr>,
                     deps = Some i\<rparr>,
        clock := clock w + sum_list dts\<rparr>"
    using assms(4)
    by (simp add: opened_world [OF assms(1,2,3)] run_frames play_fade del: play.simps)
  have "run base w (SetIndex i # map Frame dts @ [SetIndex j, SetIndex i']) =
      set_index i' (set_index j ?w1)"
    using run_append [of base w "SetIndex i # map Frame dts" "[SetIndex j, SetIndex i']"]
    by simp
  with assms(3,5,6) show ?thesis
    unfolding w1
    by (simp add: set_index_eq useEffect_def index_effect_def effect_open_def setter_defs
        initial_state_def useSharedValue_def fading_def del: play.simps)
qed

theorem double_toggle_within_window_witness:
  "reachable (\<lambda>t. t) (sample_world 0) \<and> index_of (sample_world 0) \<le> 0 \<and> (0::int) < 1 \<and>
   sum_list [100, 50::nat] < 200 \<and> (0::int) \<le> 0 \<and> (0::int) < 2 \<and>
   displayed (run (\<lambda>t. t) (sample_world 0) (SetIndex 1 # map Frame [100, 50] @ [SetIndex 0, SetIndex 2])) = 0 \<and>
   js_queue (run (\<lambda>t. t) (sample_world 0) (SetIndex 1 # map Frame [100, 50] @ [SetIndex 0, SetIndex 2])) = []"
  using double_toggle_within_window [of "\<lambda>t. t" "sample_world 0" 1 "[100, 50]" 0 2]
  by (simp add: displayed_def shown_opacity_def)

text \<open>
  The frame rate does not matter: a sequence of frames has the effect of the
  single frame that spans the same time. This is a fact of the engine, whose
  frames compute the value from the start of the animation.
\<close>

lemma frames_coalesce:
  assumes "reachable base w" and "dts \<noteq> []"
  shows "run base w (map Frame dts) = step base w (Frame (sum_list dts))"
proof -
  from assms(1) have "sv_timely (clock w) (opacity (state_of w))"
    by (intro coherentD(4) reachable_coherent)
  from play_coalesce [OF this assms(2)] show ?thesis
    by (simp add: run_frames tick_def Let_def del: play.simps)
qed

end
