(* ===== verification/Overlay_Spec.thy ===== *)
theory Overlay_Spec
  imports Overlay_Timeline
begin

text \<open>
  The overlay's contract as an abstract machine with three phases, and the
  sense in which the component implements it. The abstract machine knows only
  two signals, a change of the sheet index and the completion of the fade; the
  component's phase is read off its two state variables. The component follows
  the abstract machine step by step as long as no completion is still pending
  when the overlay is closed; a completion that is delivered after the close
  breaks the correspondence, and the theory shows both.
\<close>

section \<open>The abstract machine\<close>

datatype phase = Hidden | FadingIn | Shown

datatype signal = IndexChanged int | FadeDone | Stutter

fun phase_step :: "phase \<Rightarrow> signal \<Rightarrow> phase" where
  "phase_step ph (IndexChanged i) = (if 0 < i then (if ph = Hidden then FadingIn else ph) else Hidden)"
| "phase_step ph FadeDone = (if ph = FadingIn then Shown else ph)"
| "phase_step ph Stutter = ph"

definition phase_run :: "phase \<Rightarrow> signal list \<Rightarrow> phase" where
  "phase_run = foldl phase_step"

text \<open>The phases in the order in which an opening overlay passes through them.\<close>

instantiation phase :: linorder
begin

fun less_eq_phase :: "phase \<Rightarrow> phase \<Rightarrow> bool" where
  "less_eq_phase Hidden _ = True"
| "less_eq_phase FadingIn ph = (ph \<noteq> Hidden)"
| "less_eq_phase Shown ph = (ph = Shown)"

definition less_phase :: "phase \<Rightarrow> phase \<Rightarrow> bool" where
  "less_phase a b \<longleftrightarrow> a \<le> b \<and> a \<noteq> b"

instance
proof
  fix x y z :: phase
  show "x < y \<longleftrightarrow> x \<le> y \<and> \<not> y \<le> x"
    by (cases x; cases y) (simp_all add: less_phase_def)
  show "x \<le> x" by (cases x) simp_all
  show "x \<le> y \<Longrightarrow> y \<le> z \<Longrightarrow> x \<le> z" by (cases x; cases y; cases z) simp_all
  show "x \<le> y \<Longrightarrow> y \<le> x \<Longrightarrow> x = y" by (cases x; cases y) simp_all
  show "x \<le> y \<or> y \<le> x" by (cases x; cases y) simp_all
qed

end

section \<open>Reading the phase off the component\<close>

definition phase_of :: "overlay_state \<Rightarrow> phase" where
  "phase_of s = (if \<not> visible s then Hidden else if fadedIn s then Shown else FadingIn)"

fun signal_of :: "event \<Rightarrow> signal" where
  "signal_of (SetIndex i) = IndexChanged i"
| "signal_of Deliver = FadeDone"
| "signal_of _ = Stutter"

text \<open>
  A world is \<open>fresh\<close> when a hidden overlay has its fade-complete flag clear
  and no posted call pending. An event is \<open>race_free\<close> when it is enabled and
  does not close the overlay while a posted call is pending.
\<close>

definition fresh :: "'w world \<Rightarrow> bool" where
  "fresh w \<longleftrightarrow> visible (state_of w) \<or> (\<not> fadedIn (state_of w) \<and> js_queue w = [])"

fun race_free :: "'w world \<Rightarrow> event \<Rightarrow> bool" where
  "race_free w (SetIndex i) \<longleftrightarrow> 0 < i \<or> js_queue w = []"
| "race_free w e \<longleftrightarrow> enabled w e"

lemma phase_run_simps [simp]:
  "phase_run ph [] = ph" "phase_run ph (g # gs) = phase_run (phase_step ph g) gs"
  by (simp_all add: phase_run_def)

lemma phase_of_simps [simp]:
  "phase_of s = Hidden \<longleftrightarrow> \<not> visible s"
  "phase_of s = Shown \<longleftrightarrow> visible s \<and> fadedIn s"
  "phase_of s = FadingIn \<longleftrightarrow> visible s \<and> \<not> fadedIn s"
  by (simp_all add: phase_of_def)

lemma race_free_enabled: "race_free w e \<Longrightarrow> enabled w e"
  by (cases e) simp_all

lemma admissible_race_free_enabled:
  "admissible race_free f w es \<Longrightarrow> admissible enabled f w es"
  by (induction es arbitrary: w) (auto dest: race_free_enabled)

section \<open>Freshness is kept by race-free steps\<close>

lemma fresh_mount: "fresh (mount th p c t0)"
  by (simp add: fresh_def unmounted_def useEffect_def index_effect_def)

lemma fresh_set_index:
  assumes "coherent w" and "fresh w" and "0 < i \<or> js_queue w = []"
  shows "fresh (set_index i w)"
proof (cases "deps (mounted w) = Some i")
  case True
  with assms(2) show ?thesis
    by (simp add: fresh_def useEffect_def)
next
  case False
  with assms(3) show ?thesis
    by (auto simp: fresh_def useEffect_def index_effect_def)
qed

lemma fresh_tick:
  assumes "coherent w" and "fresh w"
  shows "fresh (tick base dt w)"
proof (cases "visible (state_of w)")
  case True
  then show ?thesis by (simp add: fresh_def)
next
  case False
  with coherentD(3) [OF assms(1)] have "idle (opacity (state_of w))"
    by (rule fade_only_hidden)
  with assms(2) show ?thesis
    by (simp add: tick_idle fresh_def)
qed

lemma fresh_deliver:
  assumes "fresh w" and "js_queue w \<noteq> []"
  shows "fresh (deliver w)"
  using assms by (auto simp: fresh_def)

lemma fresh_step:
  assumes "coherent w" and "fresh w" and "race_free w e"
  shows "fresh (step base w e)"
proof (cases e)
  case (SetIndex i)
  with assms show ?thesis by (simp add: fresh_set_index)
next
  case (Drag v)
  with assms(2) show ?thesis by (simp add: fresh_def)
next
  case (Frame dt)
  with assms(1,2) show ?thesis by (simp add: fresh_tick)
next
  case Deliver
  with assms(2,3) show ?thesis by (simp add: fresh_deliver)
next
  case (Gesture st)
  with assms(2) show ?thesis by (simp add: fresh_def)
qed

section \<open>One step of the component is one step of the abstract machine\<close>

lemma phase_set_index:
  assumes "coherent w" and "visible (state_of w) \<or> \<not> fadedIn (state_of w)"
  shows "phase_of (state_of (set_index i w)) = phase_step (phase_of (state_of w)) (IndexChanged i)"
proof (cases "deps (mounted w) = Some i")
  case True
  with coherentD(1,2) [OF assms(1)] show ?thesis
    by (auto simp: phase_of_def useEffect_def)
next
  case False
  with assms(2) show ?thesis
    by (auto simp: phase_of_def useEffect_def index_effect_def)
qed

lemma phase_deliver:
  assumes "coherent w" and "fresh w" and "js_queue w \<noteq> []"
  shows "phase_of (state_of (deliver w)) = phase_step (phase_of (state_of w)) FadeDone"
proof -
  from assms(3) obtain c q where q: "js_queue w = c # q" by (cases "js_queue w") auto
  with coherentD(5) [OF assms(1)] have "c = SetFadedIn True"
    by (simp add: fade_callback_def)
  with q assms(2) show ?thesis
    by (auto simp: deliver_Cons phase_of_def fresh_def)
qed

lemma phase_tick: "phase_of (state_of (tick base dt w)) = phase_of (state_of w)"
  by (simp add: phase_of_def)

lemma phase_step_refines:
  assumes "coherent w" and "fresh w" and "race_free w e"
  shows "phase_of (state_of (step base w e)) = phase_step (phase_of (state_of w)) (signal_of e)"
proof (cases e)
  case (SetIndex i)
  from assms(2) have "visible (state_of w) \<or> \<not> fadedIn (state_of w)"
    by (auto simp: fresh_def)
  with assms(1) SetIndex phase_set_index [of w i] show ?thesis by simp
next
  case Deliver
  with assms show ?thesis by (simp add: phase_deliver)
qed (simp_all add: phase_tick)

lemma phase_run_refines:
  assumes "coherent w" and "fresh w" and "admissible race_free (step base) w es"
  shows "phase_of (state_of (run base w es)) = phase_run (phase_of (state_of w)) (map signal_of es)"
  using assms
proof (induction es arbitrary: w)
  case Nil
  show ?case by simp
next
  case (Cons e es)
  from Cons.prems have "coherent (step base w e)" and "fresh (step base w e)"
    and "admissible race_free (step base) (step base w e) es"
    by (simp_all add: coherent_step fresh_step)
  then have "phase_of (state_of (run base (step base w e) es)) =
      phase_run (phase_of (state_of (step base w e))) (map signal_of es)"
    by (rule Cons.IH)
  with Cons.prems show ?case
    by (simp add: phase_step_refines)
qed

lemma run_fresh:
  assumes "coherent w" and "fresh w" and "admissible race_free (step base) w es"
  shows "coherent (run base w es) \<and> fresh (run base w es)"
  unfolding run_def
  by (rule foldl_invariant [where P = "\<lambda>w. coherent w \<and> fresh w" and en = race_free])
    (simp_all add: assms coherent_step fresh_step)

section \<open>Progress while the overlay stays open\<close>

fun closes :: "event \<Rightarrow> bool" where
  "closes (SetIndex i) \<longleftrightarrow> i \<le> 0"
| "closes _ \<longleftrightarrow> False"

lemma phase_step_mono:
  assumes "coherent w" and "\<not> closes e"
  shows "phase_of (state_of w) \<le> phase_of (state_of (step base w e))"
proof (cases e)
  case (SetIndex i)
  with assms(2) show ?thesis
    by (simp add: phase_of_def useEffect_def index_effect_def)
next
  case Deliver
  show ?thesis
  proof (cases "js_queue w")
    case Nil
    with Deliver show ?thesis by (simp add: deliver_def)
  next
    case (Cons c q)
    with coherentD(5) [OF assms(1)] have "c = SetFadedIn True"
      by (simp add: fade_callback_def)
    with Cons Deliver show ?thesis
      by (simp add: deliver_Cons phase_of_def)
  qed
qed (simp_all add: phase_of_def)

section \<open>Properties of the phases\<close>

text \<open>
  C10. Refinement. If no event of a run closes the overlay while a posted call
  is pending, the phase of the mounted overlay after the run is the phase the
  abstract machine reaches from \<open>Hidden\<close> on the index of the first commit
  followed by the signals of the run: the component implements the three-phase
  contract on every such run, for every easing curve, theme and caller.
\<close>

theorem race_free_run_refines:
  assumes "admissible race_free (step base) (mount th p c t0) es"
  shows "phase_of (state_of (run base (mount th p c t0) es)) =
         phase_run Hidden (IndexChanged (currentBottomSheetIndex p) # map signal_of es)"
proof -
  have "phase_of (state_of (mount th p c t0)) = phase_step Hidden (IndexChanged (currentBottomSheetIndex p))"
    by (simp add: phase_of_def unmounted_def useEffect_def index_effect_def)
  with phase_run_refines [OF coherent_mount fresh_mount assms] show ?thesis
    by simp
qed

theorem race_free_run_refines_witness:
  "admissible race_free (step (\<lambda>t. t)) (mount sample_theme (sample_props 1) (0::nat) 0)
     [Frame 120, Frame 120, Deliver, Gesture END, SetIndex 0, SetIndex 2] \<and>
   phase_of (state_of (run (\<lambda>t. t) (mount sample_theme (sample_props 1) (0::nat) 0)
     [Frame 120, Frame 120, Deliver, Gesture END, SetIndex 0, SetIndex 2])) = FadingIn"
proof -
  have a: "admissible race_free (step (\<lambda>t. t)) (mount sample_theme (sample_props 1) (0::nat) 0)
     [Frame 120, Frame 120, Deliver, Gesture END, SetIndex 0, SetIndex 2]"
    by (simp add: overlay_defs finished_def elapsed_def)
  from race_free_run_refines [OF a] a show ?thesis
    by simp
qed

text \<open>
  C11. A completion can outlive the close. From a reachable world in which the
  overlay is visible and a posted call is pending, closing the overlay and then
  letting the JS thread run the pending call leads to a reachable world in
  which the overlay is hidden and its fade-complete flag is set: the effect's
  reset of the flag is overwritten by the stale completion.
\<close>

theorem stale_completion:
  assumes "reachable base w" and "js_queue w \<noteq> []" and "j \<le> 0"
  shows "reachable base (run base w [SetIndex j, Deliver]) \<and>
         \<not> visible (state_of (run base w [SetIndex j, Deliver])) \<and>
         fadedIn (state_of (run base w [SetIndex j, Deliver]))"
proof -
  from assms(2) obtain c q where q: "js_queue w = c # q" by (cases "js_queue w") auto
  with coherentD(5) [OF reachable_coherent [OF assms(1)]] have c: "c = SetFadedIn True"
    by (simp add: fade_callback_def)
  have "reachable base (run base w [SetIndex j, Deliver])"
    using assms(1,2) by (intro reachable_run) simp_all
  moreover have "js_queue (set_index j w) = c # q"
    using q by simp
  then have "state_of (deliver (set_index j w)) = runOnJS c (state_of (set_index j w))"
    by (rule deliver_Cons)
  ultimately show ?thesis
    using set_index_closes(2) [OF assms(1,3)] c by (simp del: set_index_simps(6))
qed

theorem stale_completion_witness:
  "reachable (\<lambda>t. t) (step (\<lambda>t. t) (sample_world 1) (Frame 200)) \<and>
   js_queue (step (\<lambda>t. t) (sample_world 1) (Frame 200)) \<noteq> [] \<and> (0::int) \<le> 0 \<and>
   \<not> visible (state_of (run (\<lambda>t. t) (step (\<lambda>t. t) (sample_world 1) (Frame 200))
      [SetIndex 0, Deliver])) \<and>
   fadedIn (state_of (run (\<lambda>t. t) (step (\<lambda>t. t) (sample_world 1) (Frame 200))
      [SetIndex 0, Deliver]))"
proof -
  have r: "reachable (\<lambda>t. t) (step (\<lambda>t. t) (sample_world 1) (Frame 200))"
    by (rule reachable_step) simp_all
  have "js_queue (step (\<lambda>t. t) (sample_world 1) (Frame 200)) = [SetFadedIn True]"
    by (simp add: sample_eval)
  then have q: "js_queue (step (\<lambda>t. t) (sample_world 1) (Frame 200)) \<noteq> []"
    by (simp del: step.simps)
  from stale_completion [OF r q, of 0] r q show ?thesis
    by (simp del: step.simps run_Cons)
qed

text \<open>
  C12. After a stale completion the next opening skips the fade. Opening a
  reachable hidden overlay whose fade-complete flag is set makes it visible in
  phase \<open>Shown\<close> at once: it displays the drag position from the first frame
  on, although the owned opacity restarts from 0 and its fade has just begun,
  where the abstract machine is in phase \<open>FadingIn\<close>.
\<close>

theorem stale_reopen_skips_fade:
  assumes "reachable base w" and "index_of w \<le> 0" and "fadedIn (state_of w)" and "0 < i"
  shows "phase_of (state_of (step base w (SetIndex i))) = Shown \<and>
         phase_step (phase_of (state_of w)) (IndexChanged i) = FadingIn \<and>
         displayed (step base w (SetIndex i)) = animatedBottomSheetIndex (the_props w) \<and>
         current (opacity (state_of (step base w (SetIndex i)))) = 0 \<and>
         \<not> idle (opacity (state_of (step base w (SetIndex i))))"
proof -
  from assms(1,2) have "\<not> visible (state_of w)"
    by (simp add: reachable_synced)
  with assms(3,4) show ?thesis
    by (simp add: opened_world [OF assms(1,2,4)] phase_of_def displayed_def shown_opacity_def)
qed

theorem stale_reopen_skips_fade_witness:
  "reachable (\<lambda>t. t) (run (\<lambda>t. t) (sample_world 1) [Frame 200, SetIndex 0, Deliver, Drag 1]) \<and>
   index_of (run (\<lambda>t. t) (sample_world 1) [Frame 200, SetIndex 0, Deliver, Drag 1]) \<le> 0 \<and>
   fadedIn (state_of (run (\<lambda>t. t) (sample_world 1) [Frame 200, SetIndex 0, Deliver, Drag 1])) \<and>
   (0::int) < 1 \<and>
   displayed (step (\<lambda>t. t) (run (\<lambda>t. t) (sample_world 1) [Frame 200, SetIndex 0, Deliver, Drag 1])
      (SetIndex 1)) = 1 \<and>
   current (opacity (state_of (step (\<lambda>t. t)
      (run (\<lambda>t. t) (sample_world 1) [Frame 200, SetIndex 0, Deliver, Drag 1]) (SetIndex 1)))) = 0"
proof -
  let ?w = "run (\<lambda>t. t) (sample_world 1) [Frame 200, SetIndex 0, Deliver, Drag 1]"
  have r: "reachable (\<lambda>t. t) ?w"
    by (rule reachable_run) (simp_all add: index_effect_def frame_effect_open_done)
  have i: "index_of ?w \<le> 0" by simp
  have f: "fadedIn (state_of ?w)"
    by (simp add: index_effect_def frame_effect_open_done deliver_def fade_callback_def)
  have d: "animatedBottomSheetIndex (the_props ?w) = 1" by simp
  from stale_reopen_skips_fade [OF r i f, of 1] r i f d show ?thesis
    by (simp del: step.simps run_Cons)
qed

text \<open>
  C13. Without that race the flag is clean. On a run from the first commit in
  which no event closes the overlay while a posted call is pending, whenever
  the overlay is hidden its fade-complete flag is clear and no call is pending,
  so that the next opening starts in phase \<open>FadingIn\<close>.
\<close>

theorem race_free_hidden_clean:
  assumes "admissible race_free (step base) (mount th p c t0) es"
    and "\<not> visible (state_of (run base (mount th p c t0) es))"
  shows "\<not> fadedIn (state_of (run base (mount th p c t0) es)) \<and>
         js_queue (run base (mount th p c t0) es) = []"
  using run_fresh [OF coherent_mount fresh_mount assms(1)] assms(2)
  by (simp add: fresh_def)

theorem race_free_hidden_clean_witness:
  "admissible race_free (step (\<lambda>t. t)) (mount sample_theme (sample_props 1) (0::nat) 0)
     [Frame 200, Deliver, SetIndex 0] \<and>
   \<not> visible (state_of (run (\<lambda>t. t) (mount sample_theme (sample_props 1) (0::nat) 0)
     [Frame 200, Deliver, SetIndex 0])) \<and>
   \<not> fadedIn (state_of (run (\<lambda>t. t) (mount sample_theme (sample_props 1) (0::nat) 0)
     [Frame 200, Deliver, SetIndex 0]))"
proof -
  have a: "admissible race_free (step (\<lambda>t. t)) (mount sample_theme (sample_props 1) (0::nat) 0)
     [Frame 200, Deliver, SetIndex 0]"
    by (simp add: overlay_defs finished_def elapsed_def)
  have v: "\<not> visible (state_of (run (\<lambda>t. t) (mount sample_theme (sample_props 1) (0::nat) 0)
     [Frame 200, Deliver, SetIndex 0]))"
    by (simp add: useEffect_def)
  from race_free_hidden_clean [OF a v] a v show ?thesis
    by simp
qed

text \<open>
  C14. While the overlay is not closed it only advances: over any run from a
  reachable world that contains no change of the index to zero or below, the
  phase never moves backwards in the order \<open>Hidden\<close>, \<open>FadingIn\<close>,
  \<open>Shown\<close>. In particular a shown overlay is never sent back into its fade by
  a frame, a drag, a tap or a further positive index.
\<close>

theorem phase_advances_while_open:
  assumes "reachable base w" and "\<forall>e \<in> set es. \<not> closes e"
  shows "phase_of (state_of w) \<le> phase_of (state_of (run base w es))"
proof -
  from assms(1) have "coherent w" by (rule reachable_coherent)
  then show ?thesis
    using assms(2)
  proof (induction es arbitrary: w)
    case Nil
    show ?case by simp
  next
    case (Cons e es)
    from Cons.prems have "phase_of (state_of w) \<le> phase_of (state_of (step base w e))"
      by (simp add: phase_step_mono)
    also from Cons.prems have "\<dots> \<le> phase_of (state_of (run base (step base w e) es))"
      by (intro Cons.IH coherent_step) simp_all
    finally show ?case by simp
  qed
qed

theorem phase_advances_while_open_witness:
  "reachable (\<lambda>t. t) (sample_world 0) \<and>
   \<not> list_ex closes [SetIndex 1, Frame 250, Deliver, SetIndex 2, Frame 10] \<and>
   phase_of (state_of (sample_world 0)) = Hidden \<and>
   phase_of (state_of (run (\<lambda>t. t) (sample_world 0)
      [SetIndex 1, Frame 250, Deliver, SetIndex 2, Frame 10])) = Shown \<and>
   phase_of (state_of (sample_world 0)) \<le> phase_of (state_of (run (\<lambda>t. t) (sample_world 0)
      [SetIndex 1, Frame 250, Deliver, SetIndex 2, Frame 10]))"
proof -
  have p: "phase_of (state_of (run (\<lambda>t. t) (sample_world 0)
      [SetIndex 1, Frame 250, Deliver, SetIndex 2, Frame 10])) = Shown"
    by (simp add: overlay_defs finished_def elapsed_def)
  have h: "\<forall>e \<in> set [SetIndex 1, Frame 250, Deliver, SetIndex 2, Frame 10]. \<not> closes e"
    by simp
  from phase_advances_while_open [OF reachable_sample_world [of "\<lambda>t. t" 0] h] p
  show ?thesis
    by (simp add: index_effect_def phase_of_def del: run_Cons phase_of_simps)
qed

end
