(* ===== verification/Overlay_Reference.thy ===== *)
theory Overlay_Reference
  imports Overlay_Spec
begin

text \<open>
  The delivery the specification asks for, as a reference machine. The
  specification treats the completion of the fade as a message that may arrive
  after the state has moved on and that must then be ignored, by deriving from
  the current state whether it is still current. The reference machine is the
  machine of the component with this one difference: a posted call is applied
  only if the overlay is visible and its owned opacity has reached 1, and is
  dropped otherwise. The theory shows that the component agrees with the
  reference machine on the runs without a race, and that the reference machine
  has on all runs what the component has only on those.
\<close>

section \<open>The reference machine\<close>

definition completion_current :: "overlay_state \<Rightarrow> bool" where
  "completion_current s \<longleftrightarrow> visible s \<and> current (opacity s) = 1"

definition deliver_checked :: "'w world \<Rightarrow> 'w world" where
  "deliver_checked w =
     (case js_queue w of
        [] \<Rightarrow> w
      | c # q \<Rightarrow> if completion_current (state_of w) then deliver w else w\<lparr>js_queue := q\<rparr>)"

fun step_checked :: "(number \<Rightarrow> number) \<Rightarrow> 'w world \<Rightarrow> event \<Rightarrow> 'w world" where
  "step_checked base w Deliver = deliver_checked w"
| "step_checked base w e = step base w e"

definition run_checked :: "(number \<Rightarrow> number) \<Rightarrow> 'w world \<Rightarrow> event list \<Rightarrow> 'w world" where
  "run_checked base = foldl (step_checked base)"

text \<open>
  The signal the abstract machine sees for an event of the reference machine: a
  delivery is the completion of the fade only if it is applied.
\<close>

fun signal_checked :: "'w world \<Rightarrow> event \<Rightarrow> signal" where
  "signal_checked w Deliver =
     (if js_queue w \<noteq> [] \<and> completion_current (state_of w) then FadeDone else Stutter)"
| "signal_checked w e = signal_of e"

fun signals_checked :: "(number \<Rightarrow> number) \<Rightarrow> 'w world \<Rightarrow> event list \<Rightarrow> signal list" where
  "signals_checked base w [] = []"
| "signals_checked base w (e # es) =
     signal_checked w e # signals_checked base (step_checked base w e) es"

lemma run_checked_simps [simp]:
  "run_checked base w [] = w"
  "run_checked base w (e # es) = run_checked base (step_checked base w e) es"
  by (simp_all add: run_checked_def)

lemma deliver_checked_cases:
  "deliver_checked w = deliver w \<or>
   (js_queue w \<noteq> [] \<and> \<not> completion_current (state_of w) \<and>
    deliver_checked w = w\<lparr>js_queue := tl (js_queue w)\<rparr>)"
  by (auto simp: deliver_checked_def deliver_def split: list.splits)

lemma step_checked_eq:
  "(e = Deliver \<Longrightarrow> js_queue w \<noteq> [] \<Longrightarrow> completion_current (state_of w)) \<Longrightarrow>
   step_checked base w e = step base w e"
  by (cases e) (auto simp: deliver_checked_def deliver_def split: list.splits)

section \<open>Invariants of the reference machine\<close>

text \<open>
  \<open>clean\<close>: a hidden overlay has its fade-complete flag clear. The machine
  of the component keeps it only without a race; the reference machine keeps
  it always.
\<close>

definition clean :: "'w world \<Rightarrow> bool" where
  "clean w \<longleftrightarrow> visible (state_of w) \<or> \<not> fadedIn (state_of w)"

lemma coherent_drop: "coherent w \<Longrightarrow> coherent (w\<lparr>js_queue := tl (js_queue w)\<rparr>)"
  by (simp add: coherent_def synced_def queue_ok_tl)

lemma coherent_step_checked:
  assumes "coherent w"
  shows "coherent (step_checked base w e)"
proof (cases e)
  case Deliver
  with deliver_checked_cases [of w] assms show ?thesis
    by (auto simp: coherent_deliver coherent_drop)
qed (use coherent_step [OF assms, of base e] in simp_all)

lemma clean_mount: "clean (mount th p c t0)"
  by (simp add: clean_def unmounted_def useEffect_def index_effect_def)

lemma clean_step_checked:
  assumes "clean w"
  shows "clean (step_checked base w e)"
proof (cases e)
  case (SetIndex i)
  with assms show ?thesis
    by (auto simp: clean_def useEffect_def index_effect_def)
next
  case Deliver
  with assms show ?thesis
    by (auto simp: clean_def deliver_checked_def completion_current_def split: list.splits)
qed (use assms in \<open>simp_all add: clean_def\<close>)

lemma run_checked_invariant:
  "coherent w \<Longrightarrow> clean w \<Longrightarrow> coherent (run_checked base w es) \<and> clean (run_checked base w es)"
  unfolding run_checked_def
  by (rule foldl_invariant [where P = "\<lambda>w. coherent w \<and> clean w" and en = "\<lambda>_ _. True"])
    (simp_all add: coherent_step_checked clean_step_checked)

section \<open>One step of the reference machine is one step of the abstract machine\<close>

lemma phase_deliver_checked:
  assumes "coherent w"
  shows "phase_of (state_of (deliver_checked w)) =
         phase_step (phase_of (state_of w)) (signal_checked w Deliver)"
proof (cases "js_queue w")
  case Nil
  then show ?thesis
    by (auto simp: deliver_checked_def phase_of_def completion_current_def)
next
  case (Cons c q)
  with coherentD(5) [OF assms] have "c = SetFadedIn True"
    by (simp add: fade_callback_def)
  with Cons show ?thesis
    by (auto simp: deliver_checked_def deliver_Cons phase_of_def completion_current_def)
qed

lemma phase_step_checked:
  assumes "coherent w" and "clean w"
  shows "phase_of (state_of (step_checked base w e)) =
         phase_step (phase_of (state_of w)) (signal_checked w e)"
proof (cases e)
  case (SetIndex i)
  with assms phase_set_index [of w i] show ?thesis
    by (simp add: clean_def)
next
  case Deliver
  with assms(1) show ?thesis by (simp add: phase_deliver_checked)
qed (simp_all add: phase_tick)

section \<open>Pending calls on runs without a race\<close>

text \<open>
  On the machine of the component, as long as no close meets a pending call, a
  pending call is current: the overlay is visible, its owned opacity is 1, and
  an animation that runs started from 1 and so keeps it there.
\<close>

definition pending_current :: "'w world \<Rightarrow> bool" where
  "pending_current w \<longleftrightarrow>
     js_queue w = [] \<or>
     (completion_current (state_of w) \<and>
      (case running (opacity (state_of w)) of None \<Rightarrow> True | Some a \<Rightarrow> startValue a = 1))"

lemma pending_current_mount: "pending_current (mount th p c t0)"
  by (simp add: pending_current_def)

lemma pending_current_set_index:
  assumes "pending_current w" and "0 < i \<or> js_queue w = []"
  shows "pending_current (set_index i w)"
  using assms
  by (auto simp: pending_current_def completion_current_def useEffect_def index_effect_def)

lemma pending_current_tick:
  assumes "coherent w" and "pending_current w"
  shows "pending_current (tick base dt w)"
proof (cases "running (opacity (state_of w))")
  case None
  with assms(2) show ?thesis
    by (simp add: pending_current_def completion_current_def idle_def)
next
  case (Some a)
  with coherentD(3) [OF assms(1)] have a: "toValue a = 1" "visible (state_of w)"
    by (simp_all add: fade_only_def fade_animation_def)
  show ?thesis
  proof (cases "finished a (clock w + dt)")
    case True
    with Some a show ?thesis
      by (simp add: pending_current_def completion_current_def frame_finished)
  next
    case False
    with Some a assms(2) show ?thesis
      by (auto simp: pending_current_def completion_current_def frame_unfinished)
  qed
qed

lemma pending_current_deliver: "pending_current w \<Longrightarrow> pending_current (deliver w)"
  by (cases "js_queue w") (auto simp: pending_current_def completion_current_def deliver_def)

lemma pending_current_step:
  assumes "coherent w" and "pending_current w" and "race_free w e"
  shows "pending_current (step base w e)"
proof (cases e)
  case (SetIndex i)
  with assms(2,3) show ?thesis by (simp add: pending_current_set_index)
next
  case (Frame dt)
  with assms(1,2) show ?thesis by (simp add: pending_current_tick)
next
  case Deliver
  with assms(2) show ?thesis by (simp add: pending_current_deliver)
qed (use assms(2) in \<open>simp_all add: pending_current_def\<close>)

lemma step_checked_race_free:
  assumes "pending_current w"
  shows "step_checked base w e = step base w e"
  using assms by (intro step_checked_eq) (simp add: pending_current_def)

lemma run_checked_race_free:
  assumes "coherent w" and "pending_current w" and "admissible race_free (step base) w es"
  shows "run_checked base w es = run base w es"
  using assms
proof (induction es arbitrary: w)
  case Nil
  show ?case by simp
next
  case (Cons e es)
  from Cons.prems have "coherent (step base w e)" and "pending_current (step base w e)"
    and "admissible race_free (step base) (step base w e) es"
    by (simp_all add: coherent_step pending_current_step)
  then have "run_checked base (step base w e) es = run base (step base w e) es"
    by (rule Cons.IH)
  with Cons.prems(2) show ?case
    by (simp add: step_checked_race_free)
qed

section \<open>Properties of the reference machine\<close>

text \<open>
  C34. Without a race the component is the reference machine. On every run
  from the first commit in which no event closes the overlay while a posted
  call is pending, the machine of the component and the reference machine
  reach the same world: every call the component applies unconditionally is
  one the reference machine would have applied after its check.
\<close>

theorem agrees_with_reference:
  assumes "admissible race_free (step base) (mount th p c t0) es"
  shows "run base (mount th p c t0) es = run_checked base (mount th p c t0) es"
  using run_checked_race_free [OF coherent_mount pending_current_mount assms]
  by (simp add: run_checked_def step_checked_eq)

theorem agrees_with_reference_witness:
  "admissible race_free (step (\<lambda>t. t)) (mount sample_theme (sample_props 1) (0::nat) 0)
     [Frame 120, Frame 120, SetIndex 2, Deliver, SetIndex 0] \<and>
   run_checked (\<lambda>t. t) (mount sample_theme (sample_props 1) (0::nat) 0)
     [Frame 120, Frame 120, SetIndex 2, Deliver, SetIndex 0] =
   run (\<lambda>t. t) (mount sample_theme (sample_props 1) (0::nat) 0)
     [Frame 120, Frame 120, SetIndex 2, Deliver, SetIndex 0]"
proof -
  have a: "admissible race_free (step (\<lambda>t. t)) (mount sample_theme (sample_props 1) (0::nat) 0)
     [Frame 120, Frame 120, SetIndex 2, Deliver, SetIndex 0]"
    by (simp add: overlay_defs finished_def elapsed_def)
  from agrees_with_reference [OF a] a show ?thesis
    by (simp del: run_Cons run_checked_simps)
qed

text \<open>
  C35. The reference machine never leaves the flag on a hidden overlay.
  After any sequence of events whatever from the first commit, a hidden
  overlay of the reference machine has its fade-complete flag clear, so that
  the next opening starts in phase \<open>FadingIn\<close>; the stale completion that
  breaks this on the machine of the component is dropped.
\<close>

theorem reference_hidden_clean:
  assumes "\<not> visible (state_of (run_checked base (mount th p c t0) es))"
  shows "\<not> fadedIn (state_of (run_checked base (mount th p c t0) es)) \<and>
         phase_of (state_of (step_checked base (run_checked base (mount th p c t0) es) (SetIndex 1)))
           = FadingIn"
proof -
  let ?w = "run_checked base (mount th p c t0) es"
  have i: "coherent ?w \<and> clean ?w"
    by (intro run_checked_invariant coherent_mount clean_mount)
  with assms have f: "\<not> fadedIn (state_of ?w)"
    by (simp add: clean_def deliver_checked_def completion_current_def)
  from i have "deps (mounted ?w) = Some (index_of ?w)"
    and "visible (state_of ?w) \<longleftrightarrow> 0 < index_of ?w"
    by (simp_all add: coherentD(1,2))
  with assms have "deps (mounted ?w) \<noteq> Some 1"
    by simp
  with f show ?thesis
    by (simp add: phase_of_def useEffect_def index_effect_def)
qed

theorem reference_hidden_clean_witness:
  "\<not> visible (state_of (run_checked (\<lambda>t. t) (mount sample_theme (sample_props 1) (0::nat) 0)
     [Frame 200, SetIndex 0, Deliver])) \<and>
   \<not> fadedIn (state_of (run_checked (\<lambda>t. t) (mount sample_theme (sample_props 1) (0::nat) 0)
     [Frame 200, SetIndex 0, Deliver])) \<and>
   fadedIn (state_of (run (\<lambda>t. t) (mount sample_theme (sample_props 1) (0::nat) 0)
     [Frame 200, SetIndex 0, Deliver]))"
proof -
  have v: "\<not> visible (state_of (run_checked (\<lambda>t. t)
      (mount sample_theme (sample_props 1) (0::nat) 0) [Frame 200, SetIndex 0, Deliver]))"
    by (simp add: deliver_checked_def completion_current_def overlay_defs finished_def
        elapsed_def)
  have f: "fadedIn (state_of (run (\<lambda>t. t) (mount sample_theme (sample_props 1) (0::nat) 0)
      [Frame 200, SetIndex 0, Deliver]))"
    by (simp add: overlay_defs finished_def elapsed_def)
  from reference_hidden_clean [OF v] v f show ?thesis
    by (simp del: run_Cons run_checked_simps)
qed

text \<open>
  C36. The reference machine refines the abstract machine on all runs. After
  any sequence of events from the first commit, the phase of the reference
  machine is the phase the abstract machine reaches from \<open>Hidden\<close> over the
  signals of the events, where a delivery counts as the completion of the fade
  exactly when the reference machine applies it.
\<close>

theorem reference_refines:
  "phase_of (state_of (run_checked base (mount th p c t0) es)) =
   phase_run (phase_step Hidden (IndexChanged (currentBottomSheetIndex p)))
     (signals_checked base (mount th p c t0) es)"
proof -
  have "phase_of (state_of (run_checked base w es)) =
      phase_run (phase_of (state_of w)) (signals_checked base w es)"
    if "coherent w" and "clean w" for w :: "'a world"
    using that
  proof (induction es arbitrary: w)
    case Nil
    show ?case by simp
  next
    case (Cons e es)
    then show ?case
      by (simp add: coherent_step_checked clean_step_checked phase_step_checked)
  qed
  from this [OF coherent_mount clean_mount, of th p c t0] show ?thesis
    by (simp add: phase_of_def unmounted_def useEffect_def index_effect_def)
qed

end
