(* ===== verification/Overlay_Interleaving.thy ===== *)
theory Overlay_Interleaving
  imports Overlay_Spec
begin

text \<open>
  The order of events. The five events come from four sources that do not wait
  for each other: the parent's renders, the bottom sheet's shared value, the
  animation thread and its posted calls, the gesture recogniser. This theory
  says which pairs of events may be exchanged without a difference in the world
  they lead to, which pairs may not, and how a world in any state is brought
  back to the state of a freshly mounted, closed overlay.
\<close>

section \<open>Independent events\<close>

text \<open>
  \<open>independent w e e'\<close> is decided from the two events and from the index and
  the queue of the world they occur in. A drag writes a prop that no other
  event writes. A state change of the recogniser reaches the caller only while
  the surface is rendered, so it is independent of a render that keeps the
  sheet on its side of zero. A frame and a posted call touch the queue at its
  two ends. A posted call and a render meet in \<^verbatim>\<open>fadedIn\<close>: they are
  independent when there is no call to run, when the render opens, or when the
  render does not change the index.
\<close>

fun independent :: "'w world \<Rightarrow> event \<Rightarrow> event \<Rightarrow> bool" where
  "independent w (Drag v) (Drag v') \<longleftrightarrow> v = v'"
| "independent w (Drag v) e \<longleftrightarrow> True"
| "independent w e (Drag v) \<longleftrightarrow> True"
| "independent w (Gesture st) (SetIndex i) \<longleftrightarrow> st \<noteq> END \<or> (0 < i \<longleftrightarrow> 0 < index_of w)"
| "independent w (SetIndex i) (Gesture st) \<longleftrightarrow> st \<noteq> END \<or> (0 < i \<longleftrightarrow> 0 < index_of w)"
| "independent w (Gesture st) e \<longleftrightarrow> True"
| "independent w e (Gesture st) \<longleftrightarrow> True"
| "independent w (Frame dt) (Frame dt') \<longleftrightarrow> True"
| "independent w (Frame dt) Deliver \<longleftrightarrow> js_queue w \<noteq> []"
| "independent w Deliver (Frame dt) \<longleftrightarrow> js_queue w \<noteq> []"
| "independent w (Frame dt) (SetIndex i) \<longleftrightarrow> i = index_of w"
| "independent w (SetIndex i) (Frame dt) \<longleftrightarrow> i = index_of w"
| "independent w Deliver Deliver \<longleftrightarrow> True"
| "independent w Deliver (SetIndex i) \<longleftrightarrow> js_queue w = [] \<or> 0 < i \<or> i = index_of w"
| "independent w (SetIndex i) Deliver \<longleftrightarrow> js_queue w = [] \<or> 0 < i \<or> i = index_of w"
| "independent w (SetIndex i) (SetIndex j) \<longleftrightarrow> i = j"

text \<open>The events in which the JS thread runs every call that is posted.\<close>

definition drain :: "'w world \<Rightarrow> event list" where
  "drain w = replicate (length (js_queue w)) Deliver"

lemma independent_sym: "independent w e e' \<longleftrightarrow> independent w e' e"
  by (cases e; cases e') auto

section \<open>Exchanging two operations\<close>

lemma set_index_index_of: "coherent w \<Longrightarrow> set_index (index_of w) w = w"
  by (simp add: set_index_eq useEffect_same coherentD(1))

lemma visible_set_index:
  "coherent w \<Longrightarrow> visible (state_of (set_index i w)) \<longleftrightarrow> 0 < i"
  using coherentD(1,2) [OF coherent_set_index, of w i] by simp

lemma drag_set_index: "drag v (set_index i w) = set_index i (drag v w)"
  by (simp add: set_index_eq drag_def useEffect_def index_effect_def)

lemma drag_tick: "drag v (tick base dt w) = tick base dt (drag v w)"
  by (simp add: drag_def tick_def Let_def)

lemma drag_deliver: "drag v (deliver w) = deliver (drag v w)"
  by (simp add: drag_def deliver_def split: list.splits)

lemma drag_gesture: "drag v (gesture st w) = gesture st (drag v w)"
  by (cases "visible (state_of w)") (simp_all add: gesture_hidden gesture_visible drag_def)

lemma gesture_gesture: "gesture st (gesture st' w) = gesture st' (gesture st w)"
  by (cases "visible (state_of w)") (simp_all add: gesture_hidden gesture_visible)

lemma gesture_tick: "gesture st (tick base dt w) = tick base dt (gesture st w)"
  by (cases "visible (state_of w)") (simp_all add: gesture_hidden gesture_visible tick_def Let_def)

lemma gesture_deliver: "gesture st (deliver w) = deliver (gesture st w)"
  by (cases "visible (state_of w)")
    (simp_all add: gesture_hidden gesture_visible deliver_def split: list.splits)

lemma gesture_set_index:
  assumes "coherent w" and "st \<noteq> END \<or> (0 < i \<longleftrightarrow> 0 < index_of w)"
  shows "gesture st (set_index i w) = set_index i (gesture st w)"
proof (cases "st = END")
  case True
  with assms coherentD(2) [OF assms(1)] visible_set_index [OF assms(1), of i]
  have v: "visible (state_of (set_index i w)) \<longleftrightarrow> visible (state_of w)"
    by simp
  then show ?thesis
  proof (cases "visible (state_of w)")
    case True
    with v show ?thesis
      by (simp add: gesture_visible)
  next
    case False
    with v show ?thesis
      by (simp add: gesture_hidden)
  qed
next
  case False
  have "gesture st w' = w'" for w' :: "'a world"
    using False by (cases "visible (state_of w')") (simp_all add: gesture_hidden gesture_visible)
  then show ?thesis
    by simp
qed

lemma tick_tick:
  assumes "coherent w"
  shows "tick base dt (tick base dt' w) = tick base dt' (tick base dt w)"
proof -
  have "run base w (map Frame [dt', dt]) = run base w (map Frame [dt, dt'])"
    unfolding run_frames
    by (simp add: play_coalesce [OF coherentD(4) [OF assms]] add.commute del: play.simps)
  then show ?thesis
    by simp
qed

lemma runOnJS_eq: "runOnJS c s = s\<lparr>fadedIn := (case c of SetFadedIn b \<Rightarrow> b)\<rparr>"
  by (cases c) (simp add: setFadedIn_def)

lemma deliver_tick:
  "js_queue w \<noteq> [] \<Longrightarrow> deliver (tick base dt w) = tick base dt (deliver w)"
  by (cases "js_queue w") (simp_all add: deliver_def tick_def Let_def runOnJS_eq)

lemma tick_set_index:
  "coherent w \<Longrightarrow> tick base dt (set_index (index_of w) w) = set_index (index_of w) (tick base dt w)"
  using set_index_index_of [of "tick base dt w"] by (simp add: set_index_index_of coherent_tick)

lemma deliver_set_index:
  assumes "coherent w" and "js_queue w = [] \<or> 0 < i \<or> i = index_of w"
  shows "deliver (set_index i w) = set_index i (deliver w)"
proof (cases "i = index_of w")
  case True
  with assms(1) set_index_index_of [of "deliver w"] show ?thesis
    by (simp add: set_index_index_of coherent_deliver)
next
  case False
  with assms show ?thesis
    by (cases "js_queue w")
      (auto simp: deliver_def set_index_eq useEffect_def index_effect_def effect_open_def
        setter_defs coherentD(1) runOnJS_eq)
qed

section \<open>Running the posted calls\<close>

lemma run_delivers:
  "length (js_queue w) = n \<Longrightarrow>
   js_queue (run base w (replicate n Deliver)) = [] \<and>
   the_props (run base w (replicate n Deliver)) = the_props w \<and>
   deps (mounted (run base w (replicate n Deliver))) = deps (mounted w) \<and>
   admissible enabled (step base) w (replicate n Deliver)"
proof (induction n arbitrary: w)
  case 0
  then show ?case by simp
next
  case (Suc n)
  then have "length (js_queue (deliver w)) = n" and "js_queue w \<noteq> []"
    by auto
  with Suc.IH [of "deliver w"] show ?case
    by simp
qed

lemmas run_drain = run_delivers [OF refl, folded drain_def]

text \<open>The two orders of a closing render and a posted call differ in the flag.\<close>

lemma close_deliver_race:
  assumes "reachable base w" and "js_queue w \<noteq> []" and "j \<le> 0" and "j \<noteq> index_of w"
  shows "fadedIn (state_of (run base w [SetIndex j, Deliver]))"
    and "\<not> fadedIn (state_of (run base w [Deliver, SetIndex j]))"
proof -
  note c = reachable_coherent [OF assms(1)]
  from assms(2) coherentD(5) [OF c] obtain q where q: "js_queue w = SetFadedIn True # q"
    by (cases "js_queue w") (auto simp: fade_callback_def)
  then show "fadedIn (state_of (run base w [SetIndex j, Deliver]))"
    by (simp add: deliver_def)
  from assms(3,4) coherentD(1) [OF c]
  show "\<not> fadedIn (state_of (run base w [Deliver, SetIndex j]))"
    by (simp add: useEffect_def index_effect_def)
qed

text \<open>For this pair the condition of \<open>independent\<close> is exact.\<close>

lemma deliver_set_index_iff:
  assumes "reachable base w"
  shows "run base w [Deliver, SetIndex i] = run base w [SetIndex i, Deliver] \<longleftrightarrow>
         independent w Deliver (SetIndex i)"
proof
  assume e: "run base w [Deliver, SetIndex i] = run base w [SetIndex i, Deliver]"
  show "independent w Deliver (SetIndex i)"
  proof (rule ccontr)
    assume "\<not> independent w Deliver (SetIndex i)"
    then have "js_queue w \<noteq> []" and "i \<le> 0" and "i \<noteq> index_of w"
      by simp_all
    from close_deliver_race [OF assms this] show False
      unfolding e by simp
  qed
next
  assume "independent w Deliver (SetIndex i)"
  with deliver_set_index [OF reachable_coherent [OF assms], of i]
  show "run base w [Deliver, SetIndex i] = run base w [SetIndex i, Deliver]"
    by simp
qed

section \<open>Properties of the order of events\<close>

text \<open>
  C39. Independent events commute. In a world the overlay can reach, two
  events that are independent there lead to the same world in either order:
  the same props, the same state of the component, the same clock, the same
  queue of posted calls and the same state of the caller. In particular a
  drag of the sheet may be exchanged with any other event, and two frames with
  each other; a render and a posted call may be exchanged unless the render
  closes the overlay while a completion is waiting.
\<close>

theorem independent_commute:
  assumes "reachable base w" and "independent w e e'"
  shows "run base w [e, e'] = run base w [e', e]"
proof -
  note c = reachable_coherent [OF assms(1)]
  note exchange = drag_set_index drag_tick drag_deliver drag_gesture gesture_gesture
    gesture_tick gesture_deliver gesture_set_index [OF c] tick_tick [OF c] deliver_tick
    tick_set_index [OF c] deliver_set_index [OF c]
  from assms(2) show ?thesis
    by (cases e; cases e') (auto simp: exchange)
qed

theorem independent_commute_witness:
  "reachable (\<lambda>t. t) (step (\<lambda>t. t) (sample_world 1) (Frame 200)) \<and>
   independent (step (\<lambda>t. t) (sample_world 1) (Frame 200)) Deliver (SetIndex 2) \<and>
   run (\<lambda>t. t) (step (\<lambda>t. t) (sample_world 1) (Frame 200)) [Deliver, SetIndex 2] =
   run (\<lambda>t. t) (step (\<lambda>t. t) (sample_world 1) (Frame 200)) [SetIndex 2, Deliver]"
proof -
  have r: "reachable (\<lambda>t. t) (step (\<lambda>t. t) (sample_world 1) (Frame 200))"
    by (rule reachable_step) simp_all
  have i: "independent (step (\<lambda>t. t) (sample_world 1) (Frame 200)) Deliver (SetIndex 2)"
    by simp
  from independent_commute [OF r i] r i show ?thesis
    by (simp del: step.simps run_Cons independent.simps)
qed

text \<open>
  C40. The overlay can always be brought home. From every world the overlay
  can reach, letting the JS thread run the calls that are posted and then
  rendering with a different index that is zero or negative is an admissible
  run, and it ends in a reachable world in which the component holds the state
  it was mounted with (hidden, fade-complete flag clear, owned opacity at rest
  at 0) and nothing is posted: whatever happened before, the next opening
  starts from a fresh overlay. The order matters: the same render before the
  posted calls leaves the flag set.
\<close>

theorem always_recoverable:
  assumes "reachable base w" and "j \<le> 0" and "j \<noteq> index_of w"
  shows "admissible enabled (step base) w (drain w @ [SetIndex j]) \<and>
         reachable base (run base w (drain w @ [SetIndex j])) \<and>
         state_of (run base w (drain w @ [SetIndex j])) = initial_state \<and>
         js_queue (run base w (drain w @ [SetIndex j])) = [] \<and>
         fresh (run base w (drain w @ [SetIndex j]))"
proof -
  note d = run_drain [where w = w and base = base]
  from d have a: "admissible enabled (step base) w (drain w @ [SetIndex j])"
    by (simp add: admissible_run_append)
  from d assms(2,3) coherentD(1) [OF reachable_coherent [OF assms(1)]]
  have "state_of (run base w (drain w @ [SetIndex j])) = initial_state"
    and "js_queue (run base w (drain w @ [SetIndex j])) = []"
    by (simp_all add: run_append useEffect_def index_effect_def)
  with a reachable_run [OF assms(1) a] show ?thesis
    by (simp add: fresh_def)
qed

theorem always_recoverable_witness:
  "reachable (\<lambda>t. t) (step (\<lambda>t. t) (sample_world 1) (Frame 200)) \<and>
   (0::int) \<le> 0 \<and> 0 \<noteq> index_of (step (\<lambda>t. t) (sample_world 1) (Frame 200)) \<and>
   drain (step (\<lambda>t. t) (sample_world 1) (Frame 200)) = [Deliver] \<and>
   state_of (run (\<lambda>t. t) (sample_world 1) [Frame 200, Deliver, SetIndex 0]) = initial_state \<and>
   js_queue (run (\<lambda>t. t) (sample_world 1) [Frame 200, Deliver, SetIndex 0]) = []"
proof -
  have r: "reachable (\<lambda>t. t) (step (\<lambda>t. t) (sample_world 1) (Frame 200))"
    by (rule reachable_step) simp_all
  have i: "0 \<noteq> index_of (step (\<lambda>t. t) (sample_world 1) (Frame 200))"
    by (simp add: sample_props_def)
  have d: "drain (step (\<lambda>t. t) (sample_world 1) (Frame 200)) = [Deliver]"
    by (simp add: drain_def sample_eval)
  from always_recoverable [OF r _ i] r i d show ?thesis
    unfolding d by (simp del: step.simps)
qed

end
