(* ===== verification/Overlay_Gestures.thy ===== *)
theory Overlay_Gestures
  imports Overlay_Invariants
begin

text \<open>
  Touches on the mounted overlay: the tap recogniser, configured with the
  tolerances the overlay renders it with, turns a sequence of touch samples
  into state changes, and each state change reaches the overlay's handler as a
  \<open>Gesture\<close> event. The theory follows a touch from the finger to the caller's
  state.
\<close>

section \<open>From touches to events\<close>

text \<open>
  The events a sequence of touch samples causes on a world: those of the
  recogniser the rendered element configures, and none when nothing is rendered.
\<close>

definition touches :: "'w world \<Rightarrow> touch list \<Rightarrow> event list" where
  "touches w ts =
     (case element w of
        None \<Rightarrow> []
      | Some el \<Rightarrow> map Gesture (recognise (maxDeltaX el) (maxDeltaY el) resting ts))"

text \<open>How often \<open>END\<close> is among the reported states.\<close>

definition ends :: "gesture_state list \<Rightarrow> nat" where
  "ends sts = count_list sts END"

lemma ends_simps [simp]:
  "ends [] = 0" "ends (st # sts) = (if st = END then Suc (ends sts) else ends sts)"
  by (simp_all add: ends_def)

section \<open>Gestures change the caller's state and nothing else\<close>

lemma gesture_others [simp]:
  "visible (state_of (gesture st w)) = visible (state_of w)"
  "closeGridView (the_props (gesture st w)) = closeGridView (the_props w)"
  by simp_all

lemma caller_run_gestures:
  "visible (state_of w) \<Longrightarrow>
   caller (run base w (map Gesture sts)) = (closeGridView (the_props w) ^^ ends sts) (caller w)"
  by (induction sts arbitrary: w) (simp_all add: gesture_visible tapEvent_def funpow_swap1)

text \<open>What a tap and what a drag do to a world that renders the overlay.\<close>

lemma run_tap:
  assumes "visible (state_of w)" and "\<forall>m \<in> set ms. in_tolerance 16 16 (x, y) m"
  shows "run base w (touches w (Down x y # ms @ [Up])) =
         w\<lparr>caller := tapEvent (the_props w) (state_change END) (caller w)\<rparr>"
proof -
  from assms(2) have "recognise 16 16 resting (Down x y # ms @ [Up]) = [BEGAN, ACTIVE, END]"
    by (rule recognise_tap)
  with assms(1) show ?thesis
    by (simp add: touches_def element_def render_def gesture_visible tapEvent_def)
qed

lemma run_drag:
  assumes "visible (state_of w)" and "\<forall>m \<in> set ms. in_tolerance 16 16 (x, y) m"
    and "exceeds 16 16 (x, y) x' y'" and "\<forall>m \<in> set rest. is_move m"
  shows "run base w (touches w (Down x y # ms @ Move x' y' # rest @ [Up])) =
         w\<lparr>caller := tapEvent (the_props w) (state_change FAILED) (caller w)\<rparr>"
proof -
  from assms(2,3,4) have "recognise 16 16 resting (Down x y # ms @ Move x' y' # rest @ [Up]) =
      [BEGAN, FAILED]"
    by (rule recognise_drag)
  with assms(1) show ?thesis
    by (simp add: touches_def element_def render_def gesture_visible tapEvent_def)
qed

section \<open>Properties of touches\<close>

text \<open>
  C15. A tap closes the grid exactly once. On a world that renders the overlay,
  a touch that goes down, moves only within 16 units of where it went down in
  both axes, and is lifted, is reported as began, active, ended, and the
  overlay's handler invokes \<open>closeGridView\<close> once; nothing else in the
  world changes.
\<close>

theorem tap_within_tolerance_closes:
  assumes "visible (state_of w)"
    and "\<forall>m \<in> set ms. in_tolerance 16 16 (x, y) m"
  shows "run base w (touches w (Down x y # ms @ [Up])) =
         w\<lparr>caller := closeGridView (the_props w) (caller w)\<rparr>"
  unfolding run_tap [OF assms] by (simp add: tapEvent_def)

theorem tap_within_tolerance_closes_witness:
  "visible (state_of (sample_world 1)) \<and>
   list_all (in_tolerance 16 16 (100, 200)) [Move 105 190, Move 116 216] \<and>
   caller (run (\<lambda>t. t) (sample_world 1)
     (touches (sample_world 1) (Down 100 200 # [Move 105 190, Move 116 216] @ [Up]))) = 1"
proof -
  have v: "visible (state_of (sample_world 1))"
    by simp
  have m: "\<forall>m \<in> set [Move 105 190, Move 116 216]. in_tolerance 16 16 (100, 200) m"
    by (simp add: in_tolerance_def exceeds_def)
  from tap_within_tolerance_closes [OF v m, of "\<lambda>t. t"] m show ?thesis
    by (simp del: run_Cons)
qed

text \<open>
  C16. A drag is not a tap. On a world that renders the overlay, a touch that
  moves further than 16 units from where it went down, in either axis, is
  reported as began and failed and nothing more until it is lifted; the
  overlay's handler never invokes \<open>closeGridView\<close> and the world is left as
  it was.
\<close>

theorem drag_beyond_tolerance_ignored:
  assumes "visible (state_of w)"
    and "\<forall>m \<in> set ms. in_tolerance 16 16 (x, y) m"
    and "16 < \<bar>x' - x\<bar> \<or> 16 < \<bar>y' - y\<bar>"
    and "\<forall>m \<in> set rest. is_move m"
  shows "run base w (touches w (Down x y # ms @ Move x' y' # rest @ [Up])) = w"
proof -
  from assms(3) have "exceeds 16 16 (x, y) x' y'"
    by (simp add: exceeds_def)
  from run_drag [OF assms(1,2) this assms(4)] show ?thesis
    by (simp add: tapEvent_def)
qed

theorem drag_beyond_tolerance_ignored_witness:
  "visible (state_of (sample_world 1)) \<and>
   list_all (in_tolerance 16 16 (100, 200)) [Move 105 190] \<and>
   ((16::real) < \<bar>100 - 100\<bar> \<or> (16::real) < \<bar>217 - 200\<bar>) \<and>
   list_all is_move [Move 100 200] \<and>
   caller (run (\<lambda>t. t) (sample_world 1)
     (touches (sample_world 1)
        (Down 100 200 # [Move 105 190] @ Move 100 217 # [Move 100 200] @ [Up]))) = 0"
proof -
  have v: "visible (state_of (sample_world 1))"
    by simp
  have m: "\<forall>m \<in> set [Move 105 190]. in_tolerance 16 16 (100, 200) m"
    by (simp add: in_tolerance_def exceeds_def)
  have x: "(16::real) < \<bar>100 - 100\<bar> \<or> (16::real) < \<bar>217 - 200\<bar>"
    by simp
  have r: "\<forall>m \<in> set [Move 100 200]. is_move m"
    by simp
  from drag_beyond_tolerance_ignored [OF v m x r, of "\<lambda>t. t"] m show ?thesis
    by (simp del: run_Cons)
qed

text \<open>
  C17. Whatever sequence of state changes the recogniser reports, the callback
  runs once per reported \<open>END\<close> and never otherwise: on a visible overlay
  the caller's state after the sequence is \<open>closeGridView\<close> applied as often
  as \<open>END\<close> occurs in it, on a hidden overlay the sequence changes nothing,
  and in both cases nothing but the caller's state is touched.
\<close>

theorem closes_once_per_END:
  "run base w (map Gesture sts) =
     (if visible (state_of w)
      then w\<lparr>caller := (closeGridView (the_props w) ^^ ends sts) (caller w)\<rparr> else w)"
proof (induction sts arbitrary: w)
  case Nil
  show ?case by simp
next
  case (Cons st sts)
  show ?case
  proof (cases "visible (state_of w)")
    case True
    then show ?thesis
      by (simp add: Cons gesture_visible tapEvent_def funpow_swap1)
  next
    case False
    then show ?thesis
      by (simp add: Cons gesture_hidden)
  qed
qed

text \<open>
  C37. No more closes than lifted fingers. Whatever the sequence of touch
  samples on the overlay is, of any length and in any order of downs, moves,
  lifts and cancels, the caller's state afterwards is \<open>closeGridView\<close>
  applied some number of times that does not exceed the number of lifts in the
  sequence; on a hidden overlay and for a sequence without a lift it is
  applied not at all.
\<close>

theorem closes_bounded_by_lifts:
  "\<exists>n. n \<le> count_list ts Up \<and> (visible (state_of w) \<or> n = 0) \<and>
       caller (run base w (touches w ts)) = (closeGridView (the_props w) ^^ n) (caller w)"
proof (cases "visible (state_of w)")
  case True
  let ?n = "ends (recognise 16 16 resting ts)"
  have "?n \<le> count_list ts Up"
    unfolding ends_def by (rule count_END_recognise)
  moreover from True have "caller (run base w (touches w ts)) =
      (closeGridView (the_props w) ^^ ?n) (caller w)"
    by (simp add: touches_def element_def render_def caller_run_gestures)
  ultimately show ?thesis
    using True by blast
next
  case False
  then have "caller (run base w (touches w ts)) = (closeGridView (the_props w) ^^ 0) (caller w)"
    by (simp add: touches_def element_def render_def)
  then show ?thesis
    by (intro exI [of _ 0]) simp
qed

end
