(* ===== verification/Overlay_Passes.thy ===== *)
theory Overlay_Passes
  imports Overlay_Timeline
begin

text \<open>
  The render passes of a commit. The component function returns its element
  from the state it finds; the effect changes that state only afterwards. A
  change of the sheet index across zero therefore takes two passes, and the
  first of them still shows what the previous state prescribes. \<open>picture\<close> is
  what a pass puts on the screen: nothing, or a surface with the opacity in
  force on it.
\<close>

section \<open>What a pass shows\<close>

definition picture :: "'w tap_gesture_handler option \<Rightarrow> number option" where
  "picture e =
     (case e of
        None \<Rightarrow> None
      | Some el \<Rightarrow> (case flatten (view_style el) ''opacity'' of Some (Num v) \<Rightarrow> Some v | _ \<Rightarrow> None))"

lemma picture_render:
  "picture (render th p s) = (if visible s then Some (shown_opacity p s) else None)"
  by (simp add: picture_def render_def overlay_styles_def showOverlayStyle_def
      flatten_object_binding_object_binding)

lemma passes_eq:
  "passes i w =
     render (the_theme w) ((the_props w)\<lparr>currentBottomSheetIndex := i\<rparr>) (state_of w) #
     (if rerender_needed (state_of w) (state_of (set_index i w))
      then [element (set_index i w)] else [])"
  by (simp add: passes_def commit_passes_eq element_def)

lemma shown_opacity_index [simp]:
  "shown_opacity (p\<lparr>currentBottomSheetIndex := i\<rparr>) s = shown_opacity p s"
  by (simp add: shown_opacity_def)

lemma picture_passes:
  "map picture (passes i w) =
     (if visible (state_of w) then Some (displayed w) else None) #
     (if rerender_needed (state_of w) (state_of (set_index i w))
      then [if visible (state_of (set_index i w)) then Some (displayed (set_index i w)) else None]
      else [])"
  by (simp add: passes_eq picture_render element_def displayed_def del: set_index_simps(6))

section \<open>Properties of the passes\<close>

text \<open>
  A commit settles. Calling the component function once more on the fiber
  a commit has left returns the element on the screen and changes nothing: the
  effect does not run again, and a render with the index the overlay already
  has is a single pass.
\<close>

lemma commit_settles:
  "ImageGalleryOverlay now (the_theme w) (the_props w) (mounted (commit w)) =
     (element (commit w), mounted (commit w)) \<and>
   passes (index_of (commit w)) (commit w) = [element (commit w)]"
  by (simp add: ImageGalleryOverlay_def element_def passes_eq rerender_needed_def set_index_eq)

text \<open>
  C27. Closing takes two passes. When the index of a reachable world with a
  positive index becomes zero or negative, the first pass still shows the
  surface, with the opacity displayed before the change; only the second pass,
  after the effect has cleared the visible flag, shows nothing.
\<close>

theorem close_takes_two_passes:
  assumes "reachable base w" and "0 < index_of w" and "j \<le> 0"
  shows "map picture (passes j w) = [Some (displayed w), None]"
proof -
  from assms(1,2) have v: "visible (state_of w)" and "deps (mounted w) \<noteq> Some j"
    using assms(3) by (simp_all add: reachable_synced)
  with assms(3) have "state_of (set_index j w) = initial_state"
    by (simp add: useEffect_def index_effect_def)
  with v show ?thesis
    by (simp add: picture_passes rerender_needed_def del: set_index_simps(6))
qed

theorem close_takes_two_passes_witness:
  "reachable (\<lambda>t. t * t) (step (\<lambda>t. t * t) (sample_world 1) (Frame 100)) \<and>
   0 < index_of (step (\<lambda>t. t * t) (sample_world 1) (Frame 100)) \<and> (0::int) \<le> 0 \<and>
   map picture (passes 0 (step (\<lambda>t. t * t) (sample_world 1) (Frame 100))) = [Some (3 / 4), None]"
proof -
  let ?w = "step (\<lambda>t. t * t) (sample_world 1) (Frame 100)"
  have r: "reachable (\<lambda>t. t * t) ?w"
    by (rule reachable_step) simp_all
  have i: "0 < index_of ?w" by simp
  have v: "displayed ?w = 3 / 4"
    by (simp add: displayed_def shown_opacity_def sample_eval field_simps)
  from close_takes_two_passes [OF r i, of 0] r i v show ?thesis
    by (simp del: step.simps)
qed

text \<open>
  C28. Opening takes two passes. When the index of a reachable hidden world
  becomes positive, the first pass shows nothing; the second shows the surface,
  at opacity 0 if the fade-complete flag was clear, and at the drag position if
  it was set.
\<close>

theorem open_takes_two_passes:
  assumes "reachable base w" and "index_of w \<le> 0" and "0 < i"
  shows "map picture (passes i w) =
         [None, Some (if fadedIn (state_of w) then animatedBottomSheetIndex (the_props w) else 0)]"
proof -
  from assms(1,2) have "\<not> visible (state_of w)"
    by (simp add: reachable_synced)
  then show ?thesis
    by (simp add: picture_passes rerender_needed_def opened_world [OF assms] displayed_def
        shown_opacity_def)
qed

theorem open_takes_two_passes_witness:
  "reachable (\<lambda>t. t) (sample_world 0) \<and> index_of (sample_world 0) \<le> 0 \<and> (0::int) < 1 \<and>
   map picture (passes 1 (sample_world 0)) = [None, Some 0]"
  using open_takes_two_passes [of "\<lambda>t. t" "sample_world 0" 1]
  by (simp add: index_effect_def)

text \<open>
  C29. A change between positive indexes is one pass, but it restarts the fade.
  The surface stays as it is displayed; the effect runs again, starts a new 200
  ms animation from the opacity the cell holds, and its completion posts
  \<open>setFadedIn(true)\<close> exactly when the frames after the change span 200 ms,
  however far an earlier fade had come.
\<close>

theorem reindex_restarts_fade:
  assumes "reachable base w" and "0 < index_of w" and "0 < i" and "i \<noteq> index_of w"
  shows "map picture (passes i w) = [Some (displayed w)] \<and>
         displayed (set_index i w) = displayed w \<and>
         js_queue (run base w (SetIndex i # map Frame dts)) =
           js_queue w @ (if 200 \<le> sum_list dts then [SetFadedIn True] else [])"
proof -
  from assms(1,2,4) have v: "visible (state_of w)" and d: "deps (mounted w) \<noteq> Some i"
    by (auto simp: reachable_synced)
  from d assms(3) have s: "state_of (set_index i w) = effect_open (clock w) (state_of w)"
    by (simp add: useEffect_def index_effect_def)
  have p: "map picture (passes i w) = [Some (displayed w)]"
    using v by (simp add: picture_passes rerender_needed_def s del: set_index_simps(6))
  have e: "displayed (set_index i w) = displayed w"
    by (simp add: displayed_def s shown_opacity_def del: set_index_simps(6))
  have "snd (play base (clock w) dts (opacity (state_of (set_index i w)))) =
      (if 200 \<le> sum_list dts then [SetFadedIn True] else [])"
    unfolding s opacity_effect_open play_calls_after_assign
    by (auto simp: fade_config_def fade_callback_def)
  then have "js_queue (run base w (SetIndex i # map Frame dts)) =
      js_queue w @ (if 200 \<le> sum_list dts then [SetFadedIn True] else [])"
    by (simp add: run_frames del: play.simps set_index_simps(6))
  with p e show ?thesis by simp
qed

theorem reindex_restarts_fade_witness:
  "reachable (\<lambda>t. t) (step (\<lambda>t. t) (sample_world 1) (Frame 150)) \<and>
   0 < index_of (step (\<lambda>t. t) (sample_world 1) (Frame 150)) \<and> (0::int) < 2 \<and>
   2 \<noteq> index_of (step (\<lambda>t. t) (sample_world 1) (Frame 150)) \<and>
   js_queue (run (\<lambda>t. t) (step (\<lambda>t. t) (sample_world 1) (Frame 150)) (SetIndex 2 # map Frame [100])) = [] \<and>
   js_queue (run (\<lambda>t. t) (sample_world 1) (map Frame [150, 100])) = [SetFadedIn True]"
proof -
  let ?w = "step (\<lambda>t. t) (sample_world 1) (Frame 150)"
  have r: "reachable (\<lambda>t. t) ?w"
    by (rule reachable_step) simp_all
  have q: "js_queue ?w = []"
    by (simp add: sample_eval)
  have q': "js_queue (run (\<lambda>t. t) (sample_world 1) (map Frame [150, 100])) = [SetFadedIn True]"
    by (simp add: sample_eval)
  have i: "0 < index_of ?w" and n: "2 \<noteq> index_of ?w" and o: "(0::int) < 2"
    by simp_all
  from reindex_restarts_fade [OF r i o n, of "[100]"] r i n q q' show ?thesis
    by (simp del: step.simps run_Cons)
qed

text \<open>
  C30. The render loop terminates. From every fiber, with every theme and
  props, the passes of a commit come to an end after one or two calls of the
  component function, and the fiber they leave is the one the effect produced;
  the loop never runs away, whatever the sheet index does.
\<close>

theorem settle_terminates:
  "\<exists>els. settle now th p i = Some (els, useEffect now p i) \<and> 1 \<le> length els \<and> length els \<le> 2"
proof (cases "rerender_needed (hooks i) (hooks (useEffect now p i))")
  case False
  then show ?thesis
    by (subst settle.simps) simp
next
  case True
  have "settle now th p (useEffect now p i) =
      Some ([render th p (hooks (useEffect now p i))], useEffect now p i)"
    by (subst settle.simps) (simp add: rerender_needed_def)
  with True show ?thesis
    by (subst settle.simps) simp
qed

end
