(* ===== verification/Theme_Context.thy ===== *)
theory Theme_Context
  imports Overlay
begin

text \<open>
  The first statement of the component: the nested destructuring of what
  \<^verbatim>\<open>useTheme()\<close> returns (lines 28-35 of \<^verbatim>\<open>ImageGalleryOverlay.tsx\<close>). The
  value is a JavaScript object that a provider further up supplies; the pattern
  reads \<^verbatim>\<open>theme.colors.overlay\<close> and \<^verbatim>\<open>theme.imageGallery.grid.overlay\<close> and
  throws a \<^verbatim>\<open>TypeError\<close> as soon as it has to read a property of \<^verbatim>\<open>undefined\<close>
  or \<^verbatim>\<open>null\<close>. This is the only statement of the component that can throw, and
  it runs before any hook of the component.
\<close>

section \<open>Values and exceptions\<close>

datatype js = Undefined | Null | JStr string | JNum number | JObj "(string \<times> js) list"

datatype exn = TypeError string

fun nullish :: "js \<Rightarrow> bool" where
  "nullish Undefined = True"
| "nullish Null = True"
| "nullish _ = False"

text \<open>
  Reading a property: of an object, the last binding of the key, and
  \<^verbatim>\<open>undefined\<close> when there is none; of a string or a number, \<^verbatim>\<open>undefined\<close>.
\<close>

fun get :: "string \<Rightarrow> js \<Rightarrow> js" where
  "get k (JObj kvs) = (case map_of (rev kvs) k of None \<Rightarrow> Undefined | Some v \<Rightarrow> v)"
| "get k v = Undefined"

text \<open>
  One level of an object pattern, \<^verbatim>\<open>{ k: \<dots> } = v\<close>: the value must not be
  \<^verbatim>\<open>undefined\<close> or \<^verbatim>\<open>null\<close>; then its property \<open>k\<close> is read.
\<close>

definition destructure :: "string \<Rightarrow> js \<Rightarrow> exn + js" where
  "destructure k v = (if nullish v then Inl (TypeError k) else Inr (get k v))"

section \<open>The pattern of the component\<close>

text \<open>
  The properties are read in the order of the pattern, depth first; the result
  is the pair of the two leaves, \<^verbatim>\<open>overlayColor\<close> and \<^verbatim>\<open>overlay\<close>, which may be
  any values, \<^verbatim>\<open>undefined\<close> included.
\<close>

definition destructure_theme :: "js \<Rightarrow> exn + js \<times> js" where
  "destructure_theme r =
     and_then (destructure ''theme'' r) (\<lambda>theme.
     and_then (destructure ''colors'' theme) (\<lambda>colors.
     and_then (destructure ''overlay'' colors) (\<lambda>overlayColor.
     and_then (destructure ''imageGallery'' theme) (\<lambda>imageGallery.
     and_then (destructure ''grid'' imageGallery) (\<lambda>grid.
     and_then (destructure ''overlay'' grid) (\<lambda>overlay.
     Inr (overlayColor, overlay)))))))"

section \<open>Typed theme values\<close>

text \<open>
  The rest of the component is modelled for leaves of the types the theme
  declares: a colour string and a style object of strings and numbers.
  \<open>as_theme\<close> reads such leaves; \<open>theme_object\<close> is the smallest context value
  that holds a given theme.
\<close>

fun as_style_value :: "js \<Rightarrow> style_value option" where
  "as_style_value (JStr s) = Some (Str s)"
| "as_style_value (JNum n) = Some (Num n)"
| "as_style_value _ = None"

fun as_style :: "js \<Rightarrow> style option" where
  "as_style (JObj kvs) = those (map (\<lambda>(k, v). map_option (Pair k) (as_style_value v)) kvs)"
| "as_style _ = None"

fun as_theme :: "js \<times> js \<Rightarrow> theme option" where
  "as_theme (JStr c, ov) = map_option (\<lambda>st. \<lparr>overlayColor = c, overlay = st\<rparr>) (as_style ov)"
| "as_theme _ = None"

fun style_value_object :: "style_value \<Rightarrow> js" where
  "style_value_object (Num n) = JNum n"
| "style_value_object (Str s) = JStr s"

definition style_object :: "style \<Rightarrow> js" where
  "style_object st = JObj (map (\<lambda>(k, v). (k, style_value_object v)) st)"

definition theme_object :: "theme \<Rightarrow> js" where
  "theme_object th =
     JObj [(''theme'',
       JObj [(''colors'', JObj [(''overlay'', JStr (overlayColor th))]),
             (''imageGallery'', JObj [(''grid'', JObj [(''overlay'', style_object (overlay th))])])])]"

section \<open>The component under a context\<close>

text \<open>
  One call of the component function with the context value \<open>r\<close>: the
  exception of the pattern, or the call with the theme the leaves hold. The
  result is \<open>None\<close> for leaves that are not of the declared types, which the
  model of the component does not cover.
\<close>

definition call_in_context ::
  "js \<Rightarrow> millis \<Rightarrow> 'w props \<Rightarrow> fiber \<Rightarrow> exn + ('w tap_gesture_handler option \<times> fiber) option" where
  "call_in_context r now p i =
     and_then (destructure_theme r)
       (\<lambda>leaves. Inr (map_option (\<lambda>th. ImageGalleryOverlay now th p i) (as_theme leaves)))"

section \<open>Paths\<close>

text \<open>
  The reference reading of a path of keys: the value at its end, if every
  value on the way has properties to read.
\<close>

fun lookup :: "string list \<Rightarrow> js \<Rightarrow> js option" where
  "lookup [] v = Some v"
| "lookup (k # ks) v = (if nullish v then None else lookup ks (get k v))"

lemma destructure_simps [simp]:
  "nullish v \<Longrightarrow> destructure k v = Inl (TypeError k)"
  "\<not> nullish v \<Longrightarrow> destructure k v = Inr (get k v)"
  by (simp_all add: destructure_def)

lemma nullish_JObj [simp]: "\<not> nullish (JObj kvs)"
  by simp

lemma as_style_style_object [simp]: "as_style (style_object st) = Some st"
proof -
  have "those (map (\<lambda>(k, v). map_option (Pair k) (as_style_value v))
      (map (\<lambda>(k, v). (k, style_value_object v)) st)) = Some st"
  proof (induction st)
    case Nil
    show ?case by simp
  next
    case (Cons b st)
    obtain k v where "b = (k, v)" by (cases b)
    with Cons show ?case by (cases v) simp_all
  qed
  then show ?thesis by (simp add: style_object_def)
qed

lemma theme_eta [simp]: "\<lparr>overlayColor = overlayColor th, overlay = overlay th\<rparr> = th"
  by (cases th) simp

lemma as_theme_leaves [simp]:
  "as_theme (JStr (overlayColor th), style_object (overlay th)) = Some th"
  by simp

lemma lookup_theme_object:
  "lookup [''theme'', ''colors'', ''overlay''] (theme_object th) = Some (JStr (overlayColor th))"
  "lookup [''theme'', ''imageGallery'', ''grid'', ''overlay''] (theme_object th) =
     Some (style_object (overlay th))"
  by (simp_all add: theme_object_def)

section \<open>Properties of the pattern\<close>

text \<open>
  C31. The pattern succeeds exactly when both paths exist. The destructuring
  returns the leaves \<open>c\<close> and \<open>o\<close> if and only if \<open>c\<close> is the value at
  \<^verbatim>\<open>theme.colors.overlay\<close> and \<open>o\<close> the value at
  \<^verbatim>\<open>theme.imageGallery.grid.overlay\<close> of the context value, in the sense of
  the reference reading of a path; whatever else the context value holds does
  not matter.
\<close>

theorem destructure_theme_iff_paths:
  "destructure_theme r = Inr (c, ov) \<longleftrightarrow>
     lookup [''theme'', ''colors'', ''overlay''] r = Some c \<and>
     lookup [''theme'', ''imageGallery'', ''grid'', ''overlay''] r = Some ov"
  by (auto simp: destructure_theme_def destructure_def and_then_eq_Inr_iff)

text \<open>
  C32. A broken context throws before anything else happens. If one of the two
  paths does not exist in the context value, the call of the component is a
  \<^verbatim>\<open>TypeError\<close> for the first property that could not be read, whatever the
  props, the fiber and the time: no hook has run and no element is returned.
  The property is one of \<^verbatim>\<open>theme\<close>, \<^verbatim>\<open>colors\<close>, \<^verbatim>\<open>overlay\<close> and \<^verbatim>\<open>grid\<close>; it is
  never \<^verbatim>\<open>imageGallery\<close>, because a theme without properties has failed at
  \<^verbatim>\<open>colors\<close> already.
\<close>

theorem broken_context_throws:
  assumes "lookup [''theme'', ''colors'', ''overlay''] r = None \<or>
           lookup [''theme'', ''imageGallery'', ''grid'', ''overlay''] r = None"
  shows "\<exists>k \<in> {''theme'', ''colors'', ''overlay'', ''grid''}.
           call_in_context r now p i = Inl (TypeError k)"
  using assms
  by (auto simp: call_in_context_def destructure_theme_def destructure_def split: if_splits)

theorem broken_context_throws_witness:
  "lookup [''theme'', ''imageGallery'', ''grid'', ''overlay'']
     (JObj [(''theme'', JObj [(''colors'', JObj [(''overlay'', JStr ''#000'')])])]) = None \<and>
   call_in_context (JObj [(''theme'', JObj [(''colors'', JObj [(''overlay'', JStr ''#000'')])])])
     0 (sample_props 1) unmounted = Inl (TypeError ''grid'')"
  using broken_context_throws
    [of "JObj [(''theme'', JObj [(''colors'', JObj [(''overlay'', JStr ''#000'')])])]" 0
      "sample_props 1" unmounted]
  by (simp add: call_in_context_def destructure_theme_def)

text \<open>
  C33. A context of the declared type never throws. If the two paths of the
  context value end in a colour string and in a style object, the call of the
  component returns what the component returns for the theme with these two
  values, whatever else the context value holds.
\<close>

theorem typed_context_renders:
  assumes "lookup [''theme'', ''colors'', ''overlay''] r = Some (JStr c)"
    and "lookup [''theme'', ''imageGallery'', ''grid'', ''overlay''] r = Some (style_object st)"
  shows "call_in_context r now p i =
         Inr (Some (ImageGalleryOverlay now \<lparr>overlayColor = c, overlay = st\<rparr> p i))"
proof -
  from assms have "destructure_theme r = Inr (JStr c, style_object st)"
    by (auto simp: destructure_theme_def destructure_def split: if_splits)
  then show ?thesis
    by (simp add: call_in_context_def)
qed

theorem typed_context_renders_witness:
  "lookup [''theme'', ''colors'', ''overlay''] (theme_object sample_theme) =
     Some (JStr (overlayColor sample_theme)) \<and>
   lookup [''theme'', ''imageGallery'', ''grid'', ''overlay''] (theme_object sample_theme) =
     Some (style_object (overlay sample_theme)) \<and>
   call_in_context (theme_object sample_theme) 0 (sample_props 1) unmounted =
     Inr (Some (ImageGalleryOverlay 0 sample_theme (sample_props 1) unmounted))"
proof -
  note l = lookup_theme_object [of sample_theme]
  from typed_context_renders [OF l, of 0 "sample_props 1" unmounted] l show ?thesis
    by (simp del: lookup.simps)
qed

end
