(* ===== verification/Overlay_Numbers.thy ===== *)
theory Overlay_Numbers
  imports Overlay
begin

text \<open>
  The sheet index as a JavaScript number. The prop \<^verbatim>\<open>currentBottomSheetIndex\<close>
  is declared a \<^verbatim>\<open>number\<close> (line 22): besides the integers it may be a
  fraction, an infinity, the negative zero or \<^verbatim>\<open>NaN\<close>. The component uses it
  in two places only: the test \<^verbatim>\<open>currentBottomSheetIndex > 0\<close> of the effect
  (line 43) and the dependency list of the effect (line 59), which React
  compares with \<^verbatim>\<open>Object.is\<close>. This theory states the effect over such
  numbers and shows that the model over integers, on which the rest of the
  development is built, has exactly the same behaviours.
\<close>

section \<open>Numbers\<close>

text \<open>
  \<open>Finite 0\<close> is the positive zero. \<^verbatim>\<open>Object.is\<close> distinguishes the two zeros
  and identifies \<^verbatim>\<open>NaN\<close> with itself: on this type it is equality.
\<close>

datatype js_number = Finite real | NegZero | NaN | PosInfinity | NegInfinity

fun gt_zero :: "js_number \<Rightarrow> bool" where
  "gt_zero (Finite x) \<longleftrightarrow> 0 < x"
| "gt_zero PosInfinity \<longleftrightarrow> True"
| "gt_zero _ \<longleftrightarrow> False"

section \<open>The effect over numbers\<close>

definition index_effect_num :: "millis \<Rightarrow> js_number \<Rightarrow> overlay_state \<Rightarrow> overlay_state" where
  "index_effect_num now n s = (if gt_zero n then effect_open now s else effect_close now s)"

record fiber_num =
  hooks_num :: overlay_state
  deps_num :: "js_number option"

definition unmounted_num :: fiber_num where
  "unmounted_num = \<lparr>hooks_num = initial_state, deps_num = None\<rparr>"

definition useEffect_num :: "millis \<Rightarrow> js_number \<Rightarrow> fiber_num \<Rightarrow> fiber_num" where
  "useEffect_num now n f =
     (if deps_num f = Some n then f
      else \<lparr>hooks_num = index_effect_num now n (hooks_num f), deps_num = Some n\<rparr>)"

text \<open>A sequence of renders, each at a time and with an index.\<close>

definition renders_num :: "fiber_num \<Rightarrow> (millis \<times> js_number) list \<Rightarrow> fiber_num" where
  "renders_num = foldl (\<lambda>f (now, n). useEffect_num now n f)"

section \<open>The same renders over integers\<close>

text \<open>
  The effect of the integer model needs props; only their index matters.
  \<open>renders\<close> is a sequence of renders of the integer model.
\<close>

definition at_index :: "int \<Rightarrow> unit props" where
  "at_index k = \<lparr>animatedBottomSheetIndex = 0, closeGridView = id, currentBottomSheetIndex = k\<rparr>"

definition renders :: "fiber \<Rightarrow> (millis \<times> int) list \<Rightarrow> fiber" where
  "renders = foldl (\<lambda>i (now, k). useEffect now (at_index k) i)"

text \<open>
  An integer for the next number: the integer of the last render if the number
  is the one of the last render, and otherwise another integer, positive if and
  only if the number is greater than zero.
\<close>

definition next_index :: "fiber \<Rightarrow> fiber_num \<Rightarrow> js_number \<Rightarrow> int" where
  "next_index i f n =
     (if deps_num f = Some n then (case deps i of None \<Rightarrow> 0 | Some k \<Rightarrow> k)
      else if gt_zero n then (if deps i = Some 1 then 2 else 1)
      else (if deps i = Some 0 then - 1 else 0))"

fun indexes :: "fiber \<Rightarrow> fiber_num \<Rightarrow> (millis \<times> js_number) list \<Rightarrow> (millis \<times> int) list" where
  "indexes i f [] = []"
| "indexes i f ((now, n) # rest) =
     (now, next_index i f n) #
     indexes (useEffect now (at_index (next_index i f n)) i) (useEffect_num now n f) rest"

text \<open>The integer model's fiber stands for the fiber over numbers.\<close>

definition stands_for :: "fiber \<Rightarrow> fiber_num \<Rightarrow> bool" where
  "stands_for i f \<longleftrightarrow>
     hooks i = hooks_num f \<and>
     (case (deps i, deps_num f) of
        (None, None) \<Rightarrow> True
      | (Some k, Some n) \<Rightarrow> 0 < k \<longleftrightarrow> gt_zero n
      | _ \<Rightarrow> False)"

lemma renders_num_simps [simp]:
  "renders_num f [] = f"
  "renders_num f ((now, n) # rest) = renders_num (useEffect_num now n f) rest"
  by (simp_all add: renders_num_def)

lemma renders_simps [simp]:
  "renders i [] = i"
  "renders i ((now, k) # rest) = renders (useEffect now (at_index k) i) rest"
  by (simp_all add: renders_def)

lemma at_index_simps [simp]: "currentBottomSheetIndex (at_index k) = k"
  by (simp add: at_index_def)

lemma stands_for_unmounted [simp]: "stands_for unmounted unmounted_num"
  by (simp add: stands_for_def unmounted_def unmounted_num_def)

lemma stands_for_step:
  assumes "stands_for i f"
  shows "stands_for (useEffect now (at_index (next_index i f n)) i) (useEffect_num now n f)"
proof (cases "deps_num f = Some n")
  case True
  with assms show ?thesis
    by (auto simp: stands_for_def next_index_def useEffect_def useEffect_num_def
        split: option.splits)
next
  case False
  with assms show ?thesis
    by (auto simp: stands_for_def next_index_def useEffect_def useEffect_num_def
        index_effect_def index_effect_num_def split: option.splits)
qed

lemma stands_for_renders:
  "stands_for i f \<Longrightarrow> stands_for (renders i (indexes i f steps)) (renders_num f steps)"
proof (induction steps arbitrary: i f)
  case Nil
  then show ?case by simp
next
  case (Cons step steps)
  obtain now n where "step = (now, n)" by (cases step)
  with Cons.prems show ?case
    by (simp add: Cons.IH stands_for_step)
qed

text \<open>Conversely, an integer is a number, and the two models agree on it.\<close>

lemma integer_model_sound:
  "hooks i = hooks_num f \<Longrightarrow> map_option (Finite \<circ> real_of_int) (deps i) = deps_num f \<Longrightarrow>
   hooks (renders i steps) = hooks_num (renders_num f (map (\<lambda>(now, k). (now, Finite (real_of_int k))) steps)) \<and>
   map_option (Finite \<circ> real_of_int) (deps (renders i steps)) =
     deps_num (renders_num f (map (\<lambda>(now, k). (now, Finite (real_of_int k))) steps))"
proof (induction steps arbitrary: i f)
  case Nil
  then show ?case by simp
next
  case (Cons step steps)
  obtain now k where s: "step = (now, k)" by (cases step)
  from Cons.prems have h: "hooks (useEffect now (at_index k) i) =
      hooks_num (useEffect_num now (Finite (real_of_int k)) f)"
    and d: "map_option (Finite \<circ> real_of_int) (deps (useEffect now (at_index k) i)) =
      deps_num (useEffect_num now (Finite (real_of_int k)) f)"
    by (auto simp: useEffect_def useEffect_num_def index_effect_def index_effect_num_def)
  from Cons.IH [OF h d] show ?case
    unfolding s by simp
qed

section \<open>Properties of the index\<close>

text \<open>
  C38. The integers are all the indexes there are. For every sequence of
  renders with JavaScript numbers as sheet index, whether fractions, infinities,
  the negative zero or \<^verbatim>\<open>NaN\<close>, there is a sequence of renders with integers, at
  the same times and with an index that is positive exactly where the number
  is greater than zero, after which the integer model is in the state the
  component is in: the component sees its index only through the test
  \<^verbatim>\<open>> 0\<close> and through the change from one render to the next.
\<close>

theorem integer_model_complete:
  "hooks (renders unmounted (indexes unmounted unmounted_num steps)) =
     hooks_num (renders_num unmounted_num steps) \<and>
   map fst (indexes unmounted unmounted_num steps) = map fst steps \<and>
   list_all2 (\<lambda>(now, k) (now', n). 0 < k \<longleftrightarrow> gt_zero n)
     (indexes unmounted unmounted_num steps) steps"
proof -
  have signs: "map fst (indexes i f steps) = map fst steps \<and>
      list_all2 (\<lambda>(now, k) (now', n). 0 < k \<longleftrightarrow> gt_zero n) (indexes i f steps) steps"
    if "stands_for i f" for i f
    using that
  proof (induction steps arbitrary: i f)
    case Nil
    show ?case by simp
  next
    case (Cons step steps)
    obtain now n where s: "step = (now, n)" by (cases step)
    from Cons.prems have "0 < next_index i f n \<longleftrightarrow> gt_zero n"
      by (auto simp: next_index_def stands_for_def split: option.splits)
    with Cons.IH [OF stands_for_step [OF Cons.prems, of now n]] show ?case
      unfolding s by simp
  qed
  from stands_for_renders [OF stands_for_unmounted, of steps]
  have "hooks (renders unmounted (indexes unmounted unmounted_num steps)) =
      hooks_num (renders_num unmounted_num steps)"
    by (simp add: stands_for_def)
  with signs [OF stands_for_unmounted] show ?thesis
    by simp
qed

theorem integer_model_complete_witness:
  "indexes unmounted unmounted_num
     [(0, Finite (1 / 2)), (100, NaN), (200, NaN), (300, PosInfinity), (400, NegZero)] =
     [(0, 1), (100, 0), (200, 0), (300, 1), (400, 0)] \<and>
   hooks_num (renders_num unmounted_num
     [(0, Finite (1 / 2)), (100, NaN), (200, NaN), (300, PosInfinity), (400, NegZero)]) =
   hooks (renders unmounted [(0, 1), (100, 0), (200, 0), (300, 1), (400, 0)])"
proof -
  have i: "indexes unmounted unmounted_num
      [(0, Finite (1 / 2)), (100, NaN), (200, NaN), (300, PosInfinity), (400, NegZero)] =
      [(0, 1), (100, 0), (200, 0), (300, 1), (400, 0)]"
    by (simp add: next_index_def unmounted_def unmounted_num_def useEffect_def useEffect_num_def)
  from integer_model_complete
    [of "[(0, Finite (1 / 2)), (100, NaN), (200, NaN), (300, PosInfinity), (400, NegZero)]"]
  show ?thesis
    unfolding i by simp
qed

end
