(* ===== verification/Overlay_Worklet.thy ===== *)
theory Overlay_Worklet
  imports Overlay_Timeline
begin

text \<open>
  The animated style as a closure. The prop \<^verbatim>\<open>animatedBottomSheetIndex\<close> is not a
  number but a shared value, an object of the bottom sheet (line 20), and the
  style updater given to \<^verbatim>\<open>useAnimatedStyle\<close> is a closure over it, over
  \<^verbatim>\<open>fadedIn\<close> and over the component's own \<^verbatim>\<open>opacity\<close> (lines 62-64). The hook is
  given the dependency list \<^verbatim>\<open>[fadedIn]\<close> (line 65): the updater of a render
  replaces the one in force only if \<^verbatim>\<open>fadedIn\<close> differs from the last render's.
  This theory keeps the shared values of the bottom sheet in a store, the
  prop as an address, and the updater in force as the values it captured. It
  shows when the overlay of the other theories, in which the prop is the
  number the shared value holds, describes what this one displays, and what
  is displayed when it does not.
\<close>

section \<open>Shared values and the updater\<close>

type_synonym addr = nat
type_synonym store = "addr \<Rightarrow> number"

text \<open>What the closure of lines 62-64 captured when it was made.\<close>

record worklet =
  fadedIn_seen :: bool
  position_seen :: addr

text \<open>Line 63, run on the animation thread: the shared values are read when it runs.\<close>

definition worklet_opacity :: "store \<Rightarrow> overlay_state \<Rightarrow> worklet \<Rightarrow> number" where
  "worklet_opacity h s k = (if fadedIn_seen k then h (position_seen k) else current (opacity s))"

text \<open>
  The hook of lines 61-66 in one render: \<open>prev\<close> is the updater in force,
  \<open>None\<close> in the first render; \<open>f\<close> and \<open>a\<close> are \<^verbatim>\<open>fadedIn\<close> and the prop of
  this render.
\<close>

definition useAnimatedStyle :: "worklet option \<Rightarrow> bool \<Rightarrow> addr \<Rightarrow> worklet" where
  "useAnimatedStyle prev f a =
     (case prev of
        None \<Rightarrow> \<lparr>fadedIn_seen = f, position_seen = a\<rparr>
      | Some k \<Rightarrow> if fadedIn_seen k = f then k else \<lparr>fadedIn_seen = f, position_seen = a\<rparr>)"

section \<open>The overlay with the bottom sheet's store\<close>

text \<open>
  A scene is a world together with the store of the bottom sheet, the address
  passed as \<^verbatim>\<open>animatedBottomSheetIndex\<close> at the last render, and the updater in
  force. The number in the props of the world is what the shared value at that
  address holds.
\<close>

record 'w scene =
  sheet :: store
  position :: addr
  updater :: worklet
  overlay_world :: "'w world"

text \<open>
  Besides the events of a world: the parent renders with another shared value,
  and somebody writes to a shared value. The event \<open>Drag\<close> of a world is a
  write to the shared value the overlay was given.
\<close>

datatype scene_event = Env event | Pass addr | Write addr number

text \<open>One call of the component function, as far as the hook of the style goes.\<close>

definition restyle :: "'w scene \<Rightarrow> 'w scene" where
  "restyle sc =
     sc\<lparr>updater := useAnimatedStyle (Some (updater sc)) (fadedIn (state_of (overlay_world sc)))
                      (position sc)\<rparr>"

definition scene_mount ::
  "theme \<Rightarrow> 'w props \<Rightarrow> 'w \<Rightarrow> millis \<Rightarrow> store \<Rightarrow> addr \<Rightarrow> 'w scene" where
  "scene_mount th p c t0 h a =
     restyle \<lparr>sheet = h, position = a,
              updater = useAnimatedStyle None (fadedIn initial_state) a,
              overlay_world = mount th (p\<lparr>animatedBottomSheetIndex := h a\<rparr>) c t0\<rparr>"

definition pass :: "addr \<Rightarrow> 'w scene \<Rightarrow> 'w scene" where
  "pass a sc = restyle (sc\<lparr>position := a, overlay_world := drag (sheet sc a) (overlay_world sc)\<rparr>)"

definition write_cell :: "addr \<Rightarrow> number \<Rightarrow> 'w scene \<Rightarrow> 'w scene" where
  "write_cell a v sc =
     sc\<lparr>sheet := (sheet sc)(a := v),
        overlay_world := (if a = position sc then drag v (overlay_world sc) else overlay_world sc)\<rparr>"

text \<open>
  A render with a new index calls the function before and after the effect; a
  posted call changes the state and so causes a render; a frame and a state
  change of the recogniser cause none.
\<close>

fun scene_step :: "(number \<Rightarrow> number) \<Rightarrow> 'w scene \<Rightarrow> scene_event \<Rightarrow> 'w scene" where
  "scene_step base sc (Pass a) = pass a sc"
| "scene_step base sc (Write a v) = write_cell a v sc"
| "scene_step base sc (Env (Drag v)) = write_cell (position sc) v sc"
| "scene_step base sc (Env (SetIndex i)) =
     restyle ((restyle sc)\<lparr>overlay_world := set_index i (overlay_world sc)\<rparr>)"
| "scene_step base sc (Env Deliver) = restyle (sc\<lparr>overlay_world := deliver (overlay_world sc)\<rparr>)"
| "scene_step base sc (Env (Frame dt)) = sc\<lparr>overlay_world := tick base dt (overlay_world sc)\<rparr>"
| "scene_step base sc (Env (Gesture st)) = sc\<lparr>overlay_world := gesture st (overlay_world sc)\<rparr>"

definition scene_run :: "(number \<Rightarrow> number) \<Rightarrow> 'w scene \<Rightarrow> scene_event list \<Rightarrow> 'w scene" where
  "scene_run base = foldl (scene_step base)"

text \<open>What the surface shows: the updater in force, run on the store.\<close>

definition scene_shown :: "'w scene \<Rightarrow> number" where
  "scene_shown sc = worklet_opacity (sheet sc) (state_of (overlay_world sc)) (updater sc)"

section \<open>The world of a scene\<close>

text \<open>The events of the world that one event of the scene amounts to.\<close>

fun shadow_step :: "'w scene \<Rightarrow> scene_event \<Rightarrow> event list" where
  "shadow_step sc (Env e) = [e]"
| "shadow_step sc (Pass a) = [Drag (sheet sc a)]"
| "shadow_step sc (Write a v) = (if a = position sc then [Drag v] else [])"

fun shadow :: "(number \<Rightarrow> number) \<Rightarrow> 'w scene \<Rightarrow> scene_event list \<Rightarrow> event list" where
  "shadow base sc [] = []"
| "shadow base sc (e # es) = shadow_step sc e @ shadow base (scene_step base sc e) es"

text \<open>
  An event is \<open>steady\<close> when it is enabled in the world and the parent does not
  pass another shared value while the fade-complete flag is set.
\<close>

fun steady :: "'w scene \<Rightarrow> scene_event \<Rightarrow> bool" where
  "steady sc (Env e) \<longleftrightarrow> enabled (overlay_world sc) e"
| "steady sc (Pass a) \<longleftrightarrow> a = position sc \<or> \<not> fadedIn (state_of (overlay_world sc))"
| "steady sc (Write a v) \<longleftrightarrow> True"

text \<open>
  \<open>linked\<close>: the props of the world hold the number at the address, and the
  updater in force was made for the current \<^verbatim>\<open>fadedIn\<close>. \<open>settled\<close>: if the
  updater reads the store, it reads it at the address of the last render.
\<close>

definition linked :: "'w scene \<Rightarrow> bool" where
  "linked sc \<longleftrightarrow>
     animatedBottomSheetIndex (the_props (overlay_world sc)) = sheet sc (position sc) \<and>
     fadedIn_seen (updater sc) = fadedIn (state_of (overlay_world sc))"

definition settled :: "'w scene \<Rightarrow> bool" where
  "settled sc \<longleftrightarrow> (fadedIn_seen (updater sc) \<longrightarrow> position_seen (updater sc) = position sc)"

lemmas scene_defs =
  worklet_opacity_def useAnimatedStyle_def restyle_def scene_mount_def pass_def write_cell_def
  scene_shown_def

lemma scene_run_simps [simp]:
  "scene_run base sc [] = sc"
  "scene_run base sc (e # es) = scene_run base (scene_step base sc e) es"
  by (simp_all add: scene_run_def)

lemma scene_run_append:
  "scene_run base sc (es @ es') = scene_run base (scene_run base sc es) es'"
  by (simp add: scene_run_def)

lemma restyle_simps [simp]:
  "sheet (restyle sc) = sheet sc" "position (restyle sc) = position sc"
  "overlay_world (restyle sc) = overlay_world sc"
  "fadedIn_seen (updater (restyle sc)) = fadedIn (state_of (overlay_world sc))"
  by (simp_all add: restyle_def useAnimatedStyle_def)

lemma restyle_same:
  "fadedIn_seen (updater sc) = fadedIn (state_of (overlay_world sc)) \<Longrightarrow> restyle sc = sc"
  by (simp add: restyle_def useAnimatedStyle_def)

lemma settled_restyle: "settled sc \<Longrightarrow> settled (restyle sc)"
  by (simp add: settled_def restyle_def useAnimatedStyle_def)

lemma settled_overlay_world [simp]: "settled (sc\<lparr>overlay_world := w\<rparr>) \<longleftrightarrow> settled sc"
  by (simp add: settled_def)

section \<open>Each event keeps the link\<close>

lemma overlay_world_step:
  "overlay_world (scene_step base sc e) = run base (overlay_world sc) (shadow_step sc e)"
proof (cases e)
  case (Env e')
  then show ?thesis by (cases e') (simp_all add: write_cell_def)
qed (simp_all add: pass_def write_cell_def)

lemma overlay_world_run:
  "overlay_world (scene_run base sc es) = run base (overlay_world sc) (shadow base sc es)"
  by (induction es arbitrary: sc) (simp_all add: overlay_world_step run_append)

lemma linked_mount: "linked (scene_mount th p c t0 h a)"
  by (simp add: linked_def scene_mount_def)

lemma settled_mount: "settled (scene_mount th p c t0 h a)"
  by (simp add: settled_def scene_mount_def restyle_def useAnimatedStyle_def)

lemma linked_step:
  assumes "linked sc"
  shows "linked (scene_step base sc e)"
proof (cases e)
  case (Env e')
  with assms show ?thesis
    by (cases e') (simp_all add: linked_def write_cell_def)
next
  case (Pass a)
  with assms show ?thesis by (simp add: linked_def pass_def)
next
  case (Write a v)
  with assms show ?thesis by (simp add: linked_def write_cell_def)
qed

lemma settled_step:
  assumes "linked sc" and "settled sc" and "steady sc e"
  shows "settled (scene_step base sc e)"
proof (cases e)
  case (Env e')
  from assms(1) have r: "restyle sc = sc"
    by (simp add: linked_def restyle_same)
  from assms(2) Env show ?thesis
    by (cases e') (simp_all add: r settled_restyle, simp add: settled_def write_cell_def)
next
  case (Pass a)
  with assms show ?thesis
    by (auto simp: settled_def linked_def pass_def restyle_def useAnimatedStyle_def)
next
  case (Write a v)
  with assms show ?thesis by (simp add: settled_def write_cell_def)
qed

lemma shown_displayed:
  "linked sc \<Longrightarrow> settled sc \<Longrightarrow> scene_shown sc = displayed (overlay_world sc)"
  by (simp add: linked_def settled_def scene_shown_def worklet_opacity_def displayed_def
      shown_opacity_def)

lemma steady_shadow:
  "admissible steady (scene_step base) sc es \<Longrightarrow>
   admissible enabled (step base) (overlay_world sc) (shadow base sc es)"
proof (induction es arbitrary: sc)
  case Nil
  show ?case by simp
next
  case (Cons e es)
  from Cons.prems have "admissible enabled (step base) (overlay_world sc) (shadow_step sc e)"
    by (cases e) simp_all
  with Cons show ?case
    by (simp add: overlay_world_step [unfolded run_def, symmetric])
qed

lemma steady_run:
  assumes "linked sc" and "settled sc" and "admissible steady (scene_step base) sc es"
  shows "linked (scene_run base sc es) \<and> settled (scene_run base sc es)"
  unfolding scene_run_def
  by (rule foldl_invariant [where P = "\<lambda>sc. linked sc \<and> settled sc" and en = steady])
    (use assms in \<open>auto intro: linked_step settled_step\<close>)

section \<open>Writes and a close\<close>

lemma run_writes:
  assumes "vs \<noteq> []"
  shows "sheet (scene_run base sc (map (Write a) vs)) = (sheet sc)(a := last vs)"
    and "position (scene_run base sc (map (Write a) vs)) = position sc"
    and "updater (scene_run base sc (map (Write a) vs)) = updater sc"
    and "overlay_world (scene_run base sc (map (Write a) vs)) =
         (if a = position sc then drag (last vs) (overlay_world sc) else overlay_world sc)"
proof -
  have "sheet (scene_run base sc (map (Write a) vs)) = (sheet sc)(a := last vs) \<and>
      position (scene_run base sc (map (Write a) vs)) = position sc \<and>
      updater (scene_run base sc (map (Write a) vs)) = updater sc \<and>
      overlay_world (scene_run base sc (map (Write a) vs)) =
        (if a = position sc then drag (last vs) (overlay_world sc) else overlay_world sc)"
    using assms
  proof (induction vs arbitrary: sc)
    case Nil
    then show ?case by simp
  next
    case (Cons v vs)
    show ?case
    proof (cases "vs = []")
      case True
      show ?thesis unfolding True by (simp add: write_cell_def)
    next
      case False
      from Cons.IH [OF False, of "write_cell a v sc"] False show ?thesis
        by (simp add: write_cell_def drag_def fun_eq_iff)
    qed
  qed
  then show "sheet (scene_run base sc (map (Write a) vs)) = (sheet sc)(a := last vs)"
    and "position (scene_run base sc (map (Write a) vs)) = position sc"
    and "updater (scene_run base sc (map (Write a) vs)) = updater sc"
    and "overlay_world (scene_run base sc (map (Write a) vs)) =
         (if a = position sc then drag (last vs) (overlay_world sc) else overlay_world sc)"
    by simp_all
qed

text \<open>Closing makes a new updater, which does not read the store: the scene is settled again.\<close>

lemma close_settles:
  assumes "reachable base (overlay_world sc)" and "j \<le> 0" and "j \<noteq> index_of (overlay_world sc)"
  shows "settled (scene_step base sc (Env (SetIndex j)))"
proof -
  from assms have "\<not> fadedIn (state_of (set_index j (overlay_world sc)))"
    by (simp add: reachable_synced useEffect_def index_effect_def)
  then show ?thesis
    by (simp add: settled_def del: set_index_simps)
qed

text \<open>
  The bound on the opacity does not need the updater to be current: whatever
  shared value it captured, the surface shows a number of the unit interval if
  the store holds only such numbers.
\<close>

lemma scene_shown_in_unit:
  assumes "unit_map base" and "reachable base (overlay_world sc)" and "\<And>b. in_unit (sheet sc b)"
  shows "in_unit (scene_shown sc)"
proof -
  from assms(1,2) have "bounded (overlay_world sc)" by (rule reachable_bounded)
  then have "in_unit (current (opacity (state_of (overlay_world sc))))"
    by (simp add: bounded_def sv_in_unit_current)
  with assms(3) show ?thesis
    by (simp add: scene_shown_def worklet_opacity_def)
qed

section \<open>A sample scene\<close>

definition sample_scene :: "nat scene" where
  "sample_scene = scene_mount sample_theme (sample_props 0) 0 0 (\<lambda>a. 0) 7"

lemmas scene_eval =
  sample_scene_def scene_defs linked_def settled_def sample_props_def sample_theme_def

section \<open>Properties of the animated style\<close>

text \<open>
  C21. The overlay whose prop is a number describes the overlay whose prop is a
  shared value. Along every run of a mounted scene in which each event is
  enabled and the parent passes another shared value only while the
  fade-complete flag is clear, the world of the scene is the run of the world
  machine over the events the scene's events amount to (a write to the shared
  value the overlay holds is a drag, a write to any other is nothing, a render
  with another shared value is a drag to the number it holds), these events are
  enabled where they occur, and what the updater in force computes from the
  store is the displayed opacity of that world.
\<close>

theorem steady_scene_refines:
  assumes "admissible steady (scene_step base) (scene_mount th p c t0 h a) es"
  shows "overlay_world (scene_run base (scene_mount th p c t0 h a) es) =
           run base (mount th (p\<lparr>animatedBottomSheetIndex := h a\<rparr>) c t0)
             (shadow base (scene_mount th p c t0 h a) es) \<and>
         admissible enabled (step base) (mount th (p\<lparr>animatedBottomSheetIndex := h a\<rparr>) c t0)
           (shadow base (scene_mount th p c t0 h a) es) \<and>
         scene_shown (scene_run base (scene_mount th p c t0 h a) es) =
           displayed (overlay_world (scene_run base (scene_mount th p c t0 h a) es))"
proof -
  have w: "overlay_world (scene_mount th p c t0 h a) =
      mount th (p\<lparr>animatedBottomSheetIndex := h a\<rparr>) c t0"
    by (simp add: scene_mount_def)
  from steady_run [OF linked_mount settled_mount assms]
  have "scene_shown (scene_run base (scene_mount th p c t0 h a) es) =
      displayed (overlay_world (scene_run base (scene_mount th p c t0 h a) es))"
    by (simp add: shown_displayed)
  with overlay_world_run [of base "scene_mount th p c t0 h a" es] steady_shadow [OF assms]
  show ?thesis
    by (simp add: w)
qed

theorem steady_scene_refines_witness:
  "admissible steady (scene_step (\<lambda>t. t)) sample_scene
     [Env (SetIndex 1), Pass 8, Env (Frame 200), Env Deliver, Write 8 (1 / 2)] \<and>
   shadow (\<lambda>t. t) sample_scene
     [Env (SetIndex 1), Pass 8, Env (Frame 200), Env Deliver, Write 8 (1 / 2)] =
     [SetIndex 1, Drag 0, Frame 200, Deliver, Drag (1 / 2)] \<and>
   scene_shown (scene_run (\<lambda>t. t) sample_scene
     [Env (SetIndex 1), Pass 8, Env (Frame 200), Env Deliver, Write 8 (1 / 2)]) = 1 / 2"
proof -
  have a: "admissible steady (scene_step (\<lambda>t. t))
      (scene_mount sample_theme (sample_props 0) 0 0 (\<lambda>a. 0) 7)
      [Env (SetIndex 1), Pass 8, Env (Frame 200), Env Deliver, Write 8 (1 / 2)]"
    by (simp add: scene_eval overlay_defs sample_eval)
  have s: "shadow (\<lambda>t. t) (scene_mount sample_theme (sample_props 0) 0 0 (\<lambda>a. 0) 7)
      [Env (SetIndex 1), Pass 8, Env (Frame 200), Env Deliver, Write 8 (1 / 2)] =
      [SetIndex 1, Drag 0, Frame 200, Deliver, Drag (1 / 2)]"
    by (simp add: scene_eval overlay_defs sample_eval)
  from steady_scene_refines [OF a] a s show ?thesis
    unfolding sample_scene_def s
    by (simp add: overlay_defs sample_eval sample_props_def del: scene_run_simps)
qed

text \<open>
  C26. The updater keeps the shared value it captured. When the fade-complete
  flag is set and the parent renders with another shared value, the updater in
  force stays the one made when the flag was set, because the dependency list
  of the hook names the flag alone. However the new shared value is written
  afterwards, the surface shows the number the old shared value holds, while
  the overlay described by the props would show the last number written.
\<close>

theorem swapped_position_is_stale:
  assumes "linked sc" and "settled sc" and "fadedIn (state_of (overlay_world sc))"
    and "a \<noteq> position sc" and "vs \<noteq> []"
  shows "scene_shown (scene_run base sc (Pass a # map (Write a) vs)) = sheet sc (position sc) \<and>
         displayed (overlay_world (scene_run base sc (Pass a # map (Write a) vs))) = last vs"
proof -
  from assms(1-3) have k: "updater (pass a sc) = updater sc" "fadedIn_seen (updater sc)"
    "position_seen (updater sc) = position sc"
    by (simp_all add: linked_def settled_def pass_def restyle_def useAnimatedStyle_def)
  have p: "position (pass a sc) = a" "sheet (pass a sc) = sheet sc"
    "state_of (overlay_world (pass a sc)) = state_of (overlay_world sc)"
    by (simp_all add: pass_def)
  from assms(3,4) show ?thesis
    by (simp add: run_writes [OF assms(5)] scene_shown_def worklet_opacity_def k p displayed_def
        shown_opacity_def)
qed

theorem swapped_position_is_stale_witness:
  "linked (scene_run (\<lambda>t. t) sample_scene [Env (SetIndex 1), Env (Frame 200), Env Deliver]) \<and>
   settled (scene_run (\<lambda>t. t) sample_scene [Env (SetIndex 1), Env (Frame 200), Env Deliver]) \<and>
   fadedIn (state_of (overlay_world
     (scene_run (\<lambda>t. t) sample_scene [Env (SetIndex 1), Env (Frame 200), Env Deliver]))) \<and>
   8 \<noteq> position (scene_run (\<lambda>t. t) sample_scene [Env (SetIndex 1), Env (Frame 200), Env Deliver]) \<and>
   scene_shown (scene_run (\<lambda>t. t) sample_scene
     ([Env (SetIndex 1), Env (Frame 200), Env Deliver] @ [Pass 8, Write 8 (1 / 2)])) = 0 \<and>
   displayed (overlay_world (scene_run (\<lambda>t. t) sample_scene
     ([Env (SetIndex 1), Env (Frame 200), Env Deliver] @ [Pass 8, Write 8 (1 / 2)]))) = 1 / 2"
proof -
  let ?sc = "scene_run (\<lambda>t. t) sample_scene [Env (SetIndex 1), Env (Frame 200), Env Deliver]"
  have l: "linked ?sc" and s: "settled ?sc" and f: "fadedIn (state_of (overlay_world ?sc))"
    and n: "8 \<noteq> position ?sc" and h: "sheet ?sc (position ?sc) = 0"
    by (simp_all add: scene_eval overlay_defs sample_eval)
  have v: "[1 / 2 :: number] \<noteq> []" by simp
  from swapped_position_is_stale [OF l s f n v, of "\<lambda>t. t"] l s f n show ?thesis
    unfolding scene_run_append h by (simp del: scene_run_simps scene_step.simps)
qed

end
