(* ===== verification/Overlay_Ledger.thy ===== *)
theory Overlay_Ledger
  imports Overlay_Invariants
begin

text \<open>
  An account of the fades. Every run of the opening branch of the effect starts
  one fade, and a fade ends in one of four ways: its completion has been run on
  the JS thread, its completion is posted and waits, it is still in flight, or
  it was abandoned by the next run of the effect. This theory counts the four
  along a run and shows that they add up to the number of openings: no
  completion comes from anything but an opening, and no opening is lost.
\<close>

section \<open>Counting along a run\<close>

text \<open>
  What one event adds to each count, read off the world it occurs in: an
  opening is a render with a positive index other than the current one; a fade
  is abandoned by a render with another index while it is in flight; a call is
  delivered when the JS thread finds one posted.
\<close>

fun opened :: "'w world \<Rightarrow> event \<Rightarrow> nat" where
  "opened w (SetIndex i) = (if 0 < i \<and> i \<noteq> index_of w then 1 else 0)"
| "opened w e = 0"

fun abandoned :: "'w world \<Rightarrow> event \<Rightarrow> nat" where
  "abandoned w (SetIndex i) = (if i \<noteq> index_of w \<and> \<not> idle (opacity (state_of w)) then 1 else 0)"
| "abandoned w e = 0"

fun delivered :: "'w world \<Rightarrow> event \<Rightarrow> nat" where
  "delivered w Deliver = (if js_queue w = [] then 0 else 1)"
| "delivered w e = 0"

fun tally ::
  "('w world \<Rightarrow> event \<Rightarrow> nat) \<Rightarrow> (number \<Rightarrow> number) \<Rightarrow> 'w world \<Rightarrow> event list \<Rightarrow> nat" where
  "tally count base w [] = 0"
| "tally count base w (e # es) = count w e + tally count base (step base w e) es"

definition in_flight :: "'w world \<Rightarrow> nat" where
  "in_flight w = (if idle (opacity (state_of w)) then 0 else 1)"

section \<open>One event\<close>

lemma in_flight_frame:
  "length (snd (frame base now sv)) + (if idle (fst (frame base now sv)) then 0 else 1) =
   (if idle sv then 0 else (1::nat))"
  by (auto simp: frame_def idle_def split: option.splits)

lemma ledger_step:
  assumes "coherent w"
  shows "in_flight w + length (js_queue w) + opened w e =
         delivered w e + abandoned w e + length (js_queue (step base w e)) +
         in_flight (step base w e)"
proof (cases e)
  case (SetIndex i)
  with coherentD(1) [OF assms] show ?thesis
    by (simp add: in_flight_def useEffect_def index_effect_def effect_open_def idle_def)
next
  case (Frame dt)
  with in_flight_frame [of base "clock w + dt" "opacity (state_of w)"] show ?thesis
    by (simp add: in_flight_def)
next
  case Deliver
  then show ?thesis
    by (cases "js_queue w") (simp_all add: in_flight_def deliver_def idle_def)
qed (simp_all add: in_flight_def)

lemma ledger_run:
  "coherent w \<Longrightarrow>
   in_flight w + length (js_queue w) + tally opened base w es =
   tally delivered base w es + tally abandoned base w es + length (js_queue (run base w es)) +
   in_flight (run base w es)"
proof (induction es arbitrary: w)
  case Nil
  show ?case by simp
next
  case (Cons e es)
  from Cons.IH [OF coherent_step [OF Cons.prems, where e = e and base = base]]
    ledger_step [OF Cons.prems, where e = e and base = base]
  show ?case by simp
qed

section \<open>Properties of the account\<close>

text \<open>
  C24. Every opening is accounted for, and nothing else is. Along every run
  from the first commit, the number of openings (the first commit, if its index
  is positive, and every later render with a positive index other than the
  current one) equals the number of completions the JS thread has run, plus
  the number of fades abandoned by a later render with another index, plus the
  completions posted and waiting, plus the fade in flight. In particular
  \<^verbatim>\<open>setFadedIn(true)\<close> has run at most once for each opening.
\<close>

theorem openings_accounted:
  "(if 0 < currentBottomSheetIndex p then 1 else 0) + tally opened base (mount th p c t0) es =
     tally delivered base (mount th p c t0) es + tally abandoned base (mount th p c t0) es +
     length (js_queue (run base (mount th p c t0) es)) + in_flight (run base (mount th p c t0) es)"
proof -
  have "in_flight (mount th p c t0) + length (js_queue (mount th p c t0)) =
      (if 0 < currentBottomSheetIndex p then 1 else 0)"
    by (simp add: in_flight_def unmounted_def useEffect_def index_effect_def effect_open_def
        idle_def)
  with ledger_run [OF coherent_mount [of th p c t0], where base = base and es = es]
  show ?thesis
    by simp
qed

theorem openings_accounted_witness:
  "tally opened (\<lambda>t. t) (sample_world 0)
     [SetIndex 1, Frame 50, SetIndex 2, Frame 300, Deliver, SetIndex 0, SetIndex 3, SetIndex 0] = 3 \<and>
   tally delivered (\<lambda>t. t) (sample_world 0)
     [SetIndex 1, Frame 50, SetIndex 2, Frame 300, Deliver, SetIndex 0, SetIndex 3, SetIndex 0] = 1 \<and>
   tally abandoned (\<lambda>t. t) (sample_world 0)
     [SetIndex 1, Frame 50, SetIndex 2, Frame 300, Deliver, SetIndex 0, SetIndex 3, SetIndex 0] = 2"
proof -
  let ?es = "[SetIndex 1, Frame 50, SetIndex 2, Frame 300, Deliver, SetIndex 0, SetIndex 3, SetIndex 0]"
  have o: "tally opened (\<lambda>t. t) (sample_world 0) ?es = 3"
    and d: "tally delivered (\<lambda>t. t) (sample_world 0) ?es = 1"
    by (simp_all add: sample_world_def overlay_defs sample_eval sample_props_def idle_def)
  have q: "js_queue (run (\<lambda>t. t) (sample_world 0) ?es) = []"
    and f: "in_flight (run (\<lambda>t. t) (sample_world 0) ?es) = 0"
    by (simp_all add: sample_world_def overlay_defs sample_eval sample_props_def idle_def
        in_flight_def)
  from openings_accounted [where p = "sample_props 0" and base = "\<lambda>t. t" and th = sample_theme
      and c = 0 and ?t0.0 = 0 and es = ?es] o d
  show ?thesis
    unfolding sample_world_def [symmetric] q f by simp
qed

end
