(* ===== verification/Overlay_Monotone.thy ===== *)
theory Overlay_Monotone
  imports Overlay_Timeline
begin

text \<open>
  What can lower the opacity on the screen. The surface brightens by the fade
  and afterwards follows the bottom sheet. This theory shows that, with a
  monotone easing curve, the displayed opacity of a rendered overlay goes down
  in three situations only: the sheet is dragged down after the fade, the
  completion of the fade hands the opacity over to a sheet that is not fully
  open, and the overlay is closed. Frames, re-renders with another positive
  index and state changes of the recogniser never lower it.
\<close>

section \<open>The owned opacity is never ahead of its animation\<close>

text \<open>
  \<open>on_track\<close>: the owned opacity is at most what a frame at the current time
  would leave in it. \<open>rising\<close> adds that the animation in flight, if any, goes
  upwards.
\<close>

definition on_track :: "(number \<Rightarrow> number) \<Rightarrow> 'w world \<Rightarrow> bool" where
  "on_track base w \<longleftrightarrow>
     current (opacity (state_of w)) \<le>
       current (fst (frame base (clock w) (opacity (state_of w))))"

definition rising :: "(number \<Rightarrow> number) \<Rightarrow> 'w world \<Rightarrow> bool" where
  "rising base w \<longleftrightarrow> bounded w \<and> upwards (opacity (state_of w)) \<and> on_track base w"

text \<open>The events after which the displayed opacity is lower than before.\<close>

fun lowers :: "'w world \<Rightarrow> event \<Rightarrow> bool" where
  "lowers w (Drag v) \<longleftrightarrow> fadedIn (state_of w) \<and> v < animatedBottomSheetIndex (the_props w)"
| "lowers w Deliver \<longleftrightarrow>
     js_queue w \<noteq> [] \<and> \<not> fadedIn (state_of w) \<and>
     animatedBottomSheetIndex (the_props w) < current (opacity (state_of w))"
| "lowers w (SetIndex i) \<longleftrightarrow> i \<le> 0 \<and> 0 < displayed w"
| "lowers w (Frame dt) \<longleftrightarrow> False"
| "lowers w (Gesture st) \<longleftrightarrow> False"

lemma rising_effect:
  assumes "unit_map base" and "sv_in_unit (opacity (hooks i))" and "upwards (opacity (hooks i))"
    and "current (opacity (hooks i)) \<le> current (fst (frame base now (opacity (hooks i))))"
  shows "upwards (opacity (hooks (useEffect now p i))) \<and>
         current (opacity (hooks (useEffect now p i))) \<le>
           current (fst (frame base now (opacity (hooks (useEffect now p i)))))"
proof (cases "deps i = Some (currentBottomSheetIndex p)")
  case True
  with assms(3,4) show ?thesis by (simp add: useEffect_same)
next
  case False
  note changed = useEffect_changed [OF False]
  show ?thesis
  proof (cases "0 < currentBottomSheetIndex p")
    case True
    have "in_unit (progress base a now)" if "\<not> finished a now" for a :: "js_call animation"
      using assms(1) that by (rule progress_in_unit)
    moreover from assms(2) have "in_unit (current (opacity (hooks i)))"
      by (rule sv_in_unit_current)
    ultimately show ?thesis
      using True
      by (auto simp: changed index_effect_def effect_open_def upwards_def frame_def in_unit_def
          lerp_def mult_nonneg_nonneg)
  next
    case False
    then show ?thesis
      by (simp add: changed index_effect_def upwards_def)
  qed
qed

lemma rising_mount: "unit_map base \<Longrightarrow> rising base (mount th p c t0)"
  using rising_effect [of base unmounted t0 p]
  by (simp add: rising_def on_track_def bounded_mount) (simp add: unmounted_def upwards_def)

lemma rising_step:
  assumes "mono base" and "unit_map base" and "rising base w"
  shows "rising base (step base w e)"
proof -
  from assms(3) have b: "bounded w" and u: "upwards (opacity (state_of w))"
    and t: "on_track base w"
    by (simp_all add: rising_def)
  note b' = bounded_step [OF assms(2) b, of e]
  show ?thesis
  proof (cases e)
    case (SetIndex i)
    from b u t
    rising_effect [OF assms(2), of "mounted w" "clock w" "(the_props w)\<lparr>currentBottomSheetIndex := i\<rparr>"]
    show ?thesis
      using b' unfolding SetIndex by (simp add: rising_def on_track_def bounded_def)
  next
    case (Frame dt)
    have "idle (fst (frame base (clock w + dt) (opacity (state_of w)))) \<or>
        fst (frame base (clock w + dt) (opacity (state_of w))) =
          (opacity (state_of w))\<lparr>current :=
             current (fst (frame base (clock w + dt) (opacity (state_of w))))\<rparr>"
      by (auto simp: frame_def idle_def split: option.splits)
    then have "current (fst (frame base (clock w + dt) (opacity (state_of w)))) \<le>
        current (fst (frame base (clock w + dt)
          (fst (frame base (clock w + dt) (opacity (state_of w))))))"
      by (auto simp: frame_def split: option.splits)
    with b' u show ?thesis
      unfolding Frame by (simp add: rising_def on_track_def upwards_frame)
  next
    case Deliver
    with b' u t show ?thesis by (simp add: rising_def on_track_def)
  next
    case (Drag v)
    with b' u t show ?thesis by (simp add: rising_def on_track_def)
  next
    case (Gesture st)
    with b' u t show ?thesis by (simp add: rising_def on_track_def)
  qed
qed

lemma reachable_rising:
  assumes "mono base" and "unit_map base" and "reachable base w"
  shows "rising base w"
  using assms(3)
  by (induction rule: reachable.induct)
    (auto simp: transition_iff rising_mount [OF assms(2)] rising_step [OF assms(1,2)])

text \<open>A frame never lowers the owned opacity.\<close>

lemma tick_rises:
  assumes "mono base" and "unit_map base" and "rising base w"
  shows "current (opacity (state_of w)) \<le> current (opacity (state_of (tick base dt w)))"
proof -
  from assms(3) have "current (opacity (state_of w)) \<le>
      current (fst (frame base (clock w) (opacity (state_of w))))"
    by (simp add: rising_def on_track_def)
  also from assms have "\<dots> \<le> current (fst (frame base (clock w + dt) (opacity (state_of w))))"
    by (intro frame_rises) (simp_all add: rising_def)
  finally show ?thesis by simp
qed

section \<open>Properties of the displayed opacity\<close>

text \<open>
  C25. Only the sheet and the close lower the opacity on the screen. With an
  easing curve that is monotone and maps the unit interval into itself, in
  every reachable world in which the overlay is rendered, an event leaves the
  displayed opacity lower than it was exactly in these cases: the sheet is
  dragged below its position while the fade-complete flag is set; the posted
  completion is run while the flag is clear and the sheet's position is below
  the owned opacity (the handover from the fade to the sheet); the index
  becomes zero or negative while something is displayed. No frame lowers it,
  no render with another positive index does (the fade restarts from the value
  it has reached), and no state change of the recogniser does.
\<close>

theorem lowered_only_by_sheet_or_close:
  assumes "mono base" and "unit_map base" and "reachable base w" and "visible (state_of w)"
  shows "displayed (step base w e) < displayed w \<longleftrightarrow> lowers w e"
proof (cases e)
  case (SetIndex i)
  from assms(3,4) have d: "deps (mounted w) = Some (index_of w)" and p: "0 < index_of w"
    by (simp_all add: reachable_synced)
  show ?thesis
  proof (cases "0 < i")
    case True
    with d show ?thesis
      unfolding SetIndex
      by (simp add: displayed_def shown_opacity_def useEffect_def index_effect_def)
  next
    case False
    with d p show ?thesis
      unfolding SetIndex
      by (simp add: displayed_def shown_opacity_def useEffect_def index_effect_def)
  qed
next
  case (Drag v)
  then show ?thesis
    by (simp add: displayed_def shown_opacity_def)
next
  case (Frame dt)
  from tick_rises [OF assms(1,2) reachable_rising [OF assms(1,2,3)], of dt] show ?thesis
    unfolding Frame by (simp add: displayed_def shown_opacity_def)
next
  case Deliver
  show ?thesis
  proof (cases "js_queue w")
    case Nil
    then show ?thesis
      unfolding Deliver by (simp add: deliver_def)
  next
    case (Cons c q)
    with coherentD(5) [OF reachable_coherent [OF assms(3)]] have "c = SetFadedIn True"
      by (simp add: fade_callback_def)
    with Cons show ?thesis
      unfolding Deliver by (simp add: displayed_def shown_opacity_def deliver_Cons)
  qed
next
  case (Gesture st)
  then show ?thesis
    by (simp add: displayed_def shown_opacity_def)
qed

theorem lowered_only_by_sheet_or_close_witness:
  "mono (\<lambda>t::real. t) \<and> unit_map (\<lambda>t. t) \<and>
   reachable (\<lambda>t. t) (run (\<lambda>t. t) (sample_world 0) [SetIndex 1, Frame 200]) \<and>
   visible (state_of (run (\<lambda>t. t) (sample_world 0) [SetIndex 1, Frame 200])) \<and>
   lowers (run (\<lambda>t. t) (sample_world 0) [SetIndex 1, Frame 200]) Deliver \<and>
   \<not> lowers (run (\<lambda>t. t) (sample_world 0) [SetIndex 1, Frame 200]) (SetIndex 2) \<and>
   displayed (step (\<lambda>t. t) (run (\<lambda>t. t) (sample_world 0) [SetIndex 1, Frame 200]) Deliver) <
     displayed (run (\<lambda>t. t) (sample_world 0) [SetIndex 1, Frame 200]) \<and>
   \<not> displayed (step (\<lambda>t. t) (run (\<lambda>t. t) (sample_world 0) [SetIndex 1, Frame 200])
       (SetIndex 2)) <
     displayed (run (\<lambda>t. t) (sample_world 0) [SetIndex 1, Frame 200])"
proof -
  let ?w = "run (\<lambda>t. t) (sample_world 0) [SetIndex 1, Frame 200]"
  have m: "mono (\<lambda>t::real. t)" by (simp add: mono_def)
  have u: "unit_map (\<lambda>t::real. t)" by simp
  have r: "reachable (\<lambda>t. t) ?w"
    by (rule reachable_run) simp_all
  have v: "visible (state_of ?w)"
    by (simp add: useEffect_def index_effect_def)
  have l: "lowers ?w Deliver" "\<not> lowers ?w (SetIndex 2)"
    by (simp_all add: overlay_defs sample_eval)
  from lowered_only_by_sheet_or_close [OF m u r v, of Deliver]
    lowered_only_by_sheet_or_close [OF m u r v, of "SetIndex 2"] m u r v l
  show ?thesis
    by (simp del: run_Cons step.simps lowers.simps)
qed

end
