(* ===== verification/Spec2Isabelle.thy ===== *)
theory Spec2Isabelle
  imports Overlay_Reference Overlay_Interleaving Overlay_Gestures Overlay_Passes Theme_Context
    Overlay_Numbers Overlay_Worklet Overlay_Ledger Overlay_Monotone
begin

text \<open>
  \<^bold>\<open>The image gallery overlay, modelled and verified.\<close>

  The program is one React Native function component, \<^verbatim>\<open>ImageGalleryOverlay\<close>
  of \<^verbatim>\<open>src/package/src/components/ImageGallery/components/ImageGalleryOverlay.tsx\<close>.
  It draws a dimming surface behind the image grid of the gallery's bottom
  sheet. Its parent hands it the sheet's snap index, the sheet's animated drag
  position and a callback that closes the grid. The component keeps two state
  variables (\<^verbatim>\<open>visible\<close>, \<^verbatim>\<open>fadedIn\<close>) and one shared value (\<^verbatim>\<open>opacity\<close>).
  An effect that depends on the index makes the surface visible and starts a
  200 ms fade towards opacity 1 when the index is positive, and resets all
  three when it is not; the completion of the fade posts \<^verbatim>\<open>setFadedIn(true)\<close>
  to the JS thread, after which the surface shows the drag position instead of
  its own opacity. A tap on the surface calls the callback.

  \<^bold>\<open>Theories.\<close>

  \<^item> \<open>Overlay_Prelude\<close>: the number types (\<open>number\<close> is \<^typ>\<open>real\<close>, \<open>millis\<close> is
    \<^typ>\<open>nat\<close>), the unit interval \<open>in_unit\<close>, maps of the unit interval
    \<open>unit_map\<close>, interpolation \<open>lerp\<close>, runs of a step function over a list
    of events each enabled where it occurs (\<open>admissible\<close>, \<open>foldl_invariant\<close>),
    and results that may be an exception (\<open>and_then\<close> on the sum type).

  \<^item> \<open>Reanimated\<close>: the animation engine as far as the overlay uses it, from
    the specification: a shared value is a record of the number it shows and
    the timing animation that drives it, if any; \<open>assign\<close> is the setter of
    \<^verbatim>\<open>.value\<close> (a number, or \<^verbatim>\<open>withTiming\<close>); \<open>frame\<close> advances it to a time and
    returns the callbacks of the animation that completed; \<open>play\<close> is a
    sequence of frames. The lemmas give the result of a frame in each case,
    show that an animation completes exactly when its duration has elapsed and
    then calls its callback once, and that values between 0 and 1 stay there.

  \<^item> \<open>Gesture_Handler\<close>: the gesture states, the state-change event, and a
    single-touch tap recogniser with a per-axis movement tolerance
    (\<open>tap_step\<close>, \<open>recognise\<close>), from the specification. The lemmas give the
    states it reports for a tap and for a drag.

  \<^item> \<open>Style_Sheet\<close>: style objects as lists of bindings, the absolute fill,
    and the flattening of a style array, in which later entries override
    earlier ones.

  \<^item> \<open>Overlay\<close>: the component, statement by statement. The records \<open>props\<close>,
    \<open>theme\<close> and \<open>overlay_state\<close> are the props (lines 19-23), the two theme
    values the component reads (28-35) and its three hooks (37-40). The
    operations are the setters \<open>setVisible\<close>, \<open>setFadedIn\<close>, \<open>set_opacity\<close>; the
    two branches of the effect \<open>effect_open\<close> and \<open>effect_close\<close> with
    \<open>fade_config\<close> and \<open>fade_callback\<close>, joined by \<open>index_effect\<close> (42-59);
    \<open>useEffect\<close>, which runs the effect only when the index differs from the
    one of its last run, remembered in a \<open>fiber\<close>; the worklet \<open>shown_opacity\<close>
    and \<open>showOverlayStyle\<close> (61-66); \<open>tapEvent\<close> (68-72); \<open>render\<close> with
    \<open>overlay_styles\<close> (74-94); and \<open>ImageGalleryOverlay\<close>, one call of the
    component function: the element rendered from the state it finds, and the
    fiber after the effect it registered has run.
    The lemmas state what each operation writes and leaves alone, and that the
    effect only ever starts the one fade (\<open>fade_only\<close>), leaves a hidden
    overlay reset (\<open>reset_when_hidden\<close>) and keeps the opacity in the unit
    interval (\<open>state_ok\<close>). Theorems \<open>index_effect_close\<close>, \<open>index_effect_open\<close>,
    \<open>opacity_not_overridable\<close> and \<open>theme_override_wins\<close> are the behaviour of
    the effect on either branch and the precedence among the four styles.

  \<^item> \<open>Theme_Context\<close>: the first statement of the component, the nested
    destructuring of what \<^verbatim>\<open>useTheme()\<close> returns (28-35). The context value
    is a JavaScript value \<open>js\<close>; \<open>destructure\<close> is one level of an object
    pattern, which throws a \<open>TypeError\<close> on \<^verbatim>\<open>undefined\<close> and \<^verbatim>\<open>null\<close>;
    \<open>destructure_theme\<close> is the pattern of the component, read in its order;
    \<open>call_in_context\<close> is the call of the component under a context value:
    the exception, or the call with the theme the two leaves hold. Theorems
    \<open>destructure_theme_iff_paths\<close> (the pattern succeeds exactly when both
    paths exist, by the reference reading \<open>lookup\<close>), \<open>broken_context_throws\<close>
    and \<open>typed_context_renders\<close>.

  \<^item> \<open>Overlay_Numbers\<close>: the sheet index as the JavaScript number the props
    declare (line 22). \<open>js_number\<close> has the finite numbers, the negative
    zero, the infinities and \<^verbatim>\<open>NaN\<close>; \<open>gt_zero\<close> is the test \<^verbatim>\<open>> 0\<close> of line
    43, false on \<^verbatim>\<open>NaN\<close>; \<open>index_effect_num\<close> and \<open>useEffect_num\<close> are the effect
    and its dependency check (42-59, compared with \<^verbatim>\<open>Object.is\<close>) over such
    numbers, on a \<open>fiber_num\<close>. \<open>indexes\<close> translates a sequence of renders
    with numbers into one with integers. Theorem \<open>integer_model_complete\<close>: the
    integer model reaches the component's state on the translated sequence;
    lemma \<open>integer_model_sound\<close> is the converse.

  \<^item> \<open>Overlay_Runtime\<close>: the mounted component in its environment. A
    \<open>world\<close> holds the props and theme of the last render, the component's
    fiber, the animation clock, the queue of calls posted to the JS thread and
    the caller's state. \<open>settle\<close> is the loop of one commit: the component
    function is called, the effect runs, and the function is called again as
    long as the effect changed \<open>visible\<close> or \<open>fadedIn\<close>; it returns the
    elements of the passes and the fiber they leave, and \<open>None\<close> if the
    passes do not end. \<open>commit_passes\<close> applies it to a world. The environment acts through five events: the parent
    renders with a new index (\<open>set_index\<close>), the sheet is dragged (\<open>drag\<close>), the
    animation thread runs a frame (\<open>tick\<close>), the JS thread runs the oldest
    posted call (\<open>deliver\<close>), the recogniser reports a state (\<open>gesture\<close>).
    \<open>step\<close> is the step function and \<open>run\<close> its iteration; \<open>transition\<close> and
    \<open>reachable\<close> are the same machine as inductive relations.

  \<^item> \<open>Overlay_Invariants\<close>: the invariant \<open>coherent\<close> of reachable worlds (the
    visible flag agrees with the sign of the index; the effect's remembered
    index is the current one; at most the one fade runs, and only while visible;
    animations started in the past; only \<open>setFadedIn(true)\<close> is ever posted; a
    hidden overlay is reset) and \<open>bounded\<close> (the owned opacity is in the unit
    interval). Each operation preserves them; \<open>reachable_coherent\<close> and
    \<open>reachable_bounded\<close> follow by rule induction. Theorems \<open>rendered_iff_open\<close>,
    \<open>tap_closes_on_END\<close>, \<open>displayed_in_unit\<close>, \<open>set_index_same\<close>.

  \<^item> \<open>Overlay_Timeline\<close>: the fade over time. \<open>play_fade\<close> is the engine's
    result on the overlay's fade after any sequence of frames, \<open>opened_world\<close>
    and \<open>faded_world\<close> are the worlds right after opening and after the fade
    has completed. Theorems \<open>fade_in_completes\<close>, \<open>fade_in_progress\<close>,
    \<open>close_cancels_fade\<close>, \<open>completion_exactly_at_duration\<close>,
    \<open>double_toggle_within_window\<close> (open, close and open again inside the 200
    ms leaves no trace). Lemma \<open>frames_coalesce\<close>: the frame rate does not
    matter, a fact of the engine.

  \<^item> \<open>Overlay_Ledger\<close>: an account of the fades along a run. \<open>opened\<close>,
    \<open>abandoned\<close> and \<open>delivered\<close> are what one event adds to each count,
    \<open>tally\<close> sums a count over a run, \<open>in_flight\<close> is 1 while a fade
    runs. Theorem \<open>openings_accounted\<close>: the openings of a run are as many as
    the completions run, the fades abandoned, the completions waiting and the
    fade in flight together.

  \<^item> \<open>Overlay_Monotone\<close>: what can lower the opacity on the screen. The
    invariant \<open>rising\<close> of reachable worlds says that the owned opacity is
    never ahead of its animation and that the animation goes upwards; it
    needs a monotone easing curve (\<open>frame_rises\<close> in \<open>Reanimated\<close>).
    \<open>lowers\<close> decides from an event and the world whether the event lowers
    the displayed opacity. Theorem \<open>lowered_only_by_sheet_or_close\<close>: on a
    rendered overlay it is lowered exactly by a drag of the sheet after the
    fade, by the handover from the fade to the sheet, and by a close.

  \<^item> \<open>Overlay_Worklet\<close>: the animated style as the closure it is. The prop
    \<^verbatim>\<open>animatedBottomSheetIndex\<close> is an address in the store of the bottom
    sheet's shared values; \<open>worklet\<close> is what the updater of lines 62-64
    captured, \<open>worklet_opacity\<close> its body (63), \<open>useAnimatedStyle\<close> the hook
    with its dependency list \<^verbatim>\<open>[fadedIn]\<close> (61-66), \<open>restyle\<close> its call in one
    render. A \<open>scene\<close> is a world with the store, the address of the last
    render and the updater in force; \<open>scene_step\<close> adds to the events of a
    world a render with another shared value (\<open>pass\<close>) and a write to any
    shared value (\<open>write_cell\<close>). Theorem \<open>steady_scene_refines\<close>: as long
    as the parent passes another shared value only while \<^verbatim>\<open>fadedIn\<close> is
    false, the world of the scene is a run of the world machine and displays
    what the scene shows. Theorem \<open>swapped_position_is_stale\<close>: otherwise
    the surface follows the shared value it was given before. Lemmas
    \<open>close_settles\<close>: a close ends that; \<open>scene_shown_in_unit\<close>: the bound
    on the opacity holds in either case.

  \<^item> \<open>Overlay_Passes\<close>: what the passes of a commit put on the screen
    (\<open>picture\<close>). Lemma \<open>commit_settles\<close>; theorems \<open>close_takes_two_passes\<close>,
    \<open>open_takes_two_passes\<close>, \<open>reindex_restarts_fade\<close>, and
    \<open>settle_terminates\<close>: the loop of a commit ends after one or two passes.

  \<^item> \<open>Overlay_Spec\<close>: the specification's machine of three phases (\<open>Hidden\<close>,
    \<open>FadingIn\<close>, \<open>Shown\<close>, linearly ordered) with \<open>phase_step\<close>, the phase
    \<open>phase_of\<close> of a component state and the signal \<open>signal_of\<close> of an event.
    Theorem \<open>race_free_run_refines\<close> is the refinement: along every run on which
    the overlay is never closed while a posted call is pending, the component's
    phase is the abstract machine's. Theorems \<open>stale_completion\<close> and
    \<open>stale_reopen_skips_fade\<close> show what happens on the other runs: the call
    posted by a completed fade is delivered after the close, sets the flag on
    the hidden overlay, and the next opening skips its fade.

  \<^item> \<open>Overlay_Reference\<close>: the delivery the specification asks for
    (sections 5 and 9), as a reference machine: \<open>deliver_checked\<close> applies a
    posted call only if the overlay is visible and its owned opacity has
    reached 1 (\<open>completion_current\<close>) and drops it otherwise; \<open>step_checked\<close>
    is the step function with this delivery. Theorems \<open>agrees_with_reference\<close>
    (on runs without a race the component and the reference machine reach the
    same world), \<open>reference_hidden_clean\<close> and \<open>reference_refines\<close> (on all
    runs the reference machine keeps the flag of a hidden overlay clear and
    refines the three-phase machine).

  \<^item> \<open>Overlay_Interleaving\<close>: the order of events from sources that do not
    wait for each other. \<open>independent\<close> decides, from two events and the
    index and queue of a world, whether they may be exchanged; one lemma for
    each pair of operations gives the condition under which they commute.
    Theorem \<open>independent_commute\<close>: independent events lead to the same world
    in either order. Lemmas \<open>close_deliver_race\<close> and
    \<open>deliver_set_index_iff\<close>: a closing render and a posted call are the pair
    for which the order shows, and for a render and a posted call the condition
    of \<open>independent\<close> is exact. Theorem
    \<open>always_recoverable\<close>: running the posted calls (\<open>drain\<close>) and then
    closing brings every reachable world back to the state of a freshly
    mounted overlay.

  \<^item> \<open>Overlay_Gestures\<close>: touches on the rendered surface, through the
    recogniser the element configures (tolerance 16 on both axes), to the
    callback. Theorems \<open>tap_within_tolerance_closes\<close>,
    \<open>drag_beyond_tolerance_ignored\<close>, \<open>closes_once_per_END\<close>,
    \<open>closes_bounded_by_lifts\<close> (for every sequence of touches).

  \<^item> This theory: the agreement of the relational and the functional machine
    (lemma \<open>reachable_iff_run\<close>) and one whole session from opening to
    closing (theorem \<open>session_round_trip\<close>).

  \<^bold>\<open>Modelling decisions.\<close>

  \<^item> One run of the effect applies its setter calls in source order and the
    state they leave is committed at once. The worlds of the machine are the
    worlds between commits; the element React shows before the effect has run
    is not a world but the first entry of \<open>passes\<close>.

  \<^item> The effect's dependency list is the remembered index \<open>deps\<close> of the fiber;
    \<open>None\<close> before the first commit, so that the effect always runs on mount.

  \<^item> The sheet index is an integer in \<open>props\<close> and in every theory but
    \<open>Overlay_Numbers\<close>. Nothing is lost by it: the component reads the index
    only in the test \<^verbatim>\<open>> 0\<close> and in the dependency list, and by
    \<open>integer_model_complete\<close> every sequence of renders with JavaScript numbers
    has a sequence with integers that leaves the same state.

  \<^item> The prop \<^verbatim>\<open>animatedBottomSheetIndex\<close> is, in \<open>props\<close> and in every theory
    but \<open>Overlay_Worklet\<close>, the number its shared value holds, and the
    animated style reads it afresh. By \<open>steady_scene_refines\<close> this describes
    the component as long as the parent does not replace the shared value
    while the fade-complete flag is set; the parent in the repository creates
    it once. The dependency list of \<^verbatim>\<open>useAnimatedStyle\<close> has React's meaning:
    the updater of a render replaces the one in force when a dependency
    differs from the last render's.

  \<^item> An animation assigned by the effect starts at the clock of the commit
    in which the effect runs (\<open>set_opacity\<close> passes it to \<open>assign\<close>); the
    first frame after it already counts the time since then.

  \<^item> \<open>runOnJS\<close> is the posted call as the JS thread runs it. In the source
    \<^verbatim>\<open>runOnJS(setFadedIn)(true)\<close> is evaluated on the animation thread and
    posts the call; in the model the posting is what \<open>frame\<close> returns and
    \<open>tick\<close> appends to the queue, the posted call is the datum
    \<open>SetFadedIn True\<close>, and \<open>runOnJS\<close> applies it when \<open>deliver\<close> takes it
    from the queue.

  \<^item> The values of the context are \<^verbatim>\<open>undefined\<close>, \<^verbatim>\<open>null\<close>, strings, numbers
    and objects; a \<open>TypeError\<close> carries the key that could not be read and
    no message. A style array holds style objects only: the falsy entries
    that the style system skips do not occur in the array of lines 86-91.

  \<^item> The recogniser is a single-touch model made from the one sentence the
    specification has on the tolerance; the theorems about touches
    (\<open>Overlay_Gestures\<close>) are as good as that model, the theorems about
    reported states (\<open>tap_closes_on_END\<close>, \<open>closes_once_per_END\<close>) do not
    depend on it.

  \<^item> The theorems about the reference machine (\<open>reference_hidden_clean\<close>,
    \<open>reference_refines\<close>) are about the design the specification asks for,
    not about the component; \<open>agrees_with_reference\<close> and \<open>stale_completion\<close>
    are what relates the component to it.

  \<^item> The easing curve is kept as the term \<open>Out Ease\<close>. What \<^verbatim>\<open>Easing.ease\<close>
    computes, a cubic Bezier, is the parameter \<open>base\<close> of \<open>frame\<close>, \<open>step\<close> and
    \<open>reachable\<close>; the theorems that need anything of it assume \<open>unit_map base\<close>.

  \<^item> Time is a natural number of milliseconds, a frame is the time since the
    previous one. The loop of a commit is the one recursion that is not
    structural: \<open>settle\<close> is a partial function into \<open>option\<close>, and
    \<open>settle_terminates\<close> shows that it returns, after two passes at most, for
    every fiber, theme and props; no fuel is needed. Every other function is
    structurally recursive over a list of events, frames, touches or keys.

  \<^item> The theme is typed. The destructuring is modelled for every context
    value; the rest of the component for leaves of the declared types (a colour
    string, a style object), which \<open>as_theme\<close> reads. For leaves of other
    types \<open>call_in_context\<close> returns \<open>None\<close>: what the style system does with
    them is not part of the model.

  \<^item> The engine follows the specification: assigning a number to a shared
    value drops the running animation without notifying its callback.

  \<^item> \<open>closeGridView\<close> is a function on the caller's state, a type parameter
    of \<open>props\<close> and \<open>world\<close>; in the sample values the caller's state is a
    counter that the callback increments.

  \<^bold>\<open>Not modelled.\<close>

  \<^item> The import statements (lines 1-18) and the lines that only close a block
    (24, 96): they bind names and compute nothing. They are the lines of the
    file that no definition covers.

  \<^item> Unmounting. The effect returns no cleanup function, so the component
    itself does nothing on unmount; what the engine does with a running
    animation and a posted call of an unmounted component is not said in the
    specification and is not in the repository.

  \<^item> An engine that calls the callback of an animation that was dropped.
    The specification says a completion is notified when the animation has
    finished; the model follows it.

  \<^item> The rounding of floating-point numbers in the opacities: \<open>number\<close> is
    \<^typ>\<open>real\<close>. The component does no arithmetic on them; the arithmetic is
    the engine's interpolation, which is a parameter.

  \<^item> Theme leaves of other than the declared types: what the style system
    does with them is the style system's.

  \<^item> Touches with more than one pointer, the timing limits of the recogniser
    and simultaneous handlers: the component sets the two tolerances and
    nothing else.

  \<^item> Layout and colour: the style objects are passed on, not interpreted.

  \<^item> The theme provider, the bottom sheet and the caller, outside the file:
    they appear as the context value, as the store and the events \<open>SetIndex\<close>,
    \<open>Drag\<close>, \<open>Pass\<close> and \<open>Write\<close>, and as the function \<open>closeGridView\<close> on the
    caller's state.
\<close>

section \<open>Properties that span the components\<close>

text \<open>
  The relational and the executable presentation of the machine agree:
  a world is reachable by the transition relation exactly when it is the result
  of running the step function from some first commit over some list of events
  each of which is enabled where it occurs.
\<close>

lemma reachable_iff_run:
  "reachable base w \<longleftrightarrow>
     (\<exists>th p c t0 es. admissible enabled (step base) (mount th p c t0) es \<and>
        w = run base (mount th p c t0) es)"
proof
  assume "reachable base w"
  then show "\<exists>th p c t0 es. admissible enabled (step base) (mount th p c t0) es \<and>
      w = run base (mount th p c t0) es"
  proof (induction rule: reachable.induct)
    case (r_mount th p c t0)
    have "admissible enabled (step base) (mount th p c t0) [] \<and>
        mount th p c t0 = run base (mount th p c t0) []"
      by simp
    then show ?case by blast
  next
    case (r_step w e w')
    then obtain th p c t0 es where es: "admissible enabled (step base) (mount th p c t0) es"
      and w: "w = run base (mount th p c t0) es"
      by blast
    from r_step.hyps(2) have "enabled w e" and "w' = step base w e"
      by (simp_all add: transition_iff)
    with es w have "admissible enabled (step base) (mount th p c t0) (es @ [e]) \<and>
        w' = run base (mount th p c t0) (es @ [e])"
      by (simp add: run_append) (simp add: run_def)
    then show ?case by blast
  qed
next
  assume "\<exists>th p c t0 es. admissible enabled (step base) (mount th p c t0) es \<and>
      w = run base (mount th p c t0) es"
  then show "reachable base w"
    by (auto intro: reachable_run r_mount)
qed

text \<open>
  C22. One whole session. From a reachable world with the overlay hidden and
  nothing pending: the sheet opens, the fade runs its course and its completion
  is delivered; a touch that stays within the tolerance is lifted; the parent
  then closes the sheet. At the end the caller has seen \<open>closeGridView\<close>
  exactly once, nothing is rendered, the overlay is back in phase \<open>Hidden\<close>
  with its fade-complete flag clear and its opacity at 0, and further touches
  cause no events at all.
\<close>

theorem session_round_trip:
  assumes "reachable base w" and "index_of w \<le> 0" and "js_queue w = []"
    and "0 < i" and "200 \<le> sum_list dts"
    and "\<forall>m \<in> set ms. in_tolerance 16 16 (x, y) m" and "j \<le> 0"
    and w1: "w1 = run base w (SetIndex i # map Frame dts @ [Deliver])"
    and w2: "w2 = run base w1 (touches w1 (Down x y # ms @ [Up]))"
    and w3: "w3 = step base w2 (SetIndex j)"
  shows "caller w3 = closeGridView (the_props w) (caller w) \<and> element w3 = None \<and>
         phase_of (state_of w3) = Hidden \<and> \<not> fadedIn (state_of w3) \<and>
         opacity (state_of w3) = useSharedValue 0 \<and> js_queue w3 = [] \<and> touches w3 ts = []"
proof -
  note f = faded_world [OF assms(1,2,3,4,5), folded w1]
  then have "visible (state_of w1)" by simp
  from run_tap [OF this assms(6), of base, folded w2]
  have e2: "w2 = w1\<lparr>caller := closeGridView (the_props w1) (caller w1)\<rparr>"
    by (simp add: tapEvent_def)
  from assms(4,7) show ?thesis
    unfolding w3 e2 f
    by (simp add: useEffect_def index_effect_def element_def render_def phase_of_def
        touches_def)
qed

theorem session_round_trip_witness:
  "reachable (\<lambda>t. t * t) (sample_world 0) \<and> index_of (sample_world 0) \<le> 0 \<and>
   js_queue (sample_world 0) = [] \<and> (0::int) < 1 \<and> (200::nat) \<le> sum_list [16, 184] \<and>
   list_all (in_tolerance 16 16 (10, 10)) [Move 12 9] \<and> (0::int) \<le> 0 \<and>
   caller (step (\<lambda>t. t * t)
     (run (\<lambda>t. t * t) (run (\<lambda>t. t * t) (sample_world 0) (SetIndex 1 # map Frame [16, 184] @ [Deliver]))
        (touches (run (\<lambda>t. t * t) (sample_world 0) (SetIndex 1 # map Frame [16, 184] @ [Deliver]))
           (Down 10 10 # [Move 12 9] @ [Up])))
     (SetIndex 0)) = 1"
proof -
  have r: "reachable (\<lambda>t. t * t) (sample_world 0)" by simp
  have i: "index_of (sample_world 0) \<le> 0" by simp
  have q: "js_queue (sample_world 0) = []" by simp
  have o: "(0::int) < 1" and c: "(0::int) \<le> 0" by simp_all
  have s: "(200::nat) \<le> sum_list [16, 184]" by simp
  have m: "\<forall>m \<in> set [Move 12 9]. in_tolerance 16 16 (10, 10) m"
    by (simp add: in_tolerance_def exceeds_def)
  from session_round_trip [OF r i q o s m c refl refl refl] m
  show ?thesis
    by (simp del: run_Cons step.simps)
qed

end
